theory Spec2Isabelle
  imports Main "HOL-Library.AList" "HOL-Library.Char_ord" "HOL-Library.List_Lexorder"
    "HOL-Library.Product_Lexorder"
begin

section \<open>Python string operations used by the parsers\<close>

text \<open>
  Text is a list of 8-bit characters. Only the operations the parsers call are modelled,
  each with the behaviour of the Python built-in on such text.
\<close>

definition isspace :: "char \<Rightarrow> bool" where
  \<comment> \<open>the characters \<^verbatim>\<open>str.strip()\<close>, \<^verbatim>\<open>str.split()\<close> and the pattern \<^verbatim>\<open>\s\<close> treat as whitespace\<close>
  "isspace c = (c \<in> set [CHR 0x09, CHR 0x0A, CHR 0x0B, CHR 0x0C, CHR 0x0D,
                          CHR 0x1C, CHR 0x1D, CHR 0x1E, CHR 0x1F, CHR 0x20, CHR 0x85, CHR 0xA0])"

definition isdigit :: "char \<Rightarrow> bool" where
  \<comment> \<open>the pattern \<^verbatim>\<open>\d\<close>\<close>
  "isdigit c = (c \<in> set ''0123456789'')"

definition strip :: "string \<Rightarrow> string" where
  \<comment> \<open>\<^verbatim>\<open>s.strip()\<close>\<close>
  "strip s = rev (dropWhile isspace (rev (dropWhile isspace s)))"

fun startswith :: "string \<Rightarrow> string \<Rightarrow> bool" where
  \<comment> \<open>\<^verbatim>\<open>s.startswith(p)\<close>\<close>
  "startswith s [] = True"
| "startswith [] (p # ps) = False"
| "startswith (c # cs) (p # ps) = (c = p \<and> startswith cs ps)"

fun contains :: "string \<Rightarrow> string \<Rightarrow> bool" where
  \<comment> \<open>\<^verbatim>\<open>p in s\<close>, written \<open>contains s p\<close>\<close>
  "contains [] p = (p = [])"
| "contains (c # cs) p = (startswith (c # cs) p \<or> contains cs p)"

function split_acc :: "string \<Rightarrow> string \<Rightarrow> string \<Rightarrow> string list" where
  "split_acc sep cur s =
     (if sep \<noteq> [] \<and> startswith s sep then rev cur # split_acc sep [] (drop (length sep) s)
      else case s of [] \<Rightarrow> [rev cur] | c # cs \<Rightarrow> split_acc sep (c # cur) cs)"
  by pat_completeness auto
termination
proof (relation "measure (\<lambda>(sep, cur, s). length s)")
  fix sep cur s :: string
  assume "sep \<noteq> [] \<and> startswith s sep"
  then have "s \<noteq> []" by (cases s; cases sep) auto
  with \<open>sep \<noteq> [] \<and> startswith s sep\<close>
  show "((sep, [], drop (length sep) s), (sep, cur, s)) \<in> measure (\<lambda>(sep, cur, s). length s)"
    by simp
qed auto

declare split_acc.simps [simp del]

definition split :: "string \<Rightarrow> string \<Rightarrow> string list" where
  \<comment> \<open>\<^verbatim>\<open>s.split(sep)\<close> for a non-empty separator, written \<open>split s sep\<close>\<close>
  "split s sep = split_acc sep [] s"

fun split_once_acc :: "string \<Rightarrow> string \<Rightarrow> string \<Rightarrow> string list" where
  "split_once_acc sep cur [] = [rev cur]"
| "split_once_acc sep cur (c # cs) =
     (if sep \<noteq> [] \<and> startswith (c # cs) sep then [rev cur, drop (length sep) (c # cs)]
      else split_once_acc sep (c # cur) cs)"

definition split_once :: "string \<Rightarrow> string \<Rightarrow> string list" where
  \<comment> \<open>\<^verbatim>\<open>s.split(sep, 1)\<close>\<close>
  "split_once s sep = split_once_acc sep [] s"

definition remove_char :: "char \<Rightarrow> string \<Rightarrow> string" where
  \<comment> \<open>\<^verbatim>\<open>s.replace(c, '')\<close> for a single character \<open>c\<close>\<close>
  "remove_char c s = filter (\<lambda>x. x \<noteq> c) s"

definition lower_char :: "char \<Rightarrow> char" where
  "lower_char c =
     (let n = (of_char c :: nat)
      in if (65 \<le> n \<and> n \<le> 90) \<or> (192 \<le> n \<and> n \<le> 222 \<and> n \<noteq> 215) then char_of (n + 32) else c)"

definition lower :: "string \<Rightarrow> string" where
  \<comment> \<open>\<^verbatim>\<open>s.lower()\<close>\<close>
  "lower s = map lower_char s"

definition replace_char :: "char \<Rightarrow> char \<Rightarrow> string \<Rightarrow> string" where
  \<comment> \<open>\<^verbatim>\<open>s.replace(a, b)\<close> for single characters\<close>
  "replace_char a b s = map (\<lambda>x. if x = a then b else x) s"

function remove_all :: "string \<Rightarrow> string \<Rightarrow> string" where
  \<comment> \<open>\<^verbatim>\<open>s.replace(old, '')\<close> for a non-empty \<open>old\<close>, written \<open>remove_all old s\<close>\<close>
  "remove_all old s =
     (if old \<noteq> [] \<and> startswith s old then remove_all old (drop (length old) s)
      else case s of [] \<Rightarrow> [] | c # cs \<Rightarrow> c # remove_all old cs)"
  by pat_completeness auto
termination
proof (relation "measure (\<lambda>(old, s). length s)")
  fix old s :: string
  assume a: "old \<noteq> [] \<and> startswith s old"
  then have "s \<noteq> []" by (cases s; cases old) auto
  with a show "((old, drop (length old) s), (old, s)) \<in> measure (\<lambda>(old, s). length s)"
    by simp
qed auto

declare remove_all.simps [simp del]

definition endswith :: "string \<Rightarrow> string \<Rightarrow> bool" where
  \<comment> \<open>\<^verbatim>\<open>s.endswith(p)\<close>\<close>
  "endswith s p = startswith (rev s) (rev p)"

fun str_find :: "string \<Rightarrow> string \<Rightarrow> nat option" where
  \<comment> \<open>\<^verbatim>\<open>s.find(p)\<close>; \<open>None\<close> stands for \<^verbatim>\<open>-1\<close>\<close>
  "str_find [] p = (if p = [] then Some 0 else None)"
| "str_find (c # cs) p = (if startswith (c # cs) p then Some 0 else map_option Suc (str_find cs p))"

fun words_acc :: "string \<Rightarrow> string \<Rightarrow> string list" where
  "words_acc cur [] = (if cur = [] then [] else [rev cur])"
| "words_acc cur (c # cs) =
     (if isspace c then (if cur = [] then [] else [rev cur]) @ words_acc [] cs
      else words_acc (c # cur) cs)"

definition words :: "string \<Rightarrow> string list" where
  \<comment> \<open>\<^verbatim>\<open>s.split()\<close>\<close>
  "words s = words_acc [] s"

fun join :: "string \<Rightarrow> string list \<Rightarrow> string" where
  \<comment> \<open>\<^verbatim>\<open>sep.join(xs)\<close>\<close>
  "join sep [] = []"
| "join sep [x] = x"
| "join sep (x # y # ys) = x @ sep @ join sep (y # ys)"

definition isupper_char :: "char \<Rightarrow> bool" where
  "isupper_char c = (let n = (of_char c :: nat) in (65 \<le> n \<and> n \<le> 90) \<or> (192 \<le> n \<and> n \<le> 222 \<and> n \<noteq> 215))"

definition islower_char :: "char \<Rightarrow> bool" where
  "islower_char c = (let n = (of_char c :: nat) in (97 \<le> n \<and> n \<le> 122) \<or> (224 \<le> n \<and> n \<le> 254 \<and> n \<noteq> 247))"

definition upper_char :: "char \<Rightarrow> char" where
  "upper_char c = (if islower_char c then char_of ((of_char c :: nat) - 32) else c)"

fun title_from :: "bool \<Rightarrow> string \<Rightarrow> string" where
  "title_from prev_cased [] = []"
| "title_from prev_cased (c # cs) =
     (if isupper_char c \<or> islower_char c
      then (if prev_cased then lower_char c else upper_char c) # title_from True cs
      else c # title_from False cs)"

definition title :: "string \<Rightarrow> string" where
  \<comment> \<open>\<^verbatim>\<open>s.title()\<close>, on the letters whose other case is an 8-bit character too\<close>
  "title s = title_from False s"

definition truthy :: "string option \<Rightarrow> bool" where
  \<comment> \<open>the truth value of a variable that holds \<^verbatim>\<open>None\<close> or a string\<close>
  "truthy x = (case x of None \<Rightarrow> False | Some s \<Rightarrow> s \<noteq> [])"

section \<open>clarity\_parser.py: office, party and candidate text\<close>

definition parse_office :: "string option \<Rightarrow> string \<times> string option" where
  "parse_office office_text0 =
     (case office_text0 of None \<Rightarrow> ('''', None) | Some raw \<Rightarrow>
      if raw = [] then ('''', None) else
      let office_text = strip raw;
          office = (if contains office_text '' - '' then strip (hd (split office_text '' - ''))
                    else if contains office_text '','' then strip (hd (split office_text '',''))
                    else office_text);
          district =
            (if contains office_text '', District'' then
               (let district_part = split office_text '', District'' ! 1 in
                if contains district_part '' - '' then Some (strip (hd (split district_part '' - '')))
                else Some (strip district_part))
             else if contains office_text '', Dist'' then
               (let district_part = split office_text '', Dist'' ! 1 in
                if contains district_part '' - '' then Some (strip (hd (split district_part '' - '')))
                else Some (strip district_part))
             else if contains office_text ''Precinct'' then
               Some (strip (split office_text ''Precinct'' ! 1))
             else if contains office_text '', Pl '' then
               (let place_part = split office_text '', Pl '' ! 1 in
                if contains place_part '' - '' then Some (strip (hd (split place_part '' - '')))
                else Some (strip place_part))
             else None)
      in if contains office ''President/Vice President'' then (''President'', district)
         else if contains office ''United States Senator'' \<or> contains office ''US Senator''
                 \<or> contains office ''U. S. Senator'' then (''U.S. Senate'', None)
         else if contains office ''US Representative'' \<or> contains office ''U.S. Representative''
                 \<or> contains office ''United States Representative'' then (''U.S. House'', district)
         else (office, district))"

definition parse_party :: "string \<Rightarrow> string option" where
  "parse_party office_text =
     (if contains office_text ''- REP'' then Some ''REP''
      else if contains office_text ''- DEM'' then Some ''DEM''
      else None)"

definition parse_candidate_party :: "string \<Rightarrow> string \<times> string option" where
  "parse_candidate_party candidate_text =
     (let candidate = strip candidate_text in
      if contains candidate ''('' then
        if contains candidate ''(I)'' then
          if contains candidate ''(I)(I)'' then (strip (hd (split candidate ''(I)'')), Some ''I'')
          else
            (let parts = split candidate ''(I)'';
                 candidate' = strip (hd parts)
             in if length parts > 1 \<and> strip (parts ! 1) \<noteq> [] then (candidate' @ '' (I)'', Some ''I'')
                else (candidate', Some ''I''))
        else
          (let parts = split_once candidate ''('' in
           (strip (hd parts), Some (strip (remove_char CHR '')'' (parts ! 1)))))
      else (candidate, None))"

definition clean_candidate_name :: "string \<Rightarrow> string" where
  "clean_candidate_name candidate_text =
     (if candidate_text = [] then candidate_text else
      let candidate = strip candidate_text in
      case filter (startswith candidate) [''REP '', ''DEM '', ''LIB '', ''GRN '', ''IND ''] of
        [] \<Rightarrow> candidate
      | prefix # _ \<Rightarrow> strip (drop (length prefix) candidate))"

section \<open>Python values, dictionaries and errors\<close>

datatype cell = NoneV | Str string | Num int

datatype py_error = TypeError | ValueError

text \<open>
  A \<^verbatim>\<open>dict\<close> is an association list with distinct keys in insertion order:
  \<^const>\<open>AList.update\<close> overwrites the value of a present key in place and appends a new key
  at the end, as \<^verbatim>\<open>d[k] = v\<close> does; \<^const>\<open>map_of\<close> is the lookup.
\<close>

definition opt_cell :: "string option \<Rightarrow> cell" where
  "opt_cell x = (case x of None \<Rightarrow> NoneV | Some s \<Rightarrow> Str s)"

section \<open>clarity\_parser.py: the precinct path\<close>

record choice =
  choice_text :: "string option"
  choice_party :: "string option"

record cresult =
  vote_type :: string
  choice :: "choice option"
  contest_text :: "string option"
  jurisdiction :: "string option"
  votes :: int

text \<open>
  \<open>choice_party\<close> is \<open>None\<close> also for a choice object without the attribute;
  \<open>jurisdiction\<close> is the name of \<^verbatim>\<open>result.jurisdiction\<close>, \<open>None\<close> when the result has none.
  The parser object carries \<^verbatim>\<open>p.results\<close> and, when it has the attribute, \<^verbatim>\<open>p.region\<close>.
\<close>

record parser =
  has_region :: bool
  region :: "string option"
  results :: "cresult list"

type_synonym key = "string option \<times> string \<times> string \<times> string option \<times> string option \<times> string option"

type_synonym payload = "(string \<times> int) list"

type_synonym store = "(key \<times> payload) list"

definition set_item :: "store \<Rightarrow> key \<Rightarrow> string \<Rightarrow> int \<Rightarrow> store" where
  \<comment> \<open>\<^verbatim>\<open>results[key][vt] = v\<close> on a \<^verbatim>\<open>defaultdict(lambda: defaultdict(int))\<close>\<close>
  "set_item rs k vt v =
     AList.update k (AList.update vt v (case map_of rs k of None \<Rightarrow> [] | Some pl \<Rightarrow> pl)) rs"

definition excluded_vote_types :: "string list" where
  "excluded_vote_types = [''Number of Precincts'', ''Overvotes'', ''Undervotes'']"

definition add_vote_type :: "string list \<Rightarrow> string \<Rightarrow> string list" where
  \<comment> \<open>\<^verbatim>\<open>vote_types.add(vt)\<close>; the set is kept as the list of its members in order of first arrival\<close>
  "add_vote_type vts vt = (if vt \<in> set vts then vts else vts @ [vt])"

definition ingest :: "string \<Rightarrow> parser \<Rightarrow> store \<times> string list \<Rightarrow> cresult \<Rightarrow> store \<times> string list" where
  \<comment> \<open>one iteration of \<^verbatim>\<open>for result in p.results\<close>\<close>
  "ingest county_name p acc r =
     (let (rs, vote_types) = acc in
      if vote_type r \<in> set excluded_vote_types then (rs, vote_types)
      else case choice r of None \<Rightarrow> (rs, vote_types) | Some ch \<Rightarrow>
        let vote_types' = add_vote_type vote_types (vote_type r);
            candidate = (case choice_text ch of None \<Rightarrow> '''' | Some t \<Rightarrow> if t = [] then '''' else strip t)
        in if candidate = [] then (rs, vote_types') else
           let (office, district) = parse_office (contest_text r);
               party = choice_party ch;
               (candidate, party) =
                 (if contains candidate ''('' \<and> party = None then parse_candidate_party candidate
                  else (candidate, party));
               candidate = clean_candidate_name candidate;
               county = (if has_region p then region p else Some county_name)
           in case jurisdiction r of None \<Rightarrow> (rs, vote_types')
              | Some precinct \<Rightarrow>
                  (set_item rs (county, precinct, office, district, party, Some candidate)
                     (vote_type r) (votes r), vote_types'))"

fun digit_value :: "char \<Rightarrow> int" where
  "digit_value c = int (of_char c) - 48"

definition int_body_ok :: "string \<Rightarrow> bool" where
  \<comment> \<open>digits, with single underscores allowed between digits\<close>
  "int_body_ok b =
     (b \<noteq> [] \<and> (\<forall>c \<in> set b. isdigit c \<or> c = CHR ''_'') \<and> hd b \<noteq> CHR ''_'' \<and> last b \<noteq> CHR ''_''
      \<and> \<not> contains b ''__'')"

definition py_int :: "string \<Rightarrow> int option" where
  \<comment> \<open>\<^verbatim>\<open>int(s)\<close>; \<open>None\<close> stands for the \<^verbatim>\<open>ValueError\<close>. The length limit on digit strings is not modelled.\<close>
  "py_int s =
     (let t = strip s;
          neg = (t \<noteq> [] \<and> hd t = CHR ''-'');
          b = (if t \<noteq> [] \<and> (hd t = CHR ''-'' \<or> hd t = CHR ''+'') then tl t else t)
      in if int_body_ok b
         then Some ((if neg then -1 else 1) * foldl (\<lambda>a c. 10 * a + digit_value c) 0 (filter isdigit b))
         else None)"

datatype xml = Elem string "(string \<times> string) list" "xml list"

fun tag :: "xml \<Rightarrow> string" where
  "tag (Elem t a cs) = t"

fun attr :: "xml \<Rightarrow> string \<Rightarrow> string option" where
  \<comment> \<open>\<^verbatim>\<open>e.get(name)\<close>\<close>
  "attr (Elem t a cs) n = map_of a n"

definition attr_default :: "xml \<Rightarrow> string \<Rightarrow> string \<Rightarrow> string" where
  \<comment> \<open>\<^verbatim>\<open>e.get(name, default)\<close>\<close>
  "attr_default e n d = (case attr e n of None \<Rightarrow> d | Some v \<Rightarrow> v)"

fun descendants :: "xml \<Rightarrow> xml list" where
  \<comment> \<open>all elements below the given one, in document order\<close>
  "descendants (Elem t a cs) = concat (map (\<lambda>c. c # descendants c) cs)"

definition xml_findall :: "xml \<Rightarrow> string \<Rightarrow> xml list" where
  \<comment> \<open>\<^verbatim>\<open>e.findall('.//Tag')\<close>\<close>
  "xml_findall e t = filter (\<lambda>x. tag x = t) (descendants e)"

definition xml_find :: "xml \<Rightarrow> string \<Rightarrow> xml option" where
  \<comment> \<open>\<^verbatim>\<open>e.find('.//Tag')\<close>\<close>
  "xml_find e t = (case xml_findall e t of [] \<Rightarrow> None | x # _ \<Rightarrow> Some x)"

definition reg_key :: "string \<Rightarrow> string \<Rightarrow> key" where
  "reg_key county_name precinct_name = (Some county_name, precinct_name, ''Registered Voters'', None, None, None)"

definition ballots_key :: "string \<Rightarrow> string \<Rightarrow> key" where
  "ballots_key county_name precinct_name = (Some county_name, precinct_name, ''Ballots Cast'', None, None, None)"

text \<open>
  The body of the \<^verbatim>\<open>try\<close> in \<^verbatim>\<open>add_voter_turnout_rows\<close> threads the store together with a flag
  that an exception has been raised; once it is set the remaining statements are skipped and
  the store keeps what was written before. In \<^verbatim>\<open>results[k][m] = int(s)\<close> the right-hand side is
  evaluated first, so a failing conversion writes nothing.
\<close>

definition set_int_item :: "store \<times> bool \<Rightarrow> key \<Rightarrow> string \<Rightarrow> string \<Rightarrow> store \<times> bool" where
  "set_int_item acc k m s =
     (let (rs, raised) = acc in
      if raised then (rs, True)
      else case py_int s of None \<Rightarrow> (rs, True) | Some n \<Rightarrow> (set_item rs k m n, False))"

definition turnout_precinct :: "string \<Rightarrow> store \<times> bool \<Rightarrow> xml \<Rightarrow> store \<times> bool" where
  \<comment> \<open>one iteration of the first \<^verbatim>\<open>for precinct in precincts\<close>\<close>
  "turnout_precinct county_name acc precinct =
     (case attr precinct ''name'' of None \<Rightarrow> acc | Some precinct_name \<Rightarrow>
      if precinct_name = [] then acc else
      let total_voters = attr_default precinct ''totalVoters'' ''0'';
          ballots_cast = attr_default precinct ''ballotsCast'' ''0'';
          acc1 = (if total_voters \<noteq> [] \<and> total_voters \<noteq> ''0''
                  then set_int_item acc (reg_key county_name precinct_name) ''votes_only'' total_voters
                  else acc)
      in if ballots_cast \<noteq> [] \<and> ballots_cast \<noteq> ''0''
         then set_int_item acc1 (ballots_key county_name precinct_name) ''ballotsCast'' ballots_cast
         else acc1)"

definition turnout_vote_type_precinct :: "string \<Rightarrow> string \<Rightarrow> store \<times> bool \<Rightarrow> xml \<Rightarrow> store \<times> bool" where
  \<comment> \<open>one iteration of the inner loop over the precincts of a \<^verbatim>\<open>VoteType\<close> element\<close>
  "turnout_vote_type_precinct county_name vote_type_name acc precinct =
     (case attr precinct ''name'' of None \<Rightarrow> acc | Some precinct_name \<Rightarrow>
      let votes_attr = attr_default precinct ''votes'' ''0'' in
      if precinct_name \<noteq> [] \<and> votes_attr \<noteq> [] \<and> votes_attr \<noteq> ''0''
      then set_int_item acc (ballots_key county_name precinct_name) vote_type_name votes_attr
      else acc)"

definition turnout_vote_type :: "string \<Rightarrow> store \<times> bool \<Rightarrow> xml \<Rightarrow> store \<times> bool" where
  "turnout_vote_type county_name acc vote_type_elem =
     (case attr vote_type_elem ''name'' of None \<Rightarrow> acc | Some vote_type_name \<Rightarrow>
      if vote_type_name \<noteq> [] \<and> vote_type_name \<noteq> ''regVotersCounty''
      then foldl (turnout_vote_type_precinct county_name vote_type_name) acc (xml_findall vote_type_elem ''Precinct'')
      else acc)"

definition turnout_from_xml :: "string \<Rightarrow> store \<Rightarrow> xml \<Rightarrow> store \<times> bool" where
  \<comment> \<open>the \<^verbatim>\<open>try\<close> body after \<^verbatim>\<open>ET.parse\<close> has returned the root\<close>
  "turnout_from_xml county_name rs root =
     (case xml_find root ''VoterTurnout'' of None \<Rightarrow> (rs, False)
      | Some voter_turnout_elem \<Rightarrow>
          foldl (turnout_vote_type county_name)
            (foldl (turnout_precinct county_name) (rs, False) (xml_findall voter_turnout_elem ''Precinct''))
            (xml_findall voter_turnout_elem ''VoteType''))"

definition add_reg_voters :: "(string \<times> int) list \<Rightarrow> cresult \<Rightarrow> (string \<times> int) list" where
  \<comment> \<open>one iteration of the loop of the \<^verbatim>\<open>except\<close> branch that fills \<^verbatim>\<open>reg_voters_data\<close>\<close>
  "add_reg_voters d r =
     (if vote_type r = ''regVotersCounty'' then
        case jurisdiction r of None \<Rightarrow> d | Some precinct_name \<Rightarrow>
          if precinct_name \<noteq> [] \<and> votes r \<noteq> 0
          then AList.update precinct_name
                 ((case map_of d precinct_name of None \<Rightarrow> 0 | Some n \<Rightarrow> n) + votes r) d
          else d
      else d)"

definition turnout_fallback :: "string \<Rightarrow> store \<Rightarrow> parser \<Rightarrow> store" where
  \<comment> \<open>the \<^verbatim>\<open>except Exception\<close> branch\<close>
  "turnout_fallback county_name rs p =
     foldl (\<lambda>rs (precinct, reg_voters).
              if reg_voters > 0 then set_item rs (reg_key county_name precinct) ''votes_only'' reg_voters
              else rs)
       rs (foldl add_reg_voters [] (results p))"

definition add_voter_turnout_rows :: "store \<Rightarrow> parser \<Rightarrow> string \<Rightarrow> xml option \<Rightarrow> store" where
  \<comment> \<open>the last argument is the root that \<^verbatim>\<open>ET.parse("detail.xml")\<close> returns, \<open>None\<close> when it raises\<close>
  "add_voter_turnout_rows rs p county_name doc =
     (case doc of None \<Rightarrow> turnout_fallback county_name rs p
      | Some root \<Rightarrow>
          (let (rs', raised) = turnout_from_xml county_name rs root
           in if raised then turnout_fallback county_name rs' p else rs'))"

type_synonym row = "(string \<times> cell) list"

definition column_name :: "string \<Rightarrow> string" where
  \<comment> \<open>\<^verbatim>\<open>vt.replace(' ', '_').lower()\<close>\<close>
  "column_name vt = lower (replace_char CHR '' '' CHR ''_'' vt)"

definition vote_total :: "string \<Rightarrow> payload \<Rightarrow> int" where
  "vote_total office vote_data =
     (if office = ''Registered Voters''
      then (case map_of vote_data ''votes_only'' of None \<Rightarrow> 0 | Some v \<Rightarrow> v)
      else sum_list (map snd (filter (\<lambda>kv. fst kv \<noteq> ''votes_only'') vote_data)))"

definition output_party :: "string \<Rightarrow> string option \<Rightarrow> string option" where
  \<comment> \<open>the block headed \<^verbatim>\<open># Handle special party cases\<close>\<close>
  "output_party office party =
     (if contains office ''Republican'' then Some ''REP''
      else if contains office ''Democrat'' then Some ''DEM''
      else party)"

definition add_column :: "string \<Rightarrow> payload \<Rightarrow> row \<Rightarrow> string \<Rightarrow> row" where
  \<comment> \<open>one iteration of \<^verbatim>\<open>for vt in vote_types\<close>\<close>
  "add_column office vote_data row_data vt =
     (if vt \<noteq> ''votes_only'' then
        if office = ''Registered Voters'' then AList.update (column_name vt) (Str '''') row_data
        else AList.update (column_name vt)
               (Num (case map_of vote_data vt of None \<Rightarrow> 0 | Some v \<Rightarrow> v)) row_data
      else row_data)"

definition base_row :: "key \<Rightarrow> payload \<Rightarrow> row" where
  "base_row k vote_data =
     (let (county, precinct, office, district, party, candidate) = k
      in [(''county'', opt_cell county), (''precinct'', Str precinct), (''office'', Str office),
          (''district'', opt_cell district), (''party'', opt_cell (output_party office party)),
          (''candidate'', opt_cell candidate), (''votes'', Num (vote_total office vote_data))])"

definition make_row :: "string list \<Rightarrow> key \<times> payload \<Rightarrow> row" where
  \<comment> \<open>one iteration of \<^verbatim>\<open>for key, vote_data in results.items()\<close>\<close>
  "make_row vote_types kv =
     (let (k, vote_data) = kv; (county, precinct, office, district, party, candidate) = k
      in foldl (add_column office vote_data) (base_row k vote_data) vote_types)"

definition item :: "row \<Rightarrow> string \<Rightarrow> cell" where
  \<comment> \<open>\<^verbatim>\<open>row[name]\<close>, used only for names every row holds\<close>
  "item r n = (case map_of r n of None \<Rightarrow> NoneV | Some c \<Rightarrow> c)"

definition or_empty :: "cell \<Rightarrow> cell" where
  \<comment> \<open>\<^verbatim>\<open>x or ''\<close>\<close>
  "or_empty c = (if c = NoneV \<or> c = Str '''' \<or> c = Num 0 then Str '''' else c)"

definition sort_key_of :: "row \<Rightarrow> cell \<times> cell \<times> cell" where
  \<comment> \<open>\<^verbatim>\<open>lambda x: (x['office'], x['district'] or '', x['candidate'])\<close>\<close>
  "sort_key_of x = (item x ''office'', or_empty (item x ''district''), item x ''candidate'')"

text \<open>
  Python orders two strings by code point and two integers by value; \<^verbatim>\<open><\<close> between values of
  different types (or between \<^verbatim>\<open>None\<close> and anything) raises \<^verbatim>\<open>TypeError\<close>. Tuples are compared
  at the first position where they are unequal. \<open>rank\<close> embeds cells into a linear order that
  agrees with Python's wherever Python's is defined.
\<close>

definition cells_comparable :: "cell \<Rightarrow> cell \<Rightarrow> bool" where
  "cells_comparable a b =
     (case (a, b) of (Str _, Str _) \<Rightarrow> True | (Num _, Num _) \<Rightarrow> True | _ \<Rightarrow> a = b)"

definition keys_comparable :: "cell \<times> cell \<times> cell \<Rightarrow> cell \<times> cell \<times> cell \<Rightarrow> bool" where
  "keys_comparable a b =
     (let (a1, a2, a3) = a; (b1, b2, b3) = b
      in if a1 \<noteq> b1 then cells_comparable a1 b1
         else if a2 \<noteq> b2 then cells_comparable a2 b2
         else cells_comparable a3 b3)"

definition rank :: "cell \<Rightarrow> nat \<times> string \<times> int" where
  "rank c = (case c of NoneV \<Rightarrow> (0, [], 0) | Num n \<Rightarrow> (1, [], n) | Str s \<Rightarrow> (2, s, 0))"

definition rank_key :: "row \<Rightarrow> (nat \<times> string \<times> int) \<times> (nat \<times> string \<times> int) \<times> (nat \<times> string \<times> int)" where
  "rank_key x = (let (a, b, c) = sort_key_of x in (rank a, rank b, rank c))"

definition sort_rows :: "row list \<Rightarrow> py_error + row list" where
  \<comment> \<open>\<^verbatim>\<open>output_rows.sort(key=...)\<close>: a stable sort, raising \<^verbatim>\<open>TypeError\<close> when two keys cannot be compared\<close>
  "sort_rows rows =
     (if \<forall>a \<in> set rows. \<forall>b \<in> set rows. keys_comparable (sort_key_of a) (sort_key_of b)
      then Inr (sort_key rank_key rows) else Inl TypeError)"

definition base_headers :: "string list" where
  "base_headers = [''county'', ''precinct'', ''office'', ''district'', ''party'', ''candidate'', ''votes'']"

definition headers :: "string list \<Rightarrow> string list" where
  "headers vote_types = base_headers @ sort (map column_name vote_types)"

definition output_row :: "string list \<Rightarrow> row \<Rightarrow> row" where
  \<comment> \<open>\<^verbatim>\<open>{header: row.get(header, '') for header in headers}\<close>, in header order\<close>
  "output_row hs r = map (\<lambda>h. (h, case map_of r h of None \<Rightarrow> Str '''' | Some c \<Rightarrow> c)) hs"

definition aggregate :: "string \<Rightarrow> parser \<Rightarrow> xml option \<Rightarrow> store \<times> string list" where
  \<comment> \<open>the store and the vote types after the result loop and \<^verbatim>\<open>add_voter_turnout_rows\<close>\<close>
  "aggregate county_name p doc =
     (let (rs, vote_types) = foldl (ingest county_name p) ([], []) (results p)
      in (add_voter_turnout_rows rs p county_name doc, vote_types))"

definition precinct_results :: "string \<Rightarrow> bool \<Rightarrow> parser option \<Rightarrow> xml option
    \<Rightarrow> py_error + (string list \<times> row list) option" where
  \<comment> \<open>\<open>Inl\<close>: an exception leaves the function; \<open>Inr None\<close>: it returns \<^verbatim>\<open>False\<close> and writes no row;
      \<open>Inr (Some (hs, rows))\<close>: the header line and the rows written, in order. The arguments
      after the county name are whether \<^verbatim>\<open>detail.xml\<close> exists, the parser after \<^verbatim>\<open>p.parse\<close>
      (\<open>None\<close> when it raises) and the document root read by \<^verbatim>\<open>add_voter_turnout_rows\<close>.\<close>
  "precinct_results county_name detail_exists parsed doc =
     (if \<not> detail_exists then Inr None
      else case parsed of None \<Rightarrow> Inr None | Some p \<Rightarrow>
        let (rs, vote_types) = aggregate county_name p doc;
            output_rows = map (make_row vote_types) rs
        in case sort_rows output_rows of Inl e \<Rightarrow> Inl e
           | Inr sorted_rows \<Rightarrow>
               if sorted_rows = [] then Inr None
               else Inr (Some (headers vote_types, map (output_row (headers vote_types)) sorted_rows)))"

section \<open>Regular expressions\<close>

text \<open>
  The patterns of the parsers are built from character classes, literal text, groups,
  alternatives, an optional group, the quantifiers \<^verbatim>\<open>+\<close>, \<^verbatim>\<open>*\<close> and \<^verbatim>\<open>+?\<close> on a
  character class, and the anchors. A matcher state is the number of characters consumed,
  the rest of the subject and the groups set so far. \<open>matches r st\<close> lists every way \<open>r\<close>
  can match at \<open>st\<close>, in the order a backtracking matcher tries them: alternatives from left
  to right, a greedy quantifier from the longest run down, a lazy one from the shortest up.
  The first element is the match \<^verbatim>\<open>re\<close> reports.
\<close>

datatype cclass =
    C char                  \<comment> \<open>the character itself\<close>
  | CI char                 \<comment> \<open>the character under \<^verbatim>\<open>re.IGNORECASE\<close>\<close>
  | Digit                   \<comment> \<open>\<^verbatim>\<open>\d\<close>\<close>
  | Space                   \<comment> \<open>\<^verbatim>\<open>\s\<close>\<close>
  | Word                    \<comment> \<open>\<^verbatim>\<open>\w\<close>\<close>
  | Dot                     \<comment> \<open>\<^verbatim>\<open>.\<close>\<close>
  | Range char char         \<comment> \<open>\<^verbatim>\<open>a-z\<close> inside brackets\<close>
  | RangeCI char char       \<comment> \<open>the same under \<^verbatim>\<open>re.IGNORECASE\<close>\<close>
  | OneOf "cclass list"     \<comment> \<open>\<^verbatim>\<open>[...]\<close>\<close>
  | NoneOf "cclass list"    \<comment> \<open>\<^verbatim>\<open>[^...]\<close>\<close>

definition isalnum :: "char \<Rightarrow> bool" where
  "isalnum c =
     (let n = (of_char c :: nat)
      in (48 \<le> n \<and> n \<le> 57) \<or> (65 \<le> n \<and> n \<le> 90) \<or> (97 \<le> n \<and> n \<le> 122)
         \<or> n \<in> set [170, 178, 179, 181, 185, 186, 188, 189, 190]
         \<or> (192 \<le> n \<and> n \<noteq> 215 \<and> n \<noteq> 247))"

fun in_class :: "cclass \<Rightarrow> char \<Rightarrow> bool" where
  "in_class (C a) x = (x = a)"
| "in_class (CI a) x = (lower_char x = lower_char a)"
| "in_class Digit x = isdigit x"
| "in_class Space x = isspace x"
| "in_class Word x = (isalnum x \<or> x = CHR ''_'')"
| "in_class Dot x = (x \<noteq> CHR 0x0A)"
| "in_class (Range a b) x = ((of_char a :: nat) \<le> of_char x \<and> (of_char x :: nat) \<le> of_char b)"
| "in_class (RangeCI a b) x =
     (((of_char a :: nat) \<le> of_char x \<and> (of_char x :: nat) \<le> of_char b)
      \<or> ((of_char a :: nat) \<le> of_char (lower_char x) \<and> (of_char (lower_char x) :: nat) \<le> of_char b)
      \<or> ((of_char a :: nat) \<le> of_char (upper_char x) \<and> (of_char (upper_char x) :: nat) \<le> of_char b))"
| "in_class (OneOf cs) x = (\<exists>c \<in> set cs. in_class c x)"
| "in_class (NoneOf cs) x = (\<not> (\<exists>c \<in> set cs. in_class c x))"

datatype rx =
    Sym cclass              \<comment> \<open>one character of the class\<close>
  | Plus cclass             \<comment> \<open>\<^verbatim>\<open>c+\<close>\<close>
  | Star cclass             \<comment> \<open>\<^verbatim>\<open>c*\<close>\<close>
  | PlusLazy cclass         \<comment> \<open>\<^verbatim>\<open>c+?\<close>\<close>
  | Seq "rx list"           \<comment> \<open>concatenation\<close>
  | Alt "rx list"           \<comment> \<open>\<^verbatim>\<open>a|b|...\<close>\<close>
  | Opt rx                  \<comment> \<open>\<^verbatim>\<open>(?:r)?\<close>\<close>
  | Grp nat rx              \<comment> \<open>the capturing group with the given number\<close>
  | Bol                     \<comment> \<open>\<^verbatim>\<open>^\<close>\<close>
  | Eol                     \<comment> \<open>\<^verbatim>\<open>$\<close>\<close>

type_synonym groups = "(nat \<times> string) list"

type_synonym mstate = "nat \<times> string \<times> groups"

definition run :: "cclass \<Rightarrow> string \<Rightarrow> nat" where
  \<comment> \<open>the length of the longest run of class characters at the front\<close>
  "run c s = length (takeWhile (in_class c) s)"

definition advance :: "mstate \<Rightarrow> nat \<Rightarrow> mstate" where
  "advance st k = (let (n, s, g) = st in (n + k, drop k s, g))"

fun matches :: "rx \<Rightarrow> mstate \<Rightarrow> mstate list" where
  "matches (Sym c) st = (let (n, s, g) = st in if s \<noteq> [] \<and> in_class c (hd s) then [advance st 1] else [])"
| "matches (Plus c) st = (let (n, s, g) = st in map (advance st) (rev [1 ..< Suc (run c s)]))"
| "matches (Star c) st = (let (n, s, g) = st in map (advance st) (rev [0 ..< Suc (run c s)]))"
| "matches (PlusLazy c) st = (let (n, s, g) = st in map (advance st) [1 ..< Suc (run c s)])"
| "matches (Seq []) st = [st]"
| "matches (Seq (r # rs)) st = concat (map (matches (Seq rs)) (matches r st))"
| "matches (Alt []) st = []"
| "matches (Alt (r # rs)) st = matches r st @ matches (Alt rs) st"
| "matches (Opt r) st = matches r st @ [st]"
| "matches (Grp i r) st =
     (let (n, s, g) = st
      in map (\<lambda>st'. let (n', s', g') = st' in (n', s', (i, take (n' - n) s) # g')) (matches r st))"
| "matches Bol st = (let (n, s, g) = st in if n = 0 then [st] else [])"
| "matches Eol st = (let (n, s, g) = st in if s = [] \<or> s = [CHR 0x0A] then [st] else [])"

definition lit :: "string \<Rightarrow> rx" where
  \<comment> \<open>literal text\<close>
  "lit s = Seq (map (\<lambda>c. Sym (C c)) s)"

definition lit_ci :: "string \<Rightarrow> rx" where
  \<comment> \<open>literal text under \<^verbatim>\<open>re.IGNORECASE\<close>\<close>
  "lit_ci s = Seq (map (\<lambda>c. Sym (CI c)) s)"

definition match_at :: "rx \<Rightarrow> string \<Rightarrow> nat \<Rightarrow> groups option" where
  \<comment> \<open>the groups of the first match that starts at the given position\<close>
  "match_at r s i = (case matches r (i, drop i s, []) of [] \<Rightarrow> None | (n, s', g) # _ \<Rightarrow> Some g)"

definition re_match :: "rx \<Rightarrow> string \<Rightarrow> groups option" where
  \<comment> \<open>\<^verbatim>\<open>re.match(r, s)\<close>\<close>
  "re_match r s = match_at r s 0"

definition re_search :: "rx \<Rightarrow> string \<Rightarrow> groups option" where
  \<comment> \<open>\<^verbatim>\<open>re.search(r, s)\<close>: the first position from the left with a match\<close>
  "re_search r s =
     (case filter (\<lambda>i. match_at r s i \<noteq> None) [0 ..< Suc (length s)] of
        [] \<Rightarrow> None | i # _ \<Rightarrow> match_at r s i)"

definition group_opt :: "groups \<Rightarrow> nat \<Rightarrow> string option" where
  \<comment> \<open>\<^verbatim>\<open>m.group(i)\<close>, \<open>None\<close> for a group that took no part in the match\<close>
  "group_opt g i = map_of g i"

definition group :: "groups \<Rightarrow> nat \<Rightarrow> string" where
  \<comment> \<open>\<^verbatim>\<open>m.group(i)\<close> for a group every match of the pattern sets\<close>
  "group g i = (case map_of g i of None \<Rightarrow> [] | Some t \<Rightarrow> t)"

fun runs_acc :: "cclass \<Rightarrow> string \<Rightarrow> string \<Rightarrow> string list" where
  "runs_acc c cur [] = (if cur = [] then [] else [rev cur])"
| "runs_acc c cur (x # xs) =
     (if in_class c x then runs_acc c (x # cur) xs
      else (if cur = [] then [] else [rev cur]) @ runs_acc c [] xs)"

definition re_findall_plus :: "cclass \<Rightarrow> string \<Rightarrow> string list" where
  \<comment> \<open>\<^verbatim>\<open>re.findall(r'c+', s)\<close> for a character class \<open>c\<close>: the maximal runs, from left to right\<close>
  "re_findall_plus c s = runs_acc c [] s"

definition num_class :: cclass where
  \<comment> \<open>\<^verbatim>\<open>[\d,]\<close>\<close>
  "num_class = OneOf [Digit, C CHR '','']"

definition pct_class :: cclass where
  \<comment> \<open>\<^verbatim>\<open>[\d.]\<close>\<close>
  "pct_class = OneOf [Digit, C CHR ''.'']"

definition int_commas :: "string \<Rightarrow> int option" where
  \<comment> \<open>\<^verbatim>\<open>int(s.replace(',', ''))\<close>\<close>
  "int_commas s = py_int (remove_char CHR '','' s)"

section \<open>The PDF text parsers: shared shapes\<close>

text \<open>
  Each of \<^verbatim>\<open>electionware.py\<close>, \<^verbatim>\<open>fort_bend.py\<close>, \<^verbatim>\<open>collin.py\<close> and \<^verbatim>\<open>greenbox.py\<close> defines its own
  \<^verbatim>\<open>normalize_office_name\<close> and \<^verbatim>\<open>parse_election_data\<close>; the prefixes \<open>ew_\<close>, \<open>fb_\<close>, \<open>collin_\<close>
  and \<open>gb_\<close> tell them apart. The loop of \<^verbatim>\<open>parse_election_data\<close> is a fold of one step
  function over the lines; the step takes the local variables of the loop as a record and
  returns them after the iteration. The body of the loop is one \<^verbatim>\<open>try\<close> whose handler goes on
  with the next line, so a conversion that raises leaves the variables as they were at that
  point. (\<open>precinct_stats_added\<close> is called \<^verbatim>\<open>precinct_added\<close> in \<^verbatim>\<open>greenbox.py\<close>.)
\<close>

record pstate =
  data :: "row list"
  current_precinct :: "string option"
  current_office :: "string option"
  district :: string
  precinct_stats_added :: "string list"

definition initial :: pstate where
  "initial = \<lparr>data = [], current_precinct = None, current_office = None, district = '''',
              precinct_stats_added = []\<rparr>"

definition append_row :: "pstate \<Rightarrow> row \<Rightarrow> pstate" where
  \<comment> \<open>\<^verbatim>\<open>data.append({...})\<close>\<close>
  "append_row st r = st\<lparr>data := data st @ [r]\<rparr>"

definition add_flag :: "pstate \<Rightarrow> string \<Rightarrow> pstate" where
  \<comment> \<open>\<^verbatim>\<open>precinct_stats_added.add(flag)\<close>\<close>
  "add_flag st f = st\<lparr>precinct_stats_added := List.insert f (precinct_stats_added st)\<rparr>"

definition row4 :: "string \<Rightarrow> string \<Rightarrow> string \<Rightarrow> string \<Rightarrow> string \<Rightarrow> string \<Rightarrow> int
    \<Rightarrow> cell \<Rightarrow> cell \<Rightarrow> cell \<Rightarrow> row" where
  \<comment> \<open>the dictionary with the three method columns \<^verbatim>\<open>absentee\<close>, \<^verbatim>\<open>early_voting\<close>, \<^verbatim>\<open>election_day\<close>\<close>
  "row4 county precinct office dist party candidate total_votes absentee early election_day =
     [(''county'', Str county), (''precinct'', Str precinct), (''office'', Str office),
      (''district'', Str dist), (''party'', Str party), (''candidate'', Str candidate),
      (''votes'', Num total_votes), (''absentee'', absentee), (''early_voting'', early),
      (''election_day'', election_day)]"

definition stat4_rx :: "string \<Rightarrow> rx" where
  \<comment> \<open>\<^verbatim>\<open>NAME\s+([\d,]+)\s+([\d,]+)\s+([\d,]+)\s+([\d,]+)\<close>\<close>
  "stat4_rx name =
     Seq [lit name, Plus Space, Grp 1 (Plus num_class), Plus Space, Grp 2 (Plus num_class),
          Plus Space, Grp 3 (Plus num_class), Plus Space, Grp 4 (Plus num_class)]"

definition registered_rx :: rx where
  \<comment> \<open>\<^verbatim>\<open>Registered Voters - Total\s+([\d,]+)\<close>\<close>
  "registered_rx = Seq [lit ''Registered Voters - Total'', Plus Space, Grp 1 (Plus num_class)]"

definition kw_num_rx :: "string \<Rightarrow> rx" where
  \<comment> \<open>\<^verbatim>\<open>KW\s+(\d+)\<close>\<close>
  "kw_num_rx kw = Seq [lit kw, Plus Space, Grp 1 (Plus Digit)]"

definition precinct_no_rx :: rx where
  \<comment> \<open>\<^verbatim>\<open>Precinct\s+No\.\s+(\d+)\<close>\<close>
  "precinct_no_rx = Seq [lit ''Precinct'', Plus Space, lit ''No.'', Plus Space, Grp 1 (Plus Digit)]"

fun first_district :: "rx list \<Rightarrow> string \<Rightarrow> string" where
  \<comment> \<open>the \<^verbatim>\<open>if\<close>/\<^verbatim>\<open>elif\<close> chain of \<^verbatim>\<open>re.search\<close> calls that sets \<^verbatim>\<open>district\<close>, empty when none matches\<close>
  "first_district [] line = ''''"
| "first_district (r # rs) line =
     (case re_search r line of Some g \<Rightarrow> group g 1 | None \<Rightarrow> first_district rs line)"

definition ints4 :: "groups \<Rightarrow> nat \<Rightarrow> (int \<times> int \<times> int \<times> int) option" where
  \<comment> \<open>four consecutive groups converted with \<^verbatim>\<open>int(g.replace(',', ''))\<close>, \<open>None\<close> when one raises\<close>
  "ints4 g i =
     (case (int_commas (group g i), int_commas (group g (i + 1)), int_commas (group g (i + 2)),
            int_commas (group g (i + 3))) of
        (Some a, Some b, Some c, Some d) \<Rightarrow> Some (a, b, c, d)
      | _ \<Rightarrow> None)"

definition party_alt :: rx where
  \<comment> \<open>\<^verbatim>\<open>REP|DEM|LIB|GRN|IND\<close>\<close>
  "party_alt = Alt [lit ''REP'', lit ''DEM'', lit ''LIB'', lit ''GRN'', lit ''IND'']"

section \<open>electionware.py\<close>

definition ew_normalize_office_name :: "string \<Rightarrow> string" where
  "ew_normalize_office_name office0 =
     (let office = strip office0 in
      if contains office ''President/Vice President'' \<or> contains office ''President and Vice President''
        then ''President''
      else if contains office ''US Senator'' \<or> contains office ''U.S. Senator'' then ''U.S. Senate''
      else if contains office ''US Representative'' \<or> contains office ''U.S. Representative''
        then ''U.S. House''
      else if contains office ''State Representative'' then ''State Representative''
      else if contains office ''Railroad Commissioner'' then ''Railroad Commissioner''
      else if contains office ''Justice, Supreme Court'' then office
      else if contains office ''Judge,'' \<or> contains office ''Justice,'' \<or> contains office ''Presiding Judge''
        then office
      else if contains office ''Member, State BoE'' then ''State Board of Education''
      else if contains office ''Dist Attorney'' \<or> contains office ''District Attorney''
        then ''District Attorney''
      else if contains office ''County'' then office
      else if contains office ''Sheriff'' then ''Sheriff''
      else if contains office ''Constable'' then office
      else if contains office ''Board of Trustees'' then office
      else if contains office ''Chief Justice'' then office
      else office)"

definition ew_precinct_rx :: rx where
  \<comment> \<open>\<^verbatim>\<open>^Precinct\s+(.+)$\<close>\<close>
  "ew_precinct_rx = Seq [Bol, lit ''Precinct'', Plus Space, Grp 1 (Plus Dot), Eol]"

definition ew_candidate_rx :: rx where
  \<comment> \<open>\<^verbatim>\<open>^(REP|DEM|LIB|GRN|IND)\s+(.+?)\s+(\d+)\s+(\d+)\s+(\d+)\s+(\d+)$\<close>\<close>
  "ew_candidate_rx =
     Seq [Bol, Grp 1 party_alt, Plus Space, Grp 2 (PlusLazy Dot), Plus Space, Grp 3 (Plus Digit),
          Plus Space, Grp 4 (Plus Digit), Plus Space, Grp 5 (Plus Digit), Plus Space,
          Grp 6 (Plus Digit), Eol]"

definition ew_office_indicators :: "string list" where
  "ew_office_indicators =
     [''President/Vice President'', ''US Senator'', ''U.S. Senator'',
      ''US Representative'', ''U.S. Representative'', ''Railroad Commissioner'',
      ''Justice, Supreme Court'', ''Justice,'', ''Judge,'', ''Presiding Judge'',
      ''Member, State BoE'', ''State Representative'', ''Dist Attorney'',
      ''County Attorney'', ''County Commissioner'', ''County Clerk'', ''County Tax'',
      ''Sheriff'', ''Constable'', ''Board of Trustees'', ''Chief Justice'']"

definition ew_skip_terms :: "string list" where
  "ew_skip_terms =
     [''Vote For'', ''TOTAL'', ''Absentee'', ''Early'', ''Election'',
      ''Voting'', ''Day'', ''Total Votes Cast'', ''Write-In Totals'',
      ''Not Assigned'', ''Contest Totals'', ''Write-In:'']"

definition ew_registered :: "string \<Rightarrow> pstate \<Rightarrow> string \<Rightarrow> string \<Rightarrow> pstate" where
  \<comment> \<open>the block \<^verbatim>\<open>if "Registered Voters - Total" in line\<close>, for the current precinct \<open>cp\<close>\<close>
  "ew_registered county st cp line =
     (case re_search registered_rx line of
        None \<Rightarrow> st
      | Some g \<Rightarrow>
          if cp @ ''_registered'' \<notin> set (precinct_stats_added st) then
            (case int_commas (group g 1) of
               None \<Rightarrow> st
             | Some registered_voters \<Rightarrow>
                 add_flag
                   (append_row st (row4 county cp ''Registered Voters'' '''' '''' '''' registered_voters
                                     (Str '''') (Str '''') (Str '''')))
                   (cp @ ''_registered''))
          else st)"

definition ew_ballots :: "string \<Rightarrow> pstate \<Rightarrow> string \<Rightarrow> string \<Rightarrow> pstate" where
  \<comment> \<open>the block \<^verbatim>\<open>if "Ballots Cast - Total" in line\<close>; the groups are total, absentee, early, election day\<close>
  "ew_ballots county st cp line =
     (case re_search (stat4_rx ''Ballots Cast - Total'') line of
        None \<Rightarrow> st
      | Some g \<Rightarrow>
          if cp @ ''_ballots'' \<notin> set (precinct_stats_added st) then
            (case ints4 g 1 of
               None \<Rightarrow> st
             | Some (total_ballots, absentee, early, election_day) \<Rightarrow>
                 add_flag
                   (append_row st (row4 county cp ''Ballots Cast'' '''' '''' '''' total_ballots
                                     (Num absentee) (Num early) (Num election_day)))
                   (cp @ ''_ballots''))
          else st)"

definition ew_blank :: "string \<Rightarrow> pstate \<Rightarrow> string \<Rightarrow> string \<Rightarrow> pstate" where
  \<comment> \<open>the block \<^verbatim>\<open>if "Ballots Cast - Blank" in line\<close>\<close>
  "ew_blank county st cp line =
     (case re_search (stat4_rx ''Ballots Cast - Blank'') line of
        None \<Rightarrow> st
      | Some g \<Rightarrow>
          if cp @ ''_blank'' \<notin> set (precinct_stats_added st) then
            (case ints4 g 1 of
               None \<Rightarrow> st
             | Some (total_blank, absentee_blank, early_blank, election_day_blank) \<Rightarrow>
                 add_flag
                   (append_row st (row4 county cp ''Ballots Cast - Blank'' '''' '''' '''' total_blank
                                     (Num absentee_blank) (Num early_blank) (Num election_day_blank)))
                   (cp @ ''_blank''))
          else st)"

definition office_text :: "pstate \<Rightarrow> string" where
  \<comment> \<open>\<^verbatim>\<open>current_office\<close> where the code has tested that it is set\<close>
  "office_text st = (case current_office st of None \<Rightarrow> [] | Some off \<Rightarrow> off)"

definition ew_over_under :: "string \<Rightarrow> pstate \<Rightarrow> string \<Rightarrow> string \<Rightarrow> string \<Rightarrow> string \<Rightarrow> pstate" where
  \<comment> \<open>the blocks for \<^verbatim>\<open>Overvotes\<close> and \<^verbatim>\<open>Undervotes\<close> lines: \<open>name\<close> is the word on the line,
      \<open>label\<close> the candidate written\<close>
  "ew_over_under county st cp name label line =
     (case re_search (stat4_rx name) line of
        None \<Rightarrow> st
      | Some g \<Rightarrow>
          (case ints4 g 1 of
             None \<Rightarrow> st
           | Some (total_votes, absentee, early, election_day) \<Rightarrow>
               append_row st
                 (row4 county cp (ew_normalize_office_name (office_text st))
                    (district st) '''' label total_votes (Num absentee) (Num early) (Num election_day))))"

definition ew_office :: "pstate \<Rightarrow> string \<Rightarrow> pstate" where
  \<comment> \<open>the loop over \<^verbatim>\<open>office_indicators\<close>, which stops at the first indicator the line contains\<close>
  "ew_office st line =
     (if \<exists>indicator \<in> set ew_office_indicators. contains line indicator
      then st\<lparr>current_office := Some line,
              district := first_district [kw_num_rx ''Dist'', kw_num_rx ''Place'', kw_num_rx ''Pct'',
                                          kw_num_rx ''Pl''] line\<rparr>
      else st)"

definition ew_candidate :: "string \<Rightarrow> pstate \<Rightarrow> string \<Rightarrow> string \<Rightarrow> string \<Rightarrow> pstate" where
  \<comment> \<open>the candidate block, for the current precinct \<open>cp\<close> and office \<open>off\<close>\<close>
  "ew_candidate county st cp off line =
     (case re_match ew_candidate_rx line of
        None \<Rightarrow> st
      | Some g \<Rightarrow>
          (let party = strip (group g 1); candidate_name = strip (group g 2)
           in case (py_int (group g 3), py_int (group g 4), py_int (group g 5), py_int (group g 6)) of
                (Some total_votes, Some absentee, Some early, Some election_day) \<Rightarrow>
                  if startswith candidate_name ''Write-In:'' then st
                  else append_row st
                         (row4 county cp (ew_normalize_office_name off) (district st) party candidate_name
                            total_votes (Num absentee) (Num early) (Num election_day))
              | _ \<Rightarrow> st))"

definition ew_step :: "string \<Rightarrow> pstate \<Rightarrow> string \<Rightarrow> pstate" where
  \<comment> \<open>one iteration of \<^verbatim>\<open>for i, line in enumerate(lines)\<close>\<close>
  "ew_step county st raw =
     (let line = strip raw in
      if line = [] then st
      else case (if startswith line ''Precinct '' then re_match ew_precinct_rx line else None) of
        Some g \<Rightarrow> st\<lparr>current_precinct := Some (''Precinct '' @ group g 1)\<rparr>
      | None \<Rightarrow>
        (case current_precinct st of
           None \<Rightarrow> st
         | Some cp \<Rightarrow>
             if line = ''Statistics''
                \<or> (contains line ''TOTAL'' \<and> contains line ''Absentee'' \<and> contains line ''Early'') then st
             else if contains line ''Registered Voters - Total'' then ew_registered county st cp line
             else if contains line ''Ballots Cast - Total'' then ew_ballots county st cp line
             else if contains line ''Ballots Cast - Blank'' then ew_blank county st cp line
             else if startswith line ''Overvotes'' \<and> truthy (current_office st)
               then ew_over_under county st cp ''Overvotes'' ''Over Votes'' line
             else if startswith line ''Undervotes'' \<and> truthy (current_office st)
               then ew_over_under county st cp ''Undervotes'' ''Under Votes'' line
             else
               (let st1 = ew_office st line in
                case current_office st1 of
                  None \<Rightarrow> st1
                | Some off \<Rightarrow>
                    if \<exists>skip_term \<in> set ew_skip_terms. contains line skip_term then st1
                    else ew_candidate county st1 cp off line)))"

definition ew_parse_election_data :: "string \<Rightarrow> string \<Rightarrow> row list" where
  "ew_parse_election_data text county = data (foldl (ew_step county) initial (split text [CHR 0x0A]))"

section \<open>fort\_bend.py\<close>

definition fb_normalize_office_name :: "string \<Rightarrow> string" where
  "fb_normalize_office_name office0 =
     (let office = strip office0 in
      if contains office ''President''
         \<and> (contains office ''Vice President'' \<or> contains office ''Vice-President'') then ''President''
      else if contains office ''President/Vice-President'' then ''President''
      else if contains office ''United States Senator'' \<or> contains office ''US Senator''
              \<or> contains office ''U.S. Senator'' then ''U.S. Senate''
      else if contains office ''United States Representative'' \<or> contains office ''US Representative''
              \<or> contains office ''U.S. Representative'' then ''U.S. House''
      else if contains office ''State Representative'' then ''State Representative''
      else if contains office ''State Senator'' then ''State Senate''
      else if contains office ''Railroad Commissioner'' then ''Railroad Commissioner''
      else if contains office ''Justice, Supreme Court'' then office
      else if contains office ''Judge,'' \<or> contains office ''Justice,'' \<or> contains office ''Presiding Judge''
        then office
      else if contains office ''Member, State Boe'' then ''State Board of Education''
      else if contains office ''District Attorney'' \<or> contains office ''Dist Attorney''
        then ''District Attorney''
      else if contains office ''County'' then office
      else if contains office ''Sheriff'' then ''Sheriff''
      else if contains office ''Constable'' then office
      else if contains office ''Board Of Trustees'' then office
      else if contains office ''Chief Justice'' then office
      else office)"

definition fb_precinct_rx :: rx where
  \<comment> \<open>\<^verbatim>\<open>^(\d+)(?:\s*-\s*(\d+))?$\<close>\<close>
  "fb_precinct_rx =
     Seq [Bol, Grp 1 (Plus Digit),
          Opt (Seq [Star Space, Sym (C CHR ''-''), Star Space, Grp 2 (Plus Digit)]), Eol]"

definition numtok_rx :: rx where
  \<comment> \<open>\<^verbatim>\<open>[\d,]+$\<close>\<close>
  "numtok_rx = Seq [Plus num_class, Eol]"

definition is_numtok :: "string \<Rightarrow> bool" where
  \<comment> \<open>\<^verbatim>\<open>re.match(r'[\d,]+$', part)\<close> succeeds\<close>
  "is_numtok part = (re_match numtok_rx part \<noteq> None)"

definition collect_numbers :: "string list \<Rightarrow> int list option" where
  \<comment> \<open>the loop that appends \<^verbatim>\<open>int(part.replace(',', ''))\<close> for each numeric part; \<open>None\<close> when a
      conversion raises\<close>
  "collect_numbers parts = those (map int_commas (filter is_numtok parts))"

definition fb_office_indicators :: "string list" where
  "fb_office_indicators =
     [''President'', ''Vice-President'', ''United States Senator'', ''US Senator'', ''U.S. Senator'',
      ''United States Representative'', ''US Representative'', ''U.S. Representative'',
      ''Railroad Commissioner'', ''Justice, Supreme Court'', ''Justice,'', ''Judge,'',
      ''Presiding Judge'', ''Member, State BoE'', ''State Representative'', ''State Senator'',
      ''District Attorney'', ''Dist Attorney'', ''County Attorney'', ''County Commissioner'',
      ''County Clerk'', ''County Tax'', ''Sheriff'', ''Constable'', ''Board of Trustees'',
      ''Chief Justice'', ''Court of Appeals'', ''Judicial District'']"

definition fb_skip_terms :: "string list" where
  "fb_skip_terms =
     [''Vote For'', ''TOTAL'', ''VOTE %'', ''Absentee'', ''Early'', ''Election'',
      ''Voting'', ''Day'', ''Total Votes Cast'', ''Not Assigned'', ''Contest Totals'',
      ''Write-In:'', ''Voter Turnout'']"

definition fb_registered :: "string \<Rightarrow> pstate \<Rightarrow> string \<Rightarrow> string \<Rightarrow> pstate" where
  \<comment> \<open>the block \<^verbatim>\<open>if "Registered Voters - Total" in line\<close>\<close>
  "fb_registered county st cp line =
     (case re_search registered_rx line of
        None \<Rightarrow> st
      | Some g \<Rightarrow>
          if cp @ ''_registered'' \<notin> set (precinct_stats_added st) then
            (case int_commas (group g 1) of
               None \<Rightarrow> st
             | Some registered_voters \<Rightarrow>
                 add_flag
                   (append_row st (row4 county cp ''Registered Voters'' '''' '''' '''' registered_voters
                                     (Str '''') (Str '''') (Str '''')))
                   (cp @ ''_registered''))
          else st)"

definition fb_ballots :: "string \<Rightarrow> pstate \<Rightarrow> string \<Rightarrow> string \<Rightarrow> pstate" where
  \<comment> \<open>the block \<^verbatim>\<open>if "Ballots Cast - Total" in line\<close>; the groups are total, election day, absentee, early\<close>
  "fb_ballots county st cp line =
     (case re_search (stat4_rx ''Ballots Cast - Total'') line of
        None \<Rightarrow> st
      | Some g \<Rightarrow>
          if cp @ ''_ballots'' \<notin> set (precinct_stats_added st) then
            (case ints4 g 1 of
               None \<Rightarrow> st
             | Some (total_ballots, election_day, absentee, early) \<Rightarrow>
                 add_flag
                   (append_row st (row4 county cp ''Ballots Cast'' '''' '''' '''' total_ballots
                                     (Num absentee) (Num early) (Num election_day)))
                   (cp @ ''_ballots''))
          else st)"

definition fb_blank :: "string \<Rightarrow> pstate \<Rightarrow> string \<Rightarrow> string \<Rightarrow> pstate" where
  \<comment> \<open>the block \<^verbatim>\<open>if "Ballots Cast - Blank" in line\<close>\<close>
  "fb_blank county st cp line =
     (case re_search (stat4_rx ''Ballots Cast - Blank'') line of
        None \<Rightarrow> st
      | Some g \<Rightarrow>
          if cp @ ''_blank'' \<notin> set (precinct_stats_added st) then
            (case ints4 g 1 of
               None \<Rightarrow> st
             | Some (total_blank, election_day_blank, absentee_blank, early_blank) \<Rightarrow>
                 add_flag
                   (append_row st (row4 county cp ''Ballots Cast - Blank'' '''' '''' '''' total_blank
                                     (Num absentee_blank) (Num early_blank) (Num election_day_blank)))
                   (cp @ ''_blank''))
          else st)"

definition fb_over_under :: "string \<Rightarrow> pstate \<Rightarrow> string \<Rightarrow> string \<Rightarrow> string \<Rightarrow> string \<Rightarrow> pstate" where
  \<comment> \<open>the blocks for \<^verbatim>\<open>Overvotes\<close> and \<^verbatim>\<open>Undervotes\<close> lines\<close>
  "fb_over_under county st cp name label line =
     (case re_search (stat4_rx name) line of
        None \<Rightarrow> st
      | Some g \<Rightarrow>
          (case ints4 g 1 of
             None \<Rightarrow> st
           | Some (total_votes, election_day, absentee, early) \<Rightarrow>
               append_row st
                 (row4 county cp (fb_normalize_office_name (office_text st))
                    (district st) '''' label total_votes (Num absentee) (Num early) (Num election_day))))"

definition fb_write_in_totals :: "string \<Rightarrow> pstate \<Rightarrow> string \<Rightarrow> string \<Rightarrow> pstate" where
  \<comment> \<open>the block for \<^verbatim>\<open>Write-In Totals\<close> lines\<close>
  "fb_write_in_totals county st cp line =
     (case collect_numbers (drop 2 (words line)) of
        None \<Rightarrow> st
      | Some numbers \<Rightarrow>
          if length numbers \<ge> 4 then
            append_row st
              (row4 county cp (fb_normalize_office_name (office_text st)) (district st) ''''
                 ''Write-In Totals'' (numbers ! 0) (Num (numbers ! 2)) (Num (numbers ! 3))
                 (Num (numbers ! 1)))
          else st)"

definition fb_number_start :: "string list \<Rightarrow> nat option" where
  \<comment> \<open>the first index from 1 of a part that is numeric or holds a percent sign; \<open>None\<close> stands for \<^verbatim>\<open>-1\<close>\<close>
  "fb_number_start parts =
     (case filter (\<lambda>j. is_numtok (parts ! j) \<or> contains (parts ! j) ''%'') [1 ..< length parts] of
        [] \<Rightarrow> None | j # _ \<Rightarrow> Some j)"

definition fb_candidate :: "string \<Rightarrow> pstate \<Rightarrow> string \<Rightarrow> string \<Rightarrow> pstate" where
  \<comment> \<open>the candidate block\<close>
  "fb_candidate county st cp line =
     (let parts = words line in
      if length parts \<ge> 6 then
        (case fb_number_start parts of
           None \<Rightarrow> st
         | Some number_start \<Rightarrow>
             if number_start > 1 then
               (let party = parts ! 0;
                    candidate_name = join '' '' (take (number_start - 1) (drop 1 parts))
                in case collect_numbers (drop number_start parts) of
                     None \<Rightarrow> st
                   | Some numbers \<Rightarrow>
                       if length numbers \<ge> 4 then
                         if startswith candidate_name ''Write-In:'' then st
                         else append_row st
                                (row4 county cp (fb_normalize_office_name (office_text st)) (district st)
                                   party candidate_name (numbers ! 0) (Num (numbers ! 2))
                                   (Num (numbers ! 3)) (Num (numbers ! 1)))
                       else st)
             else st)
      else st)"

definition fb_step :: "string \<Rightarrow> pstate \<Rightarrow> string \<Rightarrow> pstate" where
  \<comment> \<open>one iteration of \<^verbatim>\<open>while i < len(lines)\<close>; every path through the body ends with \<^verbatim>\<open>i += 1\<close>\<close>
  "fb_step county st raw =
     (let line = strip raw in
      if line = [] then st
      else case re_match fb_precinct_rx line of
        Some g \<Rightarrow>
          st\<lparr>current_precinct :=
                Some (if truthy (group_opt g 2) then ''Precinct '' @ group g 1 @ ''-'' @ group g 2
                      else ''Precinct '' @ group g 1),
             precinct_stats_added := []\<rparr>
      | None \<Rightarrow>
        (case current_precinct st of
           None \<Rightarrow> st
         | Some cp \<Rightarrow>
             if line = ''STATISTICS'' then st
             else if contains line ''Registered Voters - Total'' then fb_registered county st cp line
             else if contains line ''Ballots Cast - Total'' then fb_ballots county st cp line
             else if contains line ''Ballots Cast - Blank'' then fb_blank county st cp line
             else if startswith line ''Overvotes'' \<and> truthy (current_office st)
               then fb_over_under county st cp ''Overvotes'' ''Over Votes'' line
             else if startswith line ''Undervotes'' \<and> truthy (current_office st)
               then fb_over_under county st cp ''Undervotes'' ''Under Votes'' line
             else if \<exists>indicator \<in> set fb_office_indicators. contains line indicator
               then st\<lparr>current_office := Some line,
                       district := first_district [kw_num_rx ''District'', precinct_no_rx,
                                                   kw_num_rx ''Place''] line\<rparr>
             else if truthy (current_office st) \<and> startswith line ''Write-In Totals''
               then fb_write_in_totals county st cp line
             else if \<exists>skip_term \<in> set fb_skip_terms. contains line skip_term then st
             else if truthy (current_office st)
                     \<and> (\<exists>p \<in> set [''REP'', ''DEM'', ''LIB'', ''GRN'', ''IND'']. startswith line p)
               then fb_candidate county st cp line
             else st))"

definition fb_parse_election_data :: "string \<Rightarrow> string \<Rightarrow> row list" where
  "fb_parse_election_data text county = data (foldl (fb_step county) initial (split text [CHR 0x0A]))"

section \<open>collin.py\<close>

definition collin_normalize_office_name :: "string \<Rightarrow> string" where
  "collin_normalize_office_name office0 =
     (let office = strip office0 in
      if contains office ''President/Vice President'' \<or> contains office ''President and Vice President''
        then ''President''
      else if contains office ''United States Senator'' \<or> contains office ''U.S. Senator''
        then ''U.S. Senate''
      else if contains office ''United States Representative'' \<or> contains office ''U.S. Representative''
        then ''U.S. House''
      else if contains office ''State Representative'' then ''State Representative''
      else if contains office ''State Senator'' then ''State Senator''
      else if contains office ''Railroad Commissioner'' then ''Railroad Commissioner''
      else if contains office ''Justice, Supreme Court'' then office
      else if contains office ''Judge,'' \<or> contains office ''Justice,'' \<or> contains office ''Presiding Judge''
              \<or> contains office ''District Judge'' then office
      else if contains office ''Member, State Board of Education'' \<or> contains office ''Member, State BoE''
        then ''State Board of Education''
      else if contains office ''Chief Justice'' then office
      else if contains office ''County'' then office
      else if contains office ''Sheriff'' then ''Sheriff''
      else if contains office ''Constable'' then office
      else if contains office ''Proposition'' then office
      else office)"

definition row6 :: "string \<Rightarrow> string \<Rightarrow> string \<Rightarrow> string \<Rightarrow> string \<Rightarrow> string \<Rightarrow> int
    \<Rightarrow> int \<Rightarrow> int \<Rightarrow> int \<Rightarrow> int \<Rightarrow> int \<Rightarrow> row" where
  \<comment> \<open>the dictionary with the five method columns of \<^verbatim>\<open>collin.py\<close>\<close>
  "row6 county precinct office dist party candidate total_votes election_day early_voting
        ballot_by_mail provisional limited =
     [(''county'', Str county), (''precinct'', Str precinct), (''office'', Str office),
      (''district'', Str dist), (''party'', Str party), (''candidate'', Str candidate),
      (''votes'', Num total_votes), (''election_day'', Num election_day),
      (''early_voting'', Num early_voting), (''ballot_by_mail'', Num ballot_by_mail),
      (''provisional'', Num provisional), (''limited'', Num limited)]"

definition collin_precinct_rx :: rx where
  \<comment> \<open>\<^verbatim>\<open>^PCT\s+(\d+)$\<close>\<close>
  "collin_precinct_rx = Seq [Bol, lit ''PCT'', Plus Space, Grp 1 (Plus Digit), Eol]"

definition collin_party_alt :: rx where
  \<comment> \<open>\<^verbatim>\<open>Rep|Dem|Lib|Grn|IND\<close>\<close>
  "collin_party_alt = Alt [lit ''Rep'', lit ''Dem'', lit ''Lib'', lit ''Grn'', lit ''IND'']"

definition collin_candidate_rx :: rx where
  \<comment> \<open>\<^verbatim>\<open>^\s*(Rep|Dem|Lib|Grn|IND)\s+(.+?)\s+([\d,]+)\s+[\d.]+%\s+([\d,]+)\s+([\d,]+)\s+([\d,]+)\s+([\d,]+)\s+([\d,]+)\<close>\<close>
  "collin_candidate_rx =
     Seq [Bol, Star Space, Grp 1 collin_party_alt, Plus Space, Grp 2 (PlusLazy Dot), Plus Space,
          Grp 3 (Plus num_class), Plus Space, Plus pct_class, Sym (C CHR ''%''), Plus Space,
          Grp 4 (Plus num_class), Plus Space, Grp 5 (Plus num_class), Plus Space,
          Grp 6 (Plus num_class), Plus Space, Grp 7 (Plus num_class), Plus Space,
          Grp 8 (Plus num_class)]"

definition collin_simple_rx :: rx where
  \<comment> \<open>\<^verbatim>\<open>(Rep|Dem|Lib|Grn|IND)\s+(.+)\<close>\<close>
  "collin_simple_rx = Seq [Grp 1 collin_party_alt, Plus Space, Grp 2 (Plus Dot)]"

definition collin_uncontested_rx :: rx where
  \<comment> \<open>\<^verbatim>\<open>^\s*(Rep|Dem)\s+(.+?)\s+([\d,]+)\s+100\.00%\s+([\d,]+)\s+([\d,]+)\s+([\d,]+)\s+([\d,]+)\s+([\d,]+)$\<close>\<close>
  "collin_uncontested_rx =
     Seq [Bol, Star Space, Grp 1 (Alt [lit ''Rep'', lit ''Dem'']), Plus Space, Grp 2 (PlusLazy Dot),
          Plus Space, Grp 3 (Plus num_class), Plus Space, lit ''100.00%'', Plus Space,
          Grp 4 (Plus num_class), Plus Space, Grp 5 (Plus num_class), Plus Space,
          Grp 6 (Plus num_class), Plus Space, Grp 7 (Plus num_class), Plus Space,
          Grp 8 (Plus num_class), Eol]"

definition collin_prop_rx :: rx where
  \<comment> \<open>\<^verbatim>\<open>^\s*(YES|NO)\s+([\d,]+)\s+[\d.]+%\s+([\d,]+)\s+([\d,]+)\s+([\d,]+)\s+([\d,]+)\s+([\d,]+)$\<close>\<close>
  "collin_prop_rx =
     Seq [Bol, Star Space, Grp 1 (Alt [lit ''YES'', lit ''NO'']), Plus Space, Grp 2 (Plus num_class),
          Plus Space, Plus pct_class, Sym (C CHR ''%''), Plus Space,
          Grp 3 (Plus num_class), Plus Space, Grp 4 (Plus num_class), Plus Space,
          Grp 5 (Plus num_class), Plus Space, Grp 6 (Plus num_class), Plus Space,
          Grp 7 (Plus num_class), Eol]"

definition collin_office_indicators :: "string list" where
  "collin_office_indicators =
     [''President/Vice President'', ''United States Senator'', ''United States Representative'',
      ''Railroad Commissioner'', ''Justice, Supreme Court'', ''Presiding Judge'',
      ''Judge, Court of Criminal Appeals'', ''Member, State Board of Education'', ''State Senator'',
      ''State Representative'', ''Chief Justice'', ''Justice, 5th Court of Appeals'', ''District Judge'',
      ''Judge, County Probate Court'', ''Sheriff'', ''County Tax Assessor-Collector'',
      ''County Commissioner'', ''Constable'', ''Proposition'']"

definition collin_office_skip_terms :: "string list" where
  \<comment> \<open>the terms that keep a line with an indicator from being an office header\<close>
  "collin_office_skip_terms =
     [''Vote For'', ''TOTAL'', ''Rep '', ''Dem '', ''Lib '', ''Grn '', ''Write-In'', ''YES'', ''NO'']"

definition collin_skip_terms :: "string list" where
  "collin_skip_terms =
     [''Vote For'', ''TOTAL'', ''VOTE %'', ''Election Day'', ''Early Voting'',
      ''Ballot by mail'', ''Provisional'', ''Limited'', ''Contest Totals'']"

definition nth_opt :: "'a list \<Rightarrow> nat \<Rightarrow> 'a option" where
  \<comment> \<open>\<^verbatim>\<open>xs[i]\<close> for \<open>i \<ge> 0\<close>; \<open>None\<close> stands for the \<^verbatim>\<open>IndexError\<close>\<close>
  "nth_opt xs i = (if i < length xs then Some (xs ! i) else None)"

definition write_in_totals :: "string \<Rightarrow> string" where
  \<comment> \<open>the block headed \<^verbatim>\<open># Handle Write-In Totals\<close>\<close>
  "write_in_totals candidate_name =
     (if startswith candidate_name ''Write-In'' then ''Write-In Totals'' else candidate_name)"

definition collin_over_under :: "string \<Rightarrow> pstate \<Rightarrow> string \<Rightarrow> string \<Rightarrow> string \<Rightarrow> pstate" where
  \<comment> \<open>the blocks for \<^verbatim>\<open>Overvotes\<close> and \<^verbatim>\<open>Undervotes\<close> lines; the numbers are the runs of digits\<close>
  "collin_over_under county st cp label line =
     (let numbers = re_findall_plus Digit line in
      if length numbers \<ge> 6 then
        (case those (map py_int (take 6 numbers)) of
           Some [total_votes, election_day, early_voting, ballot_by_mail, provisional, limited] \<Rightarrow>
             append_row st
               (row6 county cp (collin_normalize_office_name (office_text st)) (district st) '''' label
                  total_votes election_day early_voting ballot_by_mail provisional limited)
         | _ \<Rightarrow> st)
      else st)"

definition collin_simple_fallback :: "string \<Rightarrow> pstate \<Rightarrow> string \<Rightarrow> groups \<Rightarrow> pstate option" where
  \<comment> \<open>the first \<^verbatim>\<open>try\<close> of the fallback, entered with six or more numbers in \<open>rest\<close>;
      \<open>None\<close> when a conversion raises, which the handler reports before the code goes on\<close>
  "collin_simple_fallback county st cp g =
     (let rest = group g 2;
          numbers = re_findall_plus num_class rest;
          first_num_pos = str_find rest (numbers ! 0);
          candidate_name = strip (case first_num_pos of None \<Rightarrow> butlast rest | Some k \<Rightarrow> take k rest);
          party = group g 1
      in case those (map int_commas (take 1 numbers @ take 4 (drop 2 numbers))) of
           Some [total_votes, election_day, early_voting, ballot_by_mail, provisional] \<Rightarrow>
             (case (if length numbers > 6 then int_commas (numbers ! 6) else Some 0) of
                None \<Rightarrow> None
              | Some limited \<Rightarrow>
                  Some (append_row st
                          (row6 county cp (collin_normalize_office_name (office_text st)) (district st)
                             party (write_in_totals candidate_name) total_votes election_day early_voting
                             ballot_by_mail provisional limited)))
         | _ \<Rightarrow> None)"

definition collin_pct_idx :: "string list \<Rightarrow> nat option" where
  \<comment> \<open>the index of the first part that ends with a percent sign; \<open>None\<close> stands for \<^verbatim>\<open>-1\<close>\<close>
  "collin_pct_idx parts =
     (case filter (\<lambda>j. endswith (parts ! j) ''%'') [0 ..< length parts] of [] \<Rightarrow> None | j # _ \<Rightarrow> Some j)"

definition collin_pct_fallback :: "string \<Rightarrow> pstate \<Rightarrow> string \<Rightarrow> string \<Rightarrow> pstate option" where
  \<comment> \<open>the second \<^verbatim>\<open>try\<close> of the fallback, entered with eight or more parts; \<open>None\<close> when no record
      is appended (no percentage after the first part, or an index or a conversion raises)\<close>
  "collin_pct_fallback county st cp line =
     (let parts = words line; party = parts ! 0 in
      case collin_pct_idx parts of
        None \<Rightarrow> None
      | Some pct_idx \<Rightarrow>
          if pct_idx > 0 then
            (let candidate_name = join '' '' (take (pct_idx - 1 - 1) (drop 1 parts)) in
             case those (map (\<lambda>j. case nth_opt parts j of None \<Rightarrow> None | Some t \<Rightarrow> int_commas t)
                           [pct_idx - 1, pct_idx + 1, pct_idx + 2, pct_idx + 3, pct_idx + 4, pct_idx + 5]) of
               Some [total_votes, election_day, early_voting, ballot_by_mail, provisional, limited] \<Rightarrow>
                 Some (append_row st
                         (row6 county cp (collin_normalize_office_name (office_text st)) (district st)
                            party (write_in_totals candidate_name) total_votes election_day early_voting
                            ballot_by_mail provisional limited))
             | _ \<Rightarrow> None)
          else None)"

definition collin_fallback :: "string \<Rightarrow> pstate \<Rightarrow> string \<Rightarrow> string \<Rightarrow> pstate option" where
  \<comment> \<open>the branch taken when a line starts with a party token and the candidate pattern has not
      matched; \<open>Some\<close> when a fallback has appended a record and gone on to the next line\<close>
  "collin_fallback county st cp line =
     (let simple_match = re_match collin_simple_rx line;
          numbers = (case simple_match of None \<Rightarrow> re_findall_plus num_class line
                     | Some g \<Rightarrow> re_findall_plus num_class (group g 2));
          first_try = (case simple_match of None \<Rightarrow> None
                       | Some g \<Rightarrow> if length numbers \<ge> 6 then collin_simple_fallback county st cp g
                                   else None)
      in case first_try of
           Some st' \<Rightarrow> Some st'
         | None \<Rightarrow>
             if length numbers \<ge> 6 \<and> length (words line) \<ge> 8 then collin_pct_fallback county st cp line
             else None)"

definition collin_candidate :: "string \<Rightarrow> pstate \<Rightarrow> string \<Rightarrow> groups \<Rightarrow> pstate" where
  \<comment> \<open>the block \<^verbatim>\<open>if candidate_match\<close>\<close>
  "collin_candidate county st cp g =
     (let party = strip (group g 1); candidate_name = strip (group g 2) in
      case those (map (\<lambda>i. int_commas (group g i)) [3, 4, 5, 6, 7, 8]) of
        Some [total_votes, election_day, early_voting, ballot_by_mail, provisional, limited] \<Rightarrow>
          append_row st
            (row6 county cp (collin_normalize_office_name (office_text st)) (district st) party
               (write_in_totals candidate_name) total_votes election_day early_voting ballot_by_mail
               provisional limited)
      | _ \<Rightarrow> st)"

definition collin_uncontested :: "string \<Rightarrow> pstate \<Rightarrow> string \<Rightarrow> groups \<Rightarrow> pstate" where
  \<comment> \<open>the block \<^verbatim>\<open>if uncontested_match and current_office\<close>\<close>
  "collin_uncontested county st cp g =
     (let party = strip (group g 1); candidate_name = strip (group g 2) in
      case those (map (\<lambda>i. int_commas (group g i)) [3, 4, 5, 6, 7, 8]) of
        Some [total_votes, election_day, early_voting, ballot_by_mail, provisional, limited] \<Rightarrow>
          append_row st
            (row6 county cp (collin_normalize_office_name (office_text st)) (district st) party
               candidate_name total_votes election_day early_voting ballot_by_mail provisional limited)
      | _ \<Rightarrow> st)"

definition collin_proposition :: "string \<Rightarrow> pstate \<Rightarrow> string \<Rightarrow> groups \<Rightarrow> pstate" where
  \<comment> \<open>the block \<^verbatim>\<open>if prop_match and current_office and "Proposition" in current_office\<close>\<close>
  "collin_proposition county st cp g =
     (case those (map (\<lambda>i. int_commas (group g i)) [2, 3, 4, 5, 6, 7]) of
        Some [total_votes, election_day, early_voting, ballot_by_mail, provisional, limited] \<Rightarrow>
          append_row st
            (row6 county cp (collin_normalize_office_name (office_text st)) (district st) ''''
               (group g 1) total_votes election_day early_voting ballot_by_mail provisional limited)
      | _ \<Rightarrow> st)"

definition collin_parse_line :: "string \<Rightarrow> pstate \<Rightarrow> string \<Rightarrow> string \<Rightarrow> pstate" where
  \<comment> \<open>the body of the loop once a precinct and an office are set and the line is no header\<close>
  "collin_parse_line county st cp line =
     (if startswith line ''Overvotes'' \<and> truthy (current_office st)
        then collin_over_under county st cp ''Over Votes'' line
      else if startswith line ''Undervotes'' \<and> truthy (current_office st)
        then collin_over_under county st cp ''Under Votes'' line
      else
        (let candidate_match = re_search collin_candidate_rx line;
             fallback =
               (if (\<exists>p \<in> set [''Rep '', ''Dem '', ''Lib '', ''Grn '', ''IND '']. startswith line p)
                   \<and> truthy (current_office st) \<and> candidate_match = None
                then collin_fallback county st cp line else None)
         in case fallback of
              Some st' \<Rightarrow> st'
            | None \<Rightarrow>
                (case candidate_match of
                   Some g \<Rightarrow> collin_candidate county st cp g
                 | None \<Rightarrow>
                     (case re_match collin_uncontested_rx line of
                        Some g \<Rightarrow>
                          if truthy (current_office st) then collin_uncontested county st cp g
                          else (case re_match collin_prop_rx line of
                                  Some g' \<Rightarrow>
                                    if truthy (current_office st) \<and> contains (office_text st) ''Proposition''
                                    then collin_proposition county st cp g' else st
                                | None \<Rightarrow> st)
                      | None \<Rightarrow>
                          (case re_match collin_prop_rx line of
                             Some g' \<Rightarrow>
                               if truthy (current_office st) \<and> contains (office_text st) ''Proposition''
                               then collin_proposition county st cp g' else st
                           | None \<Rightarrow> st)))))"

definition collin_step :: "string \<Rightarrow> pstate \<Rightarrow> string \<Rightarrow> pstate" where
  \<comment> \<open>one iteration of \<^verbatim>\<open>for i, line in enumerate(lines)\<close>\<close>
  "collin_step county st raw =
     (let line = strip raw in
      if line = [] then st
      else case (if startswith line ''PCT '' then re_match collin_precinct_rx line else None) of
        Some g \<Rightarrow> st\<lparr>current_precinct := Some (''PCT '' @ group g 1)\<rparr>
      | None \<Rightarrow>
        (case current_precinct st of
           None \<Rightarrow> st
         | Some cp \<Rightarrow>
             if (\<exists>indicator \<in> set collin_office_indicators. contains line indicator)
                \<and> \<not> (\<exists>skip_term \<in> set collin_office_skip_terms. contains line skip_term)
             then st\<lparr>current_office := Some line,
                     district := first_district [kw_num_rx ''District'', kw_num_rx ''Place'',
                                                 precinct_no_rx] line\<rparr>
             else if current_office st = None then st
             else if \<exists>skip_term \<in> set collin_skip_terms. contains line skip_term then st
             else collin_parse_line county st cp line))"

definition collin_parse_election_data :: "string \<Rightarrow> string \<Rightarrow> row list" where
  "collin_parse_election_data text county =
     data (foldl (collin_step county) initial (split text [CHR 0x0A]))"

definition collin_main_rows :: "string \<Rightarrow> row list" where
  \<comment> \<open>the rows \<^verbatim>\<open>main\<close> writes for the text of the input file, in the order written: the function
      loops over \<^verbatim>\<open>data\<close> as \<^verbatim>\<open>parse_election_data\<close> returned it, with the county \<^verbatim>\<open>"Collin"\<close>\<close>
  "collin_main_rows text = collin_parse_election_data text ''Collin''"

section \<open>greenbox.py\<close>

definition gb_normalize_office_name :: "string \<Rightarrow> string" where
  "gb_normalize_office_name office0 =
     (let office = strip office0 in
      if contains office ''President and Vice President'' \<or> contains office ''President and Vice-President''
        then ''President''
      else if contains office ''President/Vice President'' then ''President''
      else if contains office ''President/Vice-President'' then ''President''
      else if contains office ''United States Senator'' then ''U.S. Senate''
      else if contains office ''U.S. Senator'' then ''U.S. Senate''
      else if contains office ''United States Representative'' then ''U.S. House''
      else if contains office ''U.S. Representative'' then ''U.S. House''
      else if contains office ''State Senator'' then ''State Senate''
      else if contains office ''State Representative'' \<and> \<not> contains office ''Unexpired Term''
        then ''State Representative''
      else if contains office ''Chief Justice, 13th Court of Appeals''
        then ''Chief Justice, 13th Court of Appeals District''
      else if contains office ''Chief Justice, 10th Court of Appeals''
        then ''Chief Justice, 10th Court of Appeals District''
      else if contains office ''Chief Justice, 11th Court of Appeals District''
        then ''Chief Justice, 11th Court of Appeals District''
      else office)"

definition rx_ci :: "string \<Rightarrow> rx" where
  \<comment> \<open>a pattern of plain text and dots, under \<^verbatim>\<open>re.IGNORECASE\<close>: a dot is any character but a newline\<close>
  "rx_ci s = Seq (map (\<lambda>c. if c = CHR ''.'' then Sym Dot else Sym (CI c)) s)"

definition rx_ci_rest :: "string \<Rightarrow> rx" where
  \<comment> \<open>the same followed by \<^verbatim>\<open>[^\n]*\<close>\<close>
  "rx_ci_rest s = Seq [rx_ci s, Star (NoneOf [C CHR 0x0A])]"

definition gb_office_patterns :: "rx list" where
  "gb_office_patterns =
     [rx_ci ''President and Vice President'',
      rx_ci ''President and Vice-President'',
      rx_ci ''President/Vice President'',
      rx_ci ''President/Vice-President'',
      rx_ci ''United States Senator'',
      rx_ci ''U.S. Senator'',
      rx_ci_rest ''United States Representative'',
      rx_ci_rest ''U.S. Representative'',
      rx_ci ''Railroad Commissioner'',
      rx_ci_rest ''Justice'',
      rx_ci_rest ''Judge'',
      rx_ci_rest ''Member'',
      rx_ci_rest ''State Representative'',
      rx_ci ''Chief Justice, 13th Court of Appeals District'',
      rx_ci ''Chief Justice, 10th Court of Appeals District'',
      rx_ci ''Chief Justice, 11th Court of Appeals District'',
      rx_ci_rest ''District Judge'',
      rx_ci_rest ''District Attorney'',
      rx_ci_rest ''County '',
      rx_ci ''Sheriff'',
      rx_ci ''District Clerk'',
      rx_ci_rest ''Presiding Judge'',
      Seq [rx_ci ''PROPOSITION '', Sym (RangeCI CHR ''A'' CHR ''Z'')],
      rx_ci ''County Attorney'',
      rx_ci ''County Clerk'',
      rx_ci ''County Tax Assessor-Collector'',
      rx_ci ''County Constable'',
      rx_ci ''Constable'',
      rx_ci ''HEADWATER GROUNDWATER CONSERVATION DISTRICT'']"

definition gb_precinct_rx :: rx where
  \<comment> \<open>\<^verbatim>\<open>^(\d+?(?:\s*-\s*[\w\s]+)?)\s+([\d,]+)\s+of\s+([\d,]+)\s+registered\s+voters\<close>\<close>
  "gb_precinct_rx =
     Seq [Bol,
          Grp 1 (Seq [PlusLazy Digit,
                      Opt (Seq [Star Space, Sym (C CHR ''-''), Star Space, Plus (OneOf [Word, Space])])]),
          Plus Space, Grp 2 (Plus num_class), Plus Space, lit ''of'', Plus Space,
          Grp 3 (Plus num_class), Plus Space, lit ''registered'', Plus Space, lit ''voters'']"

definition gb_district_rx :: rx where
  \<comment> \<open>\<^verbatim>\<open>District.*\s+(\d+)\<close>\<close>
  "gb_district_rx = Seq [lit ''District'', Star Dot, Plus Space, Grp 1 (Plus Digit)]"

definition gb_candidate_rx :: rx where
  \<comment> \<open>\<^verbatim>\<open>^(.+?)\s+(REP|DEM|LIB|GRN|IND|\(W\))\s+([\d,]+)\s+[\d.]+%\s+([\d,]+)\s+[\d.]+%\s+([\d,]+)\s+[\d.]+%\s+([\d,]+)\s+[\d.]+%\<close>\<close>
  "gb_candidate_rx =
     Seq [Bol, Grp 1 (PlusLazy Dot), Plus Space,
          Grp 2 (Alt [lit ''REP'', lit ''DEM'', lit ''LIB'', lit ''GRN'', lit ''IND'', lit ''(W)'']),
          Plus Space, Grp 3 (Plus num_class), Plus Space, Plus pct_class, Sym (C CHR ''%''),
          Plus Space, Grp 4 (Plus num_class), Plus Space, Plus pct_class, Sym (C CHR ''%''),
          Plus Space, Grp 5 (Plus num_class), Plus Space, Plus pct_class, Sym (C CHR ''%''),
          Plus Space, Grp 6 (Plus num_class), Plus Space, Plus pct_class, Sym (C CHR ''%'')]"

definition gb_precinct :: "string \<Rightarrow> pstate \<Rightarrow> groups \<Rightarrow> pstate" where
  \<comment> \<open>the block \<^verbatim>\<open>if precinct_match\<close>: the precinct is assigned before the numbers are converted\<close>
  "gb_precinct county st g =
     (let raw_precinct = strip (group g 1);
          st1 = st\<lparr>current_precinct := Some raw_precinct\<rparr>
      in case (int_commas (group g 2), int_commas (group g 3)) of
           (Some ballots_cast, Some registered_voters) \<Rightarrow>
             if raw_precinct \<notin> set (precinct_stats_added st1) then
               add_flag
                 (append_row
                    (append_row st1
                       (row4 county raw_precinct ''Registered Voters'' '''' '''' '''' registered_voters
                          (Str '''') (Str '''') (Str '''')))
                    (row4 county raw_precinct ''Ballots Cast'' '''' '''' '''' ballots_cast
                       (Str '''') (Str '''') (Str '''')))
                 raw_precinct
             else st1
         | _ \<Rightarrow> st1)"

definition gb_office :: "pstate \<Rightarrow> string \<Rightarrow> pstate" where
  \<comment> \<open>the loop over \<^verbatim>\<open>office_patterns\<close>: it has no \<^verbatim>\<open>break\<close>, and every pattern that matches
      assigns the same values, which depend on the line alone\<close>
  "gb_office st line =
     (if \<exists>pattern \<in> set gb_office_patterns. re_match pattern line \<noteq> None then
        st\<lparr>current_office := Some line,
           district :=
             (case re_search gb_district_rx (title line) of
                Some g \<Rightarrow> group g 1
              | None \<Rightarrow>
                  if contains line ''Place'' then
                    (case re_search (kw_num_rx ''Place'') (title line) of
                       Some g \<Rightarrow> group g 1 | None \<Rightarrow> '''')
                  else '''')\<rparr>
      else st)"

definition gb_candidate :: "string \<Rightarrow> pstate \<Rightarrow> string \<Rightarrow> string \<Rightarrow> groups \<Rightarrow> pstate" where
  \<comment> \<open>the block \<^verbatim>\<open>if candidate_match\<close>; the groups are name, party, absentee, early, election day, total\<close>
  "gb_candidate county st cp off g =
     (let candidate_name = strip (group g 1); party = strip (group g 2) in
      case ints4 g 3 of
        None \<Rightarrow> st
      | Some (absentee, early, election_day, total_votes) \<Rightarrow>
          if contains party ''(W)'' \<and> length candidate_name > 10 then st
          else append_row st
                 (row4 county cp (gb_normalize_office_name off) (district st) party candidate_name
                    total_votes (Num absentee) (Num early) (Num election_day)))"

definition gb_over_under :: "string \<Rightarrow> pstate \<Rightarrow> string \<Rightarrow> string \<Rightarrow> string \<Rightarrow> string \<Rightarrow> string \<Rightarrow> pstate" where
  \<comment> \<open>the blocks for \<^verbatim>\<open>Undervotes:\<close> and \<^verbatim>\<open>Overvotes:\<close> lines; the numbers are the runs of digits
      of the line without the word, in the order absentee, early, election day, total\<close>
  "gb_over_under county st cp off name label line =
     (let vote_numbers = re_findall_plus Digit (remove_all name line) in
      if length vote_numbers \<ge> 4 then
        (case those (map py_int [vote_numbers ! 3, vote_numbers ! 0, vote_numbers ! 1, vote_numbers ! 2]) of
           Some [total_votes, absentee, early, election_day] \<Rightarrow>
             append_row st
               (row4 county cp (gb_normalize_office_name off) (district st) '''' label total_votes
                  (Num absentee) (Num early) (Num election_day))
         | _ \<Rightarrow> st)
      else st)"

definition gb_header_terms :: "string list" where
  "gb_header_terms =
     [''Choice Party Absentee Voting'', ''Not Assigned'', ''Rejected write-in votes'',
      ''Unresolved write-in votes'', ''Contest Totals'']"

definition gb_step :: "string \<Rightarrow> pstate \<Rightarrow> string \<Rightarrow> pstate" where
  \<comment> \<open>one iteration of \<^verbatim>\<open>for i, line in enumerate(lines)\<close>\<close>
  "gb_step county st raw =
     (let line = strip raw in
      if line = [] then st
      else case re_search gb_precinct_rx line of
        Some g \<Rightarrow> gb_precinct county st g
      | None \<Rightarrow>
        (let st1 = gb_office st line in
         case (current_office st1, current_precinct st1) of
           (Some off, Some cp) \<Rightarrow>
             if \<exists>t \<in> set gb_header_terms. contains line t then st1
             else (case re_match gb_candidate_rx line of
                     Some g \<Rightarrow> gb_candidate county st1 cp off g
                   | None \<Rightarrow>
                       if startswith line ''Cast Votes:'' then st1
                       else if startswith line ''Undervotes:''
                         then gb_over_under county st1 cp off ''Undervotes:'' ''Under Votes'' line
                       else if startswith line ''Overvotes:''
                         then gb_over_under county st1 cp off ''Overvotes:'' ''Over Votes'' line
                       else st1)
         | _ \<Rightarrow> st1))"

definition gb_parse_election_data :: "string \<Rightarrow> string \<Rightarrow> row list" where
  "gb_parse_election_data text county = data (foldl (gb_step county) initial (split text [CHR 0x0A]))"

section \<open>Notions used in the statements\<close>


definition no_clash :: "string list \<Rightarrow> bool" where
  \<comment> \<open>no vote type is written to a column that has the name of one of the seven fixed columns\<close>
  "no_clash vts = (\<forall>vt \<in> set vts. vt \<noteq> ''votes_only'' \<longrightarrow> column_name vt \<notin> set base_headers)"




definition collin_is_precinct_header :: "string \<Rightarrow> bool" where
  \<comment> \<open>the line is one that \<^verbatim>\<open>collin.py\<close> takes as a precinct header\<close>
  "collin_is_precinct_header raw =
     (let line = strip raw in startswith line ''PCT '' \<and> re_match collin_precinct_rx line \<noteq> None)"

definition collin_is_office_header :: "string \<Rightarrow> bool" where
  \<comment> \<open>the line is one that \<^verbatim>\<open>collin.py\<close> takes as an office header\<close>
  "collin_is_office_header raw =
     (let line = strip raw
      in (\<exists>indicator \<in> set collin_office_indicators. contains line indicator)
         \<and> \<not> (\<exists>skip_term \<in> set collin_office_skip_terms. contains line skip_term))"

definition candidate_of :: "row \<Rightarrow> string" where
  \<comment> \<open>the \<^verbatim>\<open>candidate\<close> field of a record\<close>
  "candidate_of r = (case item r ''candidate'' of Str s \<Rightarrow> s | _ \<Rightarrow> [])"

definition party_of :: "row \<Rightarrow> string" where
  \<comment> \<open>the \<^verbatim>\<open>party\<close> field of a record\<close>
  "party_of r = (case item r ''party'' of Str s \<Rightarrow> s | _ \<Rightarrow> [])"

definition named_write_in :: "row \<Rightarrow> bool" where
  \<comment> \<open>the record of a write-in candidate with a name, as \<^verbatim>\<open>electionware.py\<close> and \<^verbatim>\<open>fort_bend.py\<close> test it\<close>
  "named_write_in r = startswith (candidate_of r) ''Write-In:''"

definition long_write_in :: "row \<Rightarrow> bool" where
  \<comment> \<open>the record of a write-in candidate with a name, as \<^verbatim>\<open>greenbox.py\<close> tests it\<close>
  "long_write_in r = (contains (party_of r) ''(W)'' \<and> length (candidate_of r) > 10)"

definition adds_only :: "(row \<Rightarrow> bool) \<Rightarrow> pstate \<Rightarrow> pstate \<Rightarrow> bool" where
  \<comment> \<open>every record of the second state is a record of the first or has the property\<close>
  "adds_only P st st' = (\<forall>r \<in> set (data st'). r \<in> set (data st) \<or> P r)"

definition statistics_line :: "string \<Rightarrow> bool" where
  \<comment> \<open>the line has one of the three markers that \<^verbatim>\<open>electionware.py\<close> and \<^verbatim>\<open>fort_bend.py\<close> test
      before they look for a candidate\<close>
  "statistics_line line =
     (contains line ''Registered Voters - Total'' \<or> contains line ''Ballots Cast - Total''
      \<or> contains line ''Ballots Cast - Blank'')"

definition office_of :: "row \<Rightarrow> string" where
  \<comment> \<open>the \<^verbatim>\<open>office\<close> field of a record\<close>
  "office_of r = (case item r ''office'' of Str s \<Rightarrow> s | _ \<Rightarrow> [])"

definition precinct_of :: "row \<Rightarrow> string" where
  \<comment> \<open>the \<^verbatim>\<open>precinct\<close> field of a record\<close>
  "precinct_of r = (case item r ''precinct'' of Str s \<Rightarrow> s | _ \<Rightarrow> [])"

definition stat_offices :: "string list" where
  \<comment> \<open>the offices of the three statistics that are guarded by \<^verbatim>\<open>precinct_stats_added\<close>\<close>
  "stat_offices = [''Registered Voters'', ''Ballots Cast'', ''Ballots Cast - Blank'']"

definition stat_flag :: "string \<Rightarrow> string" where
  \<comment> \<open>the suffix of the flag of a statistic: the flag is the precinct followed by the suffix\<close>
  "stat_flag office =
     (if office = ''Registered Voters'' then ''_registered''
      else if office = ''Ballots Cast'' then ''_ballots'' else ''_blank'')"

definition stat_count :: "string \<Rightarrow> string \<Rightarrow> row list \<Rightarrow> nat" where
  \<comment> \<open>the number of records of a precinct with the given office\<close>
  "stat_count p office rows = length (filter (\<lambda>r. precinct_of r = p \<and> office_of r = office) rows)"

definition bounded :: "(string \<Rightarrow> string \<Rightarrow> nat) \<Rightarrow> pstate \<Rightarrow> bool" where
  \<comment> \<open>over the counts \<open>c\<close>, a statistic has one record more at most, and none more while its
      flag is not set\<close>
  "bounded c st =
     (\<forall>p. \<forall>office \<in> set stat_offices.
        stat_count p office (data st)
          \<le> c p office + (if p @ stat_flag office \<in> set (precinct_stats_added st) then 1 else 0))"

definition fb_is_precinct_header :: "string \<Rightarrow> bool" where
  \<comment> \<open>the line is one that \<^verbatim>\<open>fort_bend.py\<close> takes as a precinct header\<close>
  "fb_is_precinct_header raw = (strip raw \<noteq> [] \<and> re_match fb_precinct_rx (strip raw) \<noteq> None)"

definition fb_precinct_name :: "string \<Rightarrow> string" where
  \<comment> \<open>the value \<^verbatim>\<open>fort_bend.py\<close> gives \<^verbatim>\<open>current_precinct\<close> at a precinct header\<close>
  "fb_precinct_name raw =
     (case re_match fb_precinct_rx (strip raw) of
        None \<Rightarrow> []
      | Some g \<Rightarrow> if truthy (group_opt g 2) then ''Precinct '' @ group g 1 @ ''-'' @ group g 2
                  else ''Precinct '' @ group g 1)"

definition flags_exact :: "pstate \<Rightarrow> bool" where
  \<comment> \<open>a statistic of a precinct has one record when its flag is set and none when it is not\<close>
  "flags_exact st =
     (\<forall>p. \<forall>office \<in> set stat_offices.
        stat_count p office (data st)
          = (if p @ stat_flag office \<in> set (precinct_stats_added st) then 1 else 0))"

definition ew_is_precinct_header :: "string \<Rightarrow> bool" where
  \<comment> \<open>the line is one that \<^verbatim>\<open>electionware.py\<close> takes as a precinct header\<close>
  "ew_is_precinct_header raw =
     (strip raw \<noteq> [] \<and> startswith (strip raw) ''Precinct ''
      \<and> re_match ew_precinct_rx (strip raw) \<noteq> None)"

definition ew_precinct_name :: "string \<Rightarrow> string" where
  \<comment> \<open>the value \<^verbatim>\<open>electionware.py\<close> gives \<^verbatim>\<open>current_precinct\<close> at a precinct header\<close>
  "ew_precinct_name raw =
     (case re_match ew_precinct_rx (strip raw) of None \<Rightarrow> [] | Some g \<Rightarrow> ''Precinct '' @ group g 1)"

definition ew_column_header :: "string \<Rightarrow> bool" where
  \<comment> \<open>the lines \<^verbatim>\<open>electionware.py\<close> skips before it looks for statistics\<close>
  "ew_column_header line =
     (line = ''Statistics''
      \<or> (contains line ''TOTAL'' \<and> contains line ''Absentee'' \<and> contains line ''Early''))"

definition ew_exact_inv :: "pstate \<Rightarrow> bool" where
  \<comment> \<open>the invariant of the loop of \<^verbatim>\<open>electionware.py\<close>: records and flags agree, and the office
      of the contest is none of the statistics\<close>
  "ew_exact_inv st = (flags_exact st \<and> ew_normalize_office_name (office_text st) \<notin> set stat_offices)"

definition fb_inv :: "(string \<Rightarrow> string \<Rightarrow> nat) \<Rightarrow> pstate \<Rightarrow> bool" where
  \<comment> \<open>the invariant of the loop of \<^verbatim>\<open>fort_bend.py\<close> between two precinct headers: the counts are
      bounded and the office of the contest is none of the statistics\<close>
  "fb_inv c st = (bounded c st \<and> fb_normalize_office_name (office_text st) \<notin> set stat_offices)"








section \<open>Properties: candidate and office text\<close>

lemma startswith_append: "startswith s (p @ q) \<Longrightarrow> startswith s p"
  by (induction s p rule: startswith.induct) auto

lemma contains_append: "contains s (p @ q) \<Longrightarrow> contains s p"
proof (induction s)
  case Nil
  then show ?case by simp
next
  case (Cons c cs)
  then show ?case by (auto dest: startswith_append)
qed

lemma contains_marker_paren: "contains s ''(I)'' \<Longrightarrow> contains s ''(''"
  using contains_append [of s "''(''" "''I)''"] by simp

text \<open>
  Claim C3, as amended. \<^verbatim>\<open>parse_candidate_party\<close> tests the independent marker before the
  generic parenthesised party: whenever the stripped text contains \<^verbatim>\<open>(I)\<close> the party is
  \<^verbatim>\<open>I\<close>. A double marker is removed from the name; a single marker is removed as well, and
  written back as a suffix only when text follows it; any other parenthesised suffix is the
  party and leaves the name.
\<close>

theorem parse_candidate_party_independent_first:
  "(\<forall>c. contains (strip c) ''(I)'' \<longrightarrow> snd (parse_candidate_party c) = Some ''I'')
   \<and> parse_candidate_party ''Jane Doe (I)(I)'' = (''Jane Doe'', Some ''I'')
   \<and> parse_candidate_party ''John Smith (I)'' = (''John Smith'', Some ''I'')
   \<and> parse_candidate_party ''John Smith (I) Write-in'' = (''John Smith (I)'', Some ''I'')
   \<and> parse_candidate_party ''John Smith (REP)'' = (''John Smith'', Some ''REP'')"
proof (intro conjI allI impI)
  fix c assume "contains (strip c) ''(I)''"
  then show "snd (parse_candidate_party c) = Some ''I''"
    using contains_marker_paren [of "strip c"] by (simp add: parse_candidate_party_def Let_def)
qed (code_simp+)

text \<open>The hypothesis of the general part holds for a name with a single marker.\<close>

theorem parse_candidate_party_independent_first_witness:
  "contains (strip ''Ann Lee (I)'') ''(I)'' \<and> snd (parse_candidate_party ''Ann Lee (I)'') = Some ''I''"
proof -
  have h: "contains (strip ''Ann Lee (I)'') ''(I)''" by code_simp
  from parse_candidate_party_independent_first
  have "contains (strip ''Ann Lee (I)'') ''(I)'' \<longrightarrow> snd (parse_candidate_party ''Ann Lee (I)'') = Some ''I''"
    by blast
  with h show ?thesis by blast
qed

text \<open>
  The claim as written gives the candidate \<^verbatim>\<open>John Smith (I)\<close> for the input \<^verbatim>\<open>John Smith (I)\<close>;
  the function returns the name without the marker.
\<close>

theorem parse_candidate_party_single_marker_counterexample:
  "parse_candidate_party ''John Smith (I)'' \<noteq> (''John Smith (I)'', Some ''I'')"
  by code_simp

text \<open>
  Claim C4. \<^verbatim>\<open>parse_office\<close> maps \<^verbatim>\<open>President/Vice President\<close> to the office \<^verbatim>\<open>President\<close> with no
  district. For \<^verbatim>\<open>State Representative, District 14 - REP\<close> it finds the district \<^verbatim>\<open>14\<close>, but the
  office keeps the district suffix: the text before \<^verbatim>\<open> - \<close> is taken whole, and the branch that
  cuts at the first comma is not reached.
\<close>

theorem parse_office_keeps_district_suffix:
  "parse_office (Some ''President/Vice President'') = (''President'', None)
   \<and> parse_office (Some ''State Representative, District 14 - REP'')
       = (''State Representative, District 14'', Some ''14'')
   \<and> parse_office (Some ''State Representative, District 14'') = (''State Representative'', Some ''14'')"
  by code_simp

section \<open>Properties: the Clarity aggregation store\<close>

















section \<open>Properties: rows built from the store\<close>

lemma map_of_add_column:
  "map_of (add_column office vd r vt) h =
     (if vt \<noteq> ''votes_only'' \<and> h = column_name vt
      then Some (if office = ''Registered Voters'' then Str ''''
                 else Num (case map_of vd vt of None \<Rightarrow> 0 | Some v \<Rightarrow> v))
      else map_of r h)"
  by (simp add: add_column_def update_conv')

lemma map_of_fold_other:
  "\<forall>vt \<in> set vts. vt \<noteq> ''votes_only'' \<longrightarrow> column_name vt \<noteq> h \<Longrightarrow>
   map_of (foldl (add_column office vd) r vts) h = map_of r h"
  by (induction vts arbitrary: r) (auto simp: map_of_add_column)

lemma map_of_fold_registered:
  "vt \<in> set vts \<Longrightarrow> vt \<noteq> ''votes_only'' \<Longrightarrow>
   map_of (foldl (add_column ''Registered Voters'' vd) r vts) (column_name vt) = Some (Str '''')"
proof (induction vts arbitrary: r rule: rev_induct)
  case Nil
  then show ?case by simp
next
  case (snoc x xs)
  show ?case
  proof (cases "x \<noteq> ''votes_only'' \<and> column_name vt = column_name x")
    case True
    then show ?thesis by (simp add: map_of_add_column)
  next
    case False
    with snoc.prems have "vt \<in> set xs" by auto
    from snoc.IH [OF this snoc.prems(2)] False show ?thesis
      by (auto simp: map_of_add_column)
  qed
qed

lemma map_of_fold_column:
  "vt \<in> set vts \<Longrightarrow> vt \<noteq> ''votes_only'' \<Longrightarrow> inj_on column_name (set vts) \<Longrightarrow>
   office \<noteq> ''Registered Voters'' \<Longrightarrow>
   map_of (foldl (add_column office vd) r vts) (column_name vt)
     = Some (Num (case map_of vd vt of None \<Rightarrow> 0 | Some v \<Rightarrow> v))"
proof (induction vts arbitrary: r rule: rev_induct)
  case Nil
  then show ?case by simp
next
  case (snoc x xs)
  show ?case
  proof (cases "x = vt")
    case True
    with snoc.prems show ?thesis by (simp add: map_of_add_column)
  next
    case False
    with snoc.prems have in_xs: "vt \<in> set xs" by auto
    from snoc.prems(3) have inj: "inj_on column_name (set xs)" by (auto simp: inj_on_def)
    from snoc.prems(3) in_xs False have "column_name vt \<noteq> column_name x"
      by (auto simp: inj_on_def)
    with snoc.IH [OF in_xs snoc.prems(2) inj snoc.prems(4)] show ?thesis
      by (simp add: map_of_add_column)
  qed
qed

lemma base_row_keys: "map fst (base_row k vd) = base_headers"
  by (cases k) (simp add: base_row_def base_headers_def)

lemma make_row_base:
  assumes "no_clash vts" "h \<in> set base_headers"
  shows "map_of (make_row vts (k, vd)) h = map_of (base_row k vd) h"
proof -
  from assms have "\<forall>vt \<in> set vts. vt \<noteq> ''votes_only'' \<longrightarrow> column_name vt \<noteq> h"
    by (auto simp: no_clash_def)
  then show ?thesis
    by (cases k) (simp add: make_row_def map_of_fold_other)
qed

lemma make_row_fields:
  assumes "no_clash vts"
  shows "item (make_row vts ((county, precinct, office, dist, party, candidate), vd)) ''office'' = Str office"
    and "item (make_row vts ((county, precinct, office, dist, party, candidate), vd)) ''party''
           = opt_cell (output_party office party)"
    and "item (make_row vts ((county, precinct, office, dist, party, candidate), vd)) ''votes''
           = Num (vote_total office vd)"
  using assms by (simp_all add: item_def make_row_base base_headers_def base_row_def)

lemma make_row_registered_columns:
  assumes "vt \<in> set vts" "vt \<noteq> ''votes_only''"
  shows "item (make_row vts ((county, precinct, ''Registered Voters'', dist, party, candidate), vd))
           (column_name vt) = Str ''''"
  using assms by (simp add: item_def make_row_def map_of_fold_registered)

lemma make_row_column:
  assumes "vt \<in> set vts" "vt \<noteq> ''votes_only''" "inj_on column_name (set vts)"
    "office \<noteq> ''Registered Voters''"
  shows "item (make_row vts ((county, precinct, office, dist, party, candidate), vd)) (column_name vt)
           = Num (case map_of vd vt of None \<Rightarrow> 0 | Some v \<Rightarrow> v)"
  using assms by (simp add: item_def make_row_def map_of_fold_column)

lemma keys_update_set: "fst ` set (AList.update k v al) = insert k (fst ` set al)"
proof -
  have "set (map fst (AList.update k v al)) = insert k (set (map fst al))"
    by (auto simp add: update_keys)
  then show ?thesis by simp
qed

lemma add_column_keys: "fst ` set r \<subseteq> fst ` set (add_column office vd r vt)"
  unfolding add_column_def by (auto simp only: keys_update_set split: if_splits)

lemma fold_add_column_keys: "fst ` set r \<subseteq> fst ` set (foldl (add_column office vd) r vts)"
proof (induction vts arbitrary: r)
  case Nil
  then show ?case by simp
next
  case (Cons a vts)
  from add_column_keys [of r office vd a] Cons [of "add_column office vd r a"] show ?case
    by auto
qed

lemma make_row_keys_base: "set base_headers \<subseteq> fst ` set (make_row vts kv)"
proof -
  obtain county precinct office dist party candidate vd
    where kv: "kv = ((county, precinct, office, dist, party, candidate), vd)"
    by (cases kv; cases "fst kv") auto
  have "set base_headers = fst ` set (base_row (fst kv) vd)"
    using base_row_keys [of "fst kv" vd] by (metis set_map)
  also have "\<dots> \<subseteq> fst ` set (foldl (add_column office vd) (base_row (fst kv) vd) vts)"
    by (rule fold_add_column_keys)
  finally show ?thesis by (simp add: kv make_row_def)
qed

lemma item_output_row:
  "h \<in> set hs \<Longrightarrow> h \<in> fst ` set r \<Longrightarrow> item (output_row hs r) h = item r h"
proof -
  assume h: "h \<in> set hs" and "h \<in> fst ` set r"
  then obtain c where c: "map_of r h = Some c"
    by (metis domD dom_map_of_conv_image_fst)
  have "map_of (output_row hs r) h = Some (case map_of r h of None \<Rightarrow> Str '''' | Some c \<Rightarrow> c)"
    using h unfolding output_row_def by (induction hs) auto
  with c show ?thesis by (simp add: item_def)
qed

lemma item_output_row_base:
  "h \<in> set base_headers \<Longrightarrow> item (output_row (headers vts') (make_row vts kv)) h = item (make_row vts kv) h"
  using make_row_keys_base [of vts kv] by (intro item_output_row) (auto simp: headers_def)

lemma item_output_row_column:
  "vt \<in> set vts' \<Longrightarrow> column_name vt \<in> fst ` set r \<Longrightarrow>
   item (output_row (headers vts') r) (column_name vt) = item r (column_name vt)"
  by (intro item_output_row) (auto simp: headers_def)

lemma precinct_results_rows:
  assumes "precinct_results c ex (Some p) doc = Inr (Some (hs, rows))"
  shows "hs = headers (snd (aggregate c p doc))
         \<and> rows = map (output_row hs)
                    (sort_key rank_key (map (make_row (snd (aggregate c p doc))) (fst (aggregate c p doc))))"
  using assms
  by (auto simp: precinct_results_def sort_rows_def Let_def split: if_splits prod.splits sum.splits)








lemma precinct_results_row_origin:
  assumes "precinct_results c ex (Some p) doc = Inr (Some (hs, rows))" "row \<in> set rows"
  shows "\<exists>kv \<in> set (fst (aggregate c p doc)).
           row = output_row (headers (snd (aggregate c p doc))) (make_row (snd (aggregate c p doc)) kv)"
  using precinct_results_rows [OF assms(1)] assms(2) by auto

lemma rank_key_output_row:
  "rank_key (output_row (headers vts') (make_row vts kv)) = rank_key (make_row vts kv)"
  by (simp add: rank_key_def sort_key_of_def item_output_row_base base_headers_def)

section \<open>Properties: keys of the store and of the rows\<close>



lemma ingest_vote_types:
  "snd (ingest county_name p (rs, vts) r) = snd (ingest county_name p ([], vts) r)"
  by (simp add: ingest_def Let_def split: option.splits prod.splits)























section \<open>Properties: the Clarity precinct path\<close>







text \<open>
  Claim C5, as amended. The rows \<^verbatim>\<open>precinct_results\<close> writes are in non-decreasing order of
  the key (office, district or the empty string, candidate), and rows with the same key stay
  in the order of their entries in the store, which is the order in which the keys first
  appeared in the input.
\<close>

theorem precinct_rows_sorted:
  assumes "precinct_results county_name ex (Some p) doc = Inr (Some (hs, rows))"
  shows "sorted (map rank_key rows)
         \<and> (\<forall>key. filter (\<lambda>r. rank_key r = key) rows
                  = map (output_row hs)
                      (filter (\<lambda>r. rank_key r = key)
                         (map (make_row (snd (aggregate county_name p doc)))
                            (fst (aggregate county_name p doc)))))"
proof -
  let ?vts = "snd (aggregate county_name p doc)"
  let ?made = "map (make_row ?vts) (fst (aggregate county_name p doc))"
  from precinct_results_rows [OF assms]
  have hs: "hs = headers ?vts" and rows: "rows = map (output_row hs) (sort_key rank_key ?made)"
    by simp_all
  have same: "\<forall>r \<in> set ?made. rank_key (output_row hs r) = rank_key r"
    by (auto simp: hs rank_key_output_row)
  then have same': "\<forall>r \<in> set (sort_key rank_key ?made). rank_key (output_row hs r) = rank_key r"
    by simp
  then have keys: "map rank_key rows = map rank_key (sort_key rank_key ?made)"
    unfolding rows by (simp add: comp_def)
  have "sorted (map rank_key rows)" unfolding keys by (rule sorted_sort_key)
  moreover have "filter (\<lambda>r. rank_key r = key) rows
                  = map (output_row hs) (filter (\<lambda>r. rank_key r = key) ?made)" for key
  proof -
    have "filter (\<lambda>r. rank_key r = key) rows
          = map (output_row hs) (filter (\<lambda>r. rank_key (output_row hs r) = key) (sort_key rank_key ?made))"
      unfolding rows by (simp add: filter_map comp_def)
    also have "filter (\<lambda>r. rank_key (output_row hs r) = key) (sort_key rank_key ?made)
               = filter (\<lambda>r. rank_key r = key) (sort_key rank_key ?made)"
    proof (rule filter_cong [OF refl])
      fix x assume "x \<in> set (sort_key rank_key ?made)"
      with same' have "rank_key (output_row hs x) = rank_key x" by (rule bspec)
      then show "(rank_key (output_row hs x) = key) = (rank_key x = key)" by simp
    qed
    also have "\<dots> = filter (\<lambda>r. rank_key r = key) ?made" by (rule sort_key_stable)
    finally show ?thesis .
  qed
  ultimately show ?thesis by blast
qed

text \<open>Two results that arrive in the order Sheriff, Governor are written in the order Governor, Sheriff.\<close>

theorem precinct_rows_sorted_witness:
  "precinct_results ''kent'' True
     (Some \<lparr>has_region = True, region = Some ''Kent'',
            results = [\<lparr>vote_type = ''Election Day'',
                        choice = Some \<lparr>choice_text = Some ''Jane Doe'', choice_party = Some ''DEM''\<rparr>,
                        contest_text = Some ''Sheriff'', jurisdiction = Some ''P1'', votes = 5\<rparr>,
                       \<lparr>vote_type = ''Election Day'',
                        choice = Some \<lparr>choice_text = Some ''Amy Adams'', choice_party = Some ''REP''\<rparr>,
                        contest_text = Some ''Governor'', jurisdiction = Some ''P1'', votes = 7\<rparr>]\<rparr>)
     None
   = Inr (Some ([''county'', ''precinct'', ''office'', ''district'', ''party'', ''candidate'', ''votes'',
                 ''election_day''],
                [[(''county'', Str ''Kent''), (''precinct'', Str ''P1''), (''office'', Str ''Governor''),
                  (''district'', NoneV), (''party'', Str ''REP''), (''candidate'', Str ''Amy Adams''),
                  (''votes'', Num 7), (''election_day'', Num 7)],
                 [(''county'', Str ''Kent''), (''precinct'', Str ''P1''), (''office'', Str ''Sheriff''),
                  (''district'', NoneV), (''party'', Str ''DEM''), (''candidate'', Str ''Jane Doe''),
                  (''votes'', Num 5), (''election_day'', Num 5)]]))
   \<and> sorted (map rank_key
        [[(''county'', Str ''Kent''), (''precinct'', Str ''P1''), (''office'', Str ''Governor''),
          (''district'', NoneV), (''party'', Str ''REP''), (''candidate'', Str ''Amy Adams''),
          (''votes'', Num 7), (''election_day'', Num 7)],
         [(''county'', Str ''Kent''), (''precinct'', Str ''P1''), (''office'', Str ''Sheriff''),
          (''district'', NoneV), (''party'', Str ''DEM''), (''candidate'', Str ''Jane Doe''),
          (''votes'', Num 5), (''election_day'', Num 5)]])"
  (is "?run = Inr (Some (?hs, ?rows)) \<and> _")
proof -
  have run: "?run = Inr (Some (?hs, ?rows))" by code_simp
  from precinct_rows_sorted [OF run] have "sorted (map rank_key ?rows)" by (rule conjunct1)
  with run show ?thesis by blast
qed

text \<open>
  The claim as written covers every parser. \<^verbatim>\<open>main\<close> of \<^verbatim>\<open>collin.py\<close> writes the records in the
  order of the lines they came from.
\<close>

theorem collin_rows_in_line_order_counterexample:
  "collin_main_rows
     ''PCT 001\<newline>Sheriff\<newline>Rep Zed Young 10 50.00% 1 2 3 4 0\<newline>Dem Amy Adams 10 50.00% 4 3 2 1 0''
   = [row6 ''Collin'' ''PCT 001'' ''Sheriff'' '''' ''Rep'' ''Zed Young'' 10 1 2 3 4 0,
      row6 ''Collin'' ''PCT 001'' ''Sheriff'' '''' ''Dem'' ''Amy Adams'' 10 4 3 2 1 0]
   \<and> \<not> sorted (map rank_key
         [row6 ''Collin'' ''PCT 001'' ''Sheriff'' '''' ''Rep'' ''Zed Young'' 10 1 2 3 4 0,
          row6 ''Collin'' ''PCT 001'' ''Sheriff'' '''' ''Dem'' ''Amy Adams'' 10 4 3 2 1 0])"
  by code_simp

text \<open>
  Claim C10, as amended. Provided no vote type is written to a column named like one of the
  seven fixed columns, every row \<^verbatim>\<open>precinct_results\<close> writes whose office contains \<^verbatim>\<open>Republican\<close>
  has the party \<^verbatim>\<open>REP\<close>, and every row whose office contains \<^verbatim>\<open>Democrat\<close> and does not contain
  \<^verbatim>\<open>Republican\<close> has the party \<^verbatim>\<open>DEM\<close>, whatever party the key holds.
\<close>

theorem precinct_party_from_office:
  assumes "precinct_results county_name ex (Some p) doc = Inr (Some (hs, rows))"
    and "no_clash (snd (aggregate county_name p doc))"
    and "row \<in> set rows"
    and "item row ''office'' = Str office"
  shows "(contains office ''Republican'' \<longrightarrow> item row ''party'' = Str ''REP'')
         \<and> (contains office ''Democrat'' \<and> \<not> contains office ''Republican''
              \<longrightarrow> item row ''party'' = Str ''DEM'')"
proof -
  let ?vts = "snd (aggregate county_name p doc)"
  from precinct_results_row_origin [OF assms(1,3)]
  obtain kv where "kv \<in> set (fst (aggregate county_name p doc))"
    and row: "row = output_row (headers ?vts) (make_row ?vts kv)" by blast
  obtain county precinct office' dist party candidate vd
    where kv: "kv = ((county, precinct, office', dist, party, candidate), vd)"
    by (cases kv; cases "fst kv") auto
  have "item row ''office'' = Str office'"
    by (simp add: row kv item_output_row_base base_headers_def make_row_fields [OF assms(2)])
  with assms(4) have office: "office' = office" by simp
  have "item row ''party'' = opt_cell (output_party office party)"
    by (simp add: row kv office item_output_row_base base_headers_def make_row_fields [OF assms(2)])
  then show ?thesis by (simp add: output_party_def opt_cell_def)
qed

text \<open>A candidate whose party is given as \<^verbatim>\<open>IND\<close> in a contest for a Republican office.\<close>

theorem precinct_party_from_office_witness:
  "precinct_results ''kent'' True
     (Some \<lparr>has_region = True, region = Some ''Kent'',
            results = [\<lparr>vote_type = ''Election Day'',
                        choice = Some \<lparr>choice_text = Some ''Jane Doe'', choice_party = Some ''IND''\<rparr>,
                        contest_text = Some ''Republican Party Chair'',
                        jurisdiction = Some ''P1'', votes = 5\<rparr>]\<rparr>)
     None
   = Inr (Some ([''county'', ''precinct'', ''office'', ''district'', ''party'', ''candidate'', ''votes'',
                 ''election_day''],
                [[(''county'', Str ''Kent''), (''precinct'', Str ''P1''),
                  (''office'', Str ''Republican Party Chair''),
                  (''district'', NoneV), (''party'', Str ''REP''), (''candidate'', Str ''Jane Doe''),
                  (''votes'', Num 5), (''election_day'', Num 5)]]))
   \<and> no_clash (snd (aggregate ''kent''
        \<lparr>has_region = True, region = Some ''Kent'',
         results = [\<lparr>vote_type = ''Election Day'',
                     choice = Some \<lparr>choice_text = Some ''Jane Doe'', choice_party = Some ''IND''\<rparr>,
                     contest_text = Some ''Republican Party Chair'',
                     jurisdiction = Some ''P1'', votes = 5\<rparr>]\<rparr> None))
   \<and> contains ''Republican Party Chair'' ''Republican''
   \<and> item [(''county'', Str ''Kent''), (''precinct'', Str ''P1''),
            (''office'', Str ''Republican Party Chair''),
            (''district'', NoneV), (''party'', Str ''REP''), (''candidate'', Str ''Jane Doe''),
            (''votes'', Num 5), (''election_day'', Num 5)] ''party'' = Str ''REP''"
  (is "?run = Inr (Some (?hs, [?row])) \<and> no_clash ?vts \<and> ?rep \<and> ?party")
proof -
  have run: "?run = Inr (Some (?hs, [?row]))" by code_simp
  have nc: "no_clash ?vts" by code_simp
  have mem: "?row \<in> set [?row]" by simp
  have office: "item ?row ''office'' = Str ''Republican Party Chair''" by code_simp
  have rep: ?rep by code_simp
  from precinct_party_from_office [OF run nc mem office] rep have ?party by blast
  with run nc rep show ?thesis by blast
qed

text \<open>
  The claim as written gives the party \<^verbatim>\<open>DEM\<close> to every office that contains \<^verbatim>\<open>Democrat\<close>. The test
  for \<^verbatim>\<open>Republican\<close> comes first, so an office that contains both words gets \<^verbatim>\<open>REP\<close>.
\<close>

theorem precinct_party_both_words_counterexample:
  "precinct_results ''kent'' True
     (Some \<lparr>has_region = True, region = Some ''Kent'',
            results = [\<lparr>vote_type = ''Election Day'',
                        choice = Some \<lparr>choice_text = Some ''Jane Doe'', choice_party = Some ''DEM''\<rparr>,
                        contest_text = Some ''Democrat and Republican Joint Committee'',
                        jurisdiction = Some ''P1'', votes = 5\<rparr>]\<rparr>)
     None
   = Inr (Some ([''county'', ''precinct'', ''office'', ''district'', ''party'', ''candidate'', ''votes'',
                 ''election_day''],
                [[(''county'', Str ''Kent''), (''precinct'', Str ''P1''),
                  (''office'', Str ''Democrat and Republican Joint Committee''),
                  (''district'', NoneV), (''party'', Str ''REP''), (''candidate'', Str ''Jane Doe''),
                  (''votes'', Num 5), (''election_day'', Num 5)]]))
   \<and> contains ''Democrat and Republican Joint Committee'' ''Democrat''
   \<and> Str ''REP'' \<noteq> Str ''DEM''"
  by code_simp

section \<open>Properties: collin.py\<close>

text \<open>
  Claim C6. The fallback of \<^verbatim>\<open>collin.py\<close> asks for six numbers and counts the runs of digits and
  commas it finds after the party token. A percentage with a decimal point is two such runs,
  so the line below, which has a total, a percentage and three method figures where the format
  has a total, a percentage and five, passes the test: the candidate pattern does not match
  it, and the fallback appends a record whose \<^verbatim>\<open>election_day\<close> is the fraction of the percentage.
  A line with three numbers and no percentage gives no record, in \<^verbatim>\<open>collin.py\<close> and in
  \<^verbatim>\<open>fort_bend.py\<close>.
\<close>

theorem collin_fallback_accepts_short_line:
  "re_search collin_candidate_rx ''Rep John Doe 10 50.00% 4 3 3'' = None
   \<and> re_findall_plus num_class ''John Doe 10 50.00% 4 3 3'' = [''10'', ''50'', ''00'', ''4'', ''3'', ''3'']
   \<and> collin_parse_election_data ''PCT 001\<newline>Sheriff\<newline>Rep John Doe 10 50.00% 4 3 3'' ''Collin''
       = [row6 ''Collin'' ''PCT 001'' ''Sheriff'' '''' ''Rep'' ''John Doe'' 10 0 4 3 3 0]
   \<and> collin_parse_election_data ''PCT 001\<newline>Sheriff\<newline>Rep John Doe 10 20 30'' ''Collin'' = []
   \<and> fb_parse_election_data ''1004\<newline>Sheriff\<newline>REP John Doe 10 20 30'' ''Fort Bend'' = []"
  by code_simp

lemma collin_step_data_no_precinct:
  "current_precinct st = None \<Longrightarrow> data (collin_step county st raw) = data st"
  by (simp add: collin_step_def Let_def split: option.splits)

lemma collin_step_data_no_office:
  "current_office st = None \<Longrightarrow> data (collin_step county st raw) = data st"
  by (simp add: collin_step_def Let_def split: option.splits)

lemma collin_step_no_precinct:
  "current_precinct st = None \<Longrightarrow> \<not> collin_is_precinct_header raw \<Longrightarrow> collin_step county st raw = st"
  by (auto simp: collin_step_def collin_is_precinct_header_def Let_def split: option.splits if_splits)

lemma collin_step_no_office:
  "current_office st = None \<Longrightarrow> \<not> collin_is_precinct_header raw \<Longrightarrow> \<not> collin_is_office_header raw
   \<Longrightarrow> collin_step county st raw = st"
  by (auto simp: collin_step_def collin_is_precinct_header_def collin_is_office_header_def Let_def
      split: option.splits if_splits)

lemma collin_scan_no_precinct:
  "current_precinct st = None \<Longrightarrow> \<forall>l \<in> set ls. \<not> collin_is_precinct_header l
   \<Longrightarrow> foldl (collin_step county) st ls = st"
  by (induction ls) (simp_all add: collin_step_no_precinct)

lemma collin_step_office_stays_unset:
  "current_office st = None \<Longrightarrow> \<not> collin_is_office_header raw
   \<Longrightarrow> current_office (collin_step county st raw) = None"
  by (auto simp: collin_step_def collin_is_office_header_def Let_def split: option.splits if_splits)

lemma collin_scan_no_office:
  "current_office st = None \<Longrightarrow> \<forall>l \<in> set ls. \<not> collin_is_office_header l
   \<Longrightarrow> data (foldl (collin_step county) st ls) = data st
       \<and> current_office (foldl (collin_step county) st ls) = None"
proof (induction ls arbitrary: st)
  case Nil
  then show ?case by simp
next
  case (Cons l ls)
  from Cons.prems have unset: "current_office (collin_step county st l) = None"
    by (simp add: collin_step_office_stays_unset)
  from Cons.prems have rest: "\<forall>l \<in> set ls. \<not> collin_is_office_header l" by simp
  from Cons.IH [OF unset rest] Cons.prems(1) show ?case
    by (simp add: collin_step_data_no_office)
qed

text \<open>
  Claim C7. In \<^verbatim>\<open>collin.py\<close>, while no precinct is set, or no office is set, a line adds no
  record, whatever the line is. A line that is no precinct header leaves the variables of the loop as
  they were while no precinct is set, and so does a line that is neither header while no office
  is set: the lines before the first precinct header change nothing, and the lines before the
  first office header add no record. The loop body is one \<^verbatim>\<open>try\<close> whose handler goes on with the
  next line, so the step has no other outcome than the next state.
\<close>

theorem collin_missing_context_drops_line:
  "(current_precinct st = None \<or> current_office st = None \<longrightarrow> data (collin_step county st raw) = data st)
   \<and> (current_precinct st = None \<and> \<not> collin_is_precinct_header raw \<longrightarrow> collin_step county st raw = st)
   \<and> (current_office st = None \<and> \<not> collin_is_precinct_header raw \<and> \<not> collin_is_office_header raw
        \<longrightarrow> collin_step county st raw = st)
   \<and> ((\<forall>l \<in> set ls. \<not> collin_is_precinct_header l) \<longrightarrow> foldl (collin_step county) initial ls = initial)
   \<and> (current_office st = None \<and> (\<forall>l \<in> set ls. \<not> collin_is_office_header l)
        \<longrightarrow> data (foldl (collin_step county) st ls) = data st)"
  using collin_step_data_no_precinct [of st county raw] collin_step_data_no_office [of st county raw]
    collin_step_no_precinct [of st raw county] collin_step_no_office [of st raw county]
    collin_scan_no_precinct [of initial ls county] collin_scan_no_office [of st ls county]
  by (auto simp: initial_def)

text \<open>
  A candidate line and an over-vote line, which give records after \<^verbatim>\<open>PCT 001\<close> and \<^verbatim>\<open>Sheriff\<close>,
  are dropped before the precinct header, and after it while no office is set.
\<close>

theorem collin_missing_context_drops_line_witness:
  "collin_parse_election_data
     ''PCT 001\<newline>Sheriff\<newline>Rep Jane Doe 1,036 54.07% 119 886 30 1 0\<newline>Overvotes 0 0 0 0 0 0'' ''Collin''
   = [row6 ''Collin'' ''PCT 001'' ''Sheriff'' '''' ''Rep'' ''Jane Doe'' 1036 119 886 30 1 0,
      row6 ''Collin'' ''PCT 001'' ''Sheriff'' '''' '''' ''Over Votes'' 0 0 0 0 0 0]
   \<and> current_precinct initial = None
   \<and> \<not> collin_is_precinct_header ''Rep Jane Doe 1,036 54.07% 119 886 30 1 0''
   \<and> collin_step ''Collin'' initial ''Rep Jane Doe 1,036 54.07% 119 886 30 1 0'' = initial
   \<and> current_office (initial\<lparr>current_precinct := Some ''PCT 001''\<rparr>) = None
   \<and> \<not> collin_is_office_header ''Rep Jane Doe 1,036 54.07% 119 886 30 1 0''
   \<and> collin_step ''Collin'' (initial\<lparr>current_precinct := Some ''PCT 001''\<rparr>)
         ''Rep Jane Doe 1,036 54.07% 119 886 30 1 0''
       = initial\<lparr>current_precinct := Some ''PCT 001''\<rparr>
   \<and> \<not> collin_is_precinct_header ''Overvotes 0 0 0 0 0 0''
   \<and> \<not> collin_is_office_header ''Overvotes 0 0 0 0 0 0''
   \<and> foldl (collin_step ''Collin'') initial
         [''Rep Jane Doe 1,036 54.07% 119 886 30 1 0'', ''Overvotes 0 0 0 0 0 0''] = initial
   \<and> data (foldl (collin_step ''Collin'') (initial\<lparr>current_precinct := Some ''PCT 001''\<rparr>)
         [''Rep Jane Doe 1,036 54.07% 119 886 30 1 0'', ''Overvotes 0 0 0 0 0 0''])
       = data (initial\<lparr>current_precinct := Some ''PCT 001''\<rparr>)"
  (is "?parsed \<and> ?p0 \<and> \<not> collin_is_precinct_header ?raw \<and> ?s1 \<and> current_office ?st = None
       \<and> \<not> collin_is_office_header ?raw \<and> ?s2 \<and> \<not> collin_is_precinct_header ?over \<and> \<not> collin_is_office_header ?over
       \<and> ?f1 \<and> ?f2")
proof -
  have parsed: ?parsed by code_simp
  have p0: ?p0 by (simp add: initial_def)
  have o0: "current_office ?st = None" by (simp add: initial_def)
  have np: "\<not> collin_is_precinct_header ?raw" by code_simp
  have no: "\<not> collin_is_office_header ?raw" by code_simp
  have np': "\<not> collin_is_precinct_header ?over" by code_simp
  have no': "\<not> collin_is_office_header ?over" by code_simp
  let ?ls = "[?raw, ?over]"
  have nls: "\<forall>l \<in> set ?ls. \<not> collin_is_precinct_header l \<and> \<not> collin_is_office_header l"
    using np no np' no' by simp
  note t = collin_missing_context_drops_line [where county = "''Collin''" and raw = ?raw and ls = ?ls]
  have s1: ?s1
    by (rule t [where st = initial, THEN conjunct2, THEN conjunct1, THEN mp, OF conjI [OF p0 np]])
  have s2: ?s2
    by (rule t [where st = ?st, THEN conjunct2, THEN conjunct2, THEN conjunct1, THEN mp,
          OF conjI [OF o0 conjI [OF np no]]])
  have f1: ?f1
    by (rule t [where st = initial, THEN conjunct2, THEN conjunct2, THEN conjunct2, THEN conjunct1,
          THEN mp]) (use nls in blast)
  have f2: ?f2
    by (rule t [where st = ?st, THEN conjunct2, THEN conjunct2, THEN conjunct2, THEN conjunct2,
          THEN mp]) (use nls o0 in blast)
  show ?thesis by (intro conjI parsed p0 np s1 o0 no s2 np' no' f1 f2)
qed

section \<open>Named write-in candidates\<close>

lemma row4_candidate: "candidate_of (row4 c p off d pa cand t a e ed) = cand"
  by (simp add: candidate_of_def row4_def item_def)

lemma row4_party: "party_of (row4 c p off d pa cand t a e ed) = pa"
  by (simp add: party_of_def row4_def item_def)

lemma adds_only_refl: "adds_only P st st"
  by (simp add: adds_only_def)

lemma adds_only_append: "P r \<Longrightarrow> adds_only P st (append_row st r)"
  by (auto simp: adds_only_def append_row_def)

lemma adds_only_flag: "adds_only P st st' \<Longrightarrow> adds_only P st (add_flag st' f)"
  by (simp add: adds_only_def add_flag_def)

lemma adds_only_trans: "adds_only P st st' \<Longrightarrow> adds_only P st' st'' \<Longrightarrow> adds_only P st st''"
  by (auto simp: adds_only_def)

lemma adds_only_context:
  "adds_only P st (st\<lparr>current_precinct := a\<rparr>)"
  "adds_only P st (st\<lparr>current_office := b, district := c\<rparr>)"
  "adds_only P st (st\<lparr>current_precinct := a, precinct_stats_added := d\<rparr>)"
  by (simp_all add: adds_only_def)

lemmas adds_only_intros = adds_only_refl adds_only_append adds_only_flag adds_only_context

lemma stat_row_not_named: "\<not> named_write_in (row4 c p off d pa [] t a e ed)"
  "\<not> named_write_in (row4 c p off d pa ''Over Votes'' t a e ed)"
  "\<not> named_write_in (row4 c p off d pa ''Under Votes'' t a e ed)"
  "\<not> named_write_in (row4 c p off d pa ''Write-In Totals'' t a e ed)"
  by (simp_all add: named_write_in_def row4_candidate)

lemma ew_registered_named: "adds_only (\<lambda>r. \<not> named_write_in r) st (ew_registered county st cp line)"
  by (simp add: ew_registered_def adds_only_intros stat_row_not_named split: option.splits)

lemma ew_ballots_named: "adds_only (\<lambda>r. \<not> named_write_in r) st (ew_ballots county st cp line)"
  by (simp add: ew_ballots_def adds_only_intros stat_row_not_named split: option.splits prod.splits)

lemma ew_blank_named: "adds_only (\<lambda>r. \<not> named_write_in r) st (ew_blank county st cp line)"
  by (simp add: ew_blank_def adds_only_intros stat_row_not_named split: option.splits prod.splits)

lemma ew_over_under_named:
  "label = ''Over Votes'' \<or> label = ''Under Votes'' \<Longrightarrow>
   adds_only (\<lambda>r. \<not> named_write_in r) st (ew_over_under county st cp name label line)"
  by (auto simp: ew_over_under_def adds_only_intros stat_row_not_named split: option.splits prod.splits)

lemma ew_office_named: "adds_only P st (ew_office st line)"
  by (simp add: ew_office_def adds_only_intros)

lemma ew_candidate_named: "adds_only (\<lambda>r. \<not> named_write_in r) st (ew_candidate county st cp off line)"
  by (simp add: ew_candidate_def Let_def adds_only_intros named_write_in_def row4_candidate
      split: option.splits prod.splits)

lemma ew_step_named: "adds_only (\<lambda>r. \<not> named_write_in r) st (ew_step county st raw)"
proof -
  let ?N = "\<lambda>r. \<not> named_write_in r"
  have tail: "adds_only ?N st (case current_office (ew_office st line) of None \<Rightarrow> ew_office st line
                | Some off \<Rightarrow> if \<exists>skip_term \<in> set ew_skip_terms. contains line skip_term
                             then ew_office st line
                             else ew_candidate county (ew_office st line) cp off line)" for line cp
    by (auto split: option.splits
        intro: ew_office_named adds_only_trans [OF ew_office_named ew_candidate_named])
  show ?thesis
    unfolding ew_step_def Let_def
    by (simp split: option.splits
        add: adds_only_intros ew_registered_named ew_ballots_named ew_blank_named ew_over_under_named tail)
qed

lemma ew_scan_named:
  "\<forall>r \<in> set (data st). \<not> named_write_in r \<Longrightarrow>
   \<forall>r \<in> set (data (foldl (ew_step county) st ls)). \<not> named_write_in r"
proof (induction ls arbitrary: st)
  case Nil
  then show ?case by simp
next
  case (Cons l ls)
  from Cons.prems ew_step_named [of st county l]
  have "\<forall>r \<in> set (data (ew_step county st l)). \<not> named_write_in r"
    by (auto simp: adds_only_def)
  from Cons.IH [OF this] show ?case by simp
qed

lemma ew_output_named: "\<forall>r \<in> set (ew_parse_election_data text county). \<not> named_write_in r"
  unfolding ew_parse_election_data_def by (rule ew_scan_named) (simp add: initial_def)

lemma scan_adds_only:
  assumes step: "\<And>st raw. adds_only P st (step st raw)"
  shows "\<forall>r \<in> set (data st). P r \<Longrightarrow> \<forall>r \<in> set (data (foldl step st ls)). P r"
proof (induction ls arbitrary: st)
  case Nil
  then show ?case by simp
next
  case (Cons l ls)
  from Cons.prems step [of st l] have "\<forall>r \<in> set (data (step st l)). P r"
    by (auto simp: adds_only_def)
  from Cons.IH [OF this] show ?case by simp
qed

lemma fb_registered_named: "adds_only (\<lambda>r. \<not> named_write_in r) st (fb_registered county st cp line)"
  by (simp add: fb_registered_def adds_only_intros stat_row_not_named split: option.splits)

lemma fb_ballots_named: "adds_only (\<lambda>r. \<not> named_write_in r) st (fb_ballots county st cp line)"
  by (simp add: fb_ballots_def adds_only_intros stat_row_not_named split: option.splits prod.splits)

lemma fb_blank_named: "adds_only (\<lambda>r. \<not> named_write_in r) st (fb_blank county st cp line)"
  by (simp add: fb_blank_def adds_only_intros stat_row_not_named split: option.splits prod.splits)

lemma fb_over_under_named:
  "label = ''Over Votes'' \<or> label = ''Under Votes'' \<Longrightarrow>
   adds_only (\<lambda>r. \<not> named_write_in r) st (fb_over_under county st cp name label line)"
  by (auto simp: fb_over_under_def adds_only_intros stat_row_not_named split: option.splits prod.splits)

lemma fb_write_in_totals_named:
  "adds_only (\<lambda>r. \<not> named_write_in r) st (fb_write_in_totals county st cp line)"
  by (simp add: fb_write_in_totals_def adds_only_intros stat_row_not_named split: option.splits)

lemma fb_candidate_named: "adds_only (\<lambda>r. \<not> named_write_in r) st (fb_candidate county st cp line)"
  by (simp add: fb_candidate_def Let_def adds_only_intros named_write_in_def row4_candidate
      split: option.splits)

lemma fb_step_named: "adds_only (\<lambda>r. \<not> named_write_in r) st (fb_step county st raw)"
  unfolding fb_step_def Let_def
  by (simp split: option.splits
      add: adds_only_intros fb_registered_named fb_ballots_named fb_blank_named fb_over_under_named
        fb_write_in_totals_named fb_candidate_named)

lemma fb_output_named: "\<forall>r \<in> set (fb_parse_election_data text county). \<not> named_write_in r"
  unfolding fb_parse_election_data_def
  by (rule scan_adds_only [where P = "\<lambda>r. \<not> named_write_in r", OF fb_step_named])
    (simp add: initial_def)

lemma stat_row_not_long: "\<not> long_write_in (row4 c p off d [] cand t a e ed)"
  by (simp add: long_write_in_def row4_party)

lemma gb_precinct_long: "adds_only (\<lambda>r. \<not> long_write_in r) st (gb_precinct county st g)"
proof -
  have two: "adds_only P st (add_flag (append_row (append_row (st\<lparr>current_precinct := a\<rparr>) r1) r2) f)"
    if "P r1" "P r2" for P a r1 r2 f
    using that by (auto simp: adds_only_def append_row_def add_flag_def)
  show ?thesis
    by (simp add: gb_precinct_def Let_def adds_only_intros two stat_row_not_long
        split: option.splits prod.splits)
qed

lemma gb_office_long: "adds_only P st (gb_office st line)"
  by (simp add: gb_office_def adds_only_def)

lemma gb_candidate_long: "adds_only (\<lambda>r. \<not> long_write_in r) st (gb_candidate county st cp off g)"
  by (simp add: gb_candidate_def Let_def adds_only_intros long_write_in_def row4_candidate row4_party
      split: option.splits prod.splits)

lemma gb_over_under_long:
  "adds_only (\<lambda>r. \<not> long_write_in r) st (gb_over_under county st cp off name label line)"
  by (simp add: gb_over_under_def Let_def adds_only_intros stat_row_not_long
      split: option.splits list.splits)

lemma gb_step_long: "adds_only (\<lambda>r. \<not> long_write_in r) st (gb_step county st raw)"
proof -
  let ?L = "\<lambda>r. \<not> long_write_in r"
  have after: "adds_only ?L st st'" if "adds_only ?L (gb_office st line) st'" for line st'
    using gb_office_long [of ?L st line] that by (rule adds_only_trans)
  show ?thesis
    unfolding gb_step_def Let_def
    by (auto split: option.splits
        intro!: after gb_precinct_long gb_candidate_long gb_over_under_long adds_only_refl)
qed

lemma gb_output_long: "\<forall>r \<in> set (gb_parse_election_data text county). \<not> long_write_in r"
  unfolding gb_parse_election_data_def
  by (rule scan_adds_only [where P = "\<lambda>r. \<not> long_write_in r", OF gb_step_long])
    (simp add: initial_def)

lemma ew_candidate_write_in:
  "re_match ew_candidate_rx line = Some g \<Longrightarrow> startswith (strip (group g 2)) ''Write-In:''
   \<Longrightarrow> ew_candidate county st cp off line = st"
  by (simp add: ew_candidate_def Let_def split: option.splits)

lemma fb_candidate_write_in:
  "fb_number_start (words line) = Some n
   \<Longrightarrow> startswith (join '' '' (take (n - 1) (drop 1 (words line)))) ''Write-In:''
   \<Longrightarrow> fb_candidate county st cp line = st"
  by (simp add: fb_candidate_def Let_def split: option.splits)

lemma gb_candidate_write_in:
  "contains (strip (group g 2)) ''(W)'' \<Longrightarrow> length (strip (group g 1)) > 10
   \<Longrightarrow> gb_candidate county st cp off g = st"
  by (simp add: gb_candidate_def Let_def split: option.splits)

lemma matches_lit_startswith:
  "matches (Seq (map (\<lambda>c. Sym (C c)) p)) (n, s, g) \<noteq> [] \<Longrightarrow> startswith s p"
proof (induction p arbitrary: n s g)
  case Nil
  then show ?case by simp
next
  case (Cons c p)
  show ?case
  proof (cases s)
    case Nil
    with Cons.prems show ?thesis by simp
  next
    case (Cons x xs)
    with Cons.prems have x: "x = c" and m: "matches (Seq (map (\<lambda>c. Sym (C c)) p)) (n + 1, xs, g) \<noteq> []"
      by (auto simp: advance_def split: if_splits)
    from Cons.IH [OF m] x Cons show ?thesis by simp
  qed
qed

lemma ew_candidate_match_party:
  assumes "re_match ew_candidate_rx line = Some g"
  shows "\<exists>p \<in> set [''REP'', ''DEM'', ''LIB'', ''GRN'', ''IND'']. startswith line p"
proof -
  let ?st = "(0 :: nat, line, [] :: groups)"
  have "matches party_alt ?st \<noteq> []"
  proof
    assume "matches party_alt ?st = []"
    then have "matches ew_candidate_rx ?st = []"
      by (simp add: ew_candidate_rx_def)
    with assms show False by (simp add: re_match_def match_at_def)
  qed
  then have "\<exists>p \<in> set [''REP'', ''DEM'', ''LIB'', ''GRN'', ''IND'']. matches (lit p) ?st \<noteq> []"
    unfolding party_alt_def by (simp del: matches.simps(5,6))
  then obtain p where p: "p \<in> set [''REP'', ''DEM'', ''LIB'', ''GRN'', ''IND'']"
    and m: "matches (lit p) ?st \<noteq> []" by (rule bexE)
  from m have "startswith line p" unfolding lit_def by (rule matches_lit_startswith)
  with p show ?thesis by (rule bexI [rotated])
qed

lemma party_prefix_not_other:
  assumes "\<exists>p \<in> set [''REP'', ''DEM'', ''LIB'', ''GRN'', ''IND'']. startswith line p"
  shows "\<not> startswith line ''Overvotes''" "\<not> startswith line ''Undervotes''"
    "\<not> startswith line ''Write-In Totals''"
  using assms by (cases line; auto)+

lemma data_ew_office: "data (ew_office st line) = data st"
  by (simp add: ew_office_def)

lemma ew_step_write_in:
  assumes m: "re_match ew_candidate_rx (strip raw) = Some g"
    and w: "startswith (strip (group g 2)) ''Write-In:''"
    and ns: "\<not> statistics_line (strip raw)"
  shows "data (ew_step county st raw) = data st"
proof -
  note pp = party_prefix_not_other [OF ew_candidate_match_party [OF m]]
  have c: "ew_candidate county st' cp off (strip raw) = st'" for st' cp off
    using m w by (rule ew_candidate_write_in)
  show ?thesis
    using ns pp(1,2) unfolding ew_step_def Let_def statistics_line_def
    by (simp add: c data_ew_office split: option.splits)
qed

lemma fb_step_write_in:
  assumes p: "\<exists>p \<in> set [''REP'', ''DEM'', ''LIB'', ''GRN'', ''IND'']. startswith (strip raw) p"
    and n: "fb_number_start (words (strip raw)) = Some n"
    and w: "startswith (join '' '' (take (n - 1) (drop 1 (words (strip raw))))) ''Write-In:''"
    and ns: "\<not> statistics_line (strip raw)"
  shows "data (fb_step county st raw) = data st"
proof -
  note pp = party_prefix_not_other [OF p]
  have c: "fb_candidate county st' cp (strip raw) = st'" for st' cp
    using n w by (rule fb_candidate_write_in)
  show ?thesis
    using ns pp unfolding fb_step_def Let_def statistics_line_def
    by (simp add: c split: option.splits)
qed

lemma data_gb_office: "data (gb_office st line) = data st"
  by (simp add: gb_office_def)

lemma gb_step_write_in:
  assumes m: "re_match gb_candidate_rx (strip raw) = Some g"
    and w: "contains (strip (group g 2)) ''(W)''" "length (strip (group g 1)) > 10"
    and np: "re_search gb_precinct_rx (strip raw) = None"
  shows "data (gb_step county st raw) = data st"
proof -
  have c: "gb_candidate county st' cp off g = st'" for st' cp off
    using w by (rule gb_candidate_write_in)
  show ?thesis
    using np m unfolding gb_step_def Let_def
    by (simp add: c data_gb_office split: option.splits)
qed

text \<open>
  Claim C9. In \<^verbatim>\<open>electionware.py\<close> and \<^verbatim>\<open>fort_bend.py\<close> the candidate block leaves every variable
  of the loop as it was when the candidate name it has extracted starts with \<^verbatim>\<open>Write-In:\<close>, and
  in \<^verbatim>\<open>greenbox.py\<close> when the party token contains \<^verbatim>\<open>(W)\<close> and the name has more than ten
  characters. Such a line adds no record in the iteration that reads it: in \<^verbatim>\<open>electionware.py\<close>
  and \<^verbatim>\<open>fort_bend.py\<close> when it has none of the statistics markers, which are tested before the
  candidate block, and in \<^verbatim>\<open>greenbox.py\<close> when it is no precinct header. And whatever the text is,
  the output of \<^verbatim>\<open>electionware.py\<close> and of \<^verbatim>\<open>fort_bend.py\<close> has no record whose candidate starts
  with \<^verbatim>\<open>Write-In:\<close>, and the output of \<^verbatim>\<open>greenbox.py\<close> has no record whose party contains \<^verbatim>\<open>(W)\<close>
  and whose candidate has more than ten characters.
\<close>

theorem named_write_ins_omitted:
  "(re_match ew_candidate_rx line = Some g \<and> startswith (strip (group g 2)) ''Write-In:''
      \<longrightarrow> ew_candidate county st cp off line = st)
   \<and> (fb_number_start (words line) = Some n
        \<and> startswith (join '' '' (take (n - 1) (drop 1 (words line)))) ''Write-In:''
      \<longrightarrow> fb_candidate county st cp line = st)
   \<and> (contains (strip (group h 2)) ''(W)'' \<and> length (strip (group h 1)) > 10
      \<longrightarrow> gb_candidate county st cp off h = st)
   \<and> (re_match ew_candidate_rx (strip raw) = Some g \<and> startswith (strip (group g 2)) ''Write-In:''
        \<and> \<not> statistics_line (strip raw)
      \<longrightarrow> data (ew_step county st raw) = data st)
   \<and> ((\<exists>p \<in> set [''REP'', ''DEM'', ''LIB'', ''GRN'', ''IND'']. startswith (strip raw) p)
        \<and> fb_number_start (words (strip raw)) = Some n
        \<and> startswith (join '' '' (take (n - 1) (drop 1 (words (strip raw))))) ''Write-In:''
        \<and> \<not> statistics_line (strip raw)
      \<longrightarrow> data (fb_step county st raw) = data st)
   \<and> (re_match gb_candidate_rx (strip raw) = Some h \<and> contains (strip (group h 2)) ''(W)''
        \<and> length (strip (group h 1)) > 10 \<and> re_search gb_precinct_rx (strip raw) = None
      \<longrightarrow> data (gb_step county st raw) = data st)
   \<and> (\<forall>r \<in> set (ew_parse_election_data pdf_text county). \<not> named_write_in r)
   \<and> (\<forall>r \<in> set (fb_parse_election_data pdf_text county). \<not> named_write_in r)
   \<and> (\<forall>r \<in> set (gb_parse_election_data pdf_text county). \<not> long_write_in r)"
  (is "?b1 \<and> ?b2 \<and> ?b3 \<and> ?s1 \<and> ?s2 \<and> ?s3 \<and> ?o1 \<and> ?o2 \<and> ?o3")
proof -
  have b1: ?b1 using ew_candidate_write_in [of line g county st cp off] by blast
  have b2: ?b2 using fb_candidate_write_in [of line n county st cp] by blast
  have b3: ?b3 using gb_candidate_write_in [of h county st cp off] by blast
  have s1: ?s1 using ew_step_write_in [of raw g county st] by blast
  have s2: ?s2 using fb_step_write_in [of raw n county st] by blast
  have s3: ?s3 using gb_step_write_in [of raw h county st] by blast
  have o1: ?o1 by (rule ew_output_named)
  have o2: ?o2 by (rule fb_output_named)
  have o3: ?o3 by (rule gb_output_long)
  from b1 b2 b3 s1 s2 s3 o1 o2 o3 show ?thesis by (intro conjI)
qed

text \<open>
  A named write-in line of each format after a precinct and an office: the block and the
  iteration leave the records as they were, and the records that are written are those of the
  other lines.
\<close>

theorem named_write_ins_omitted_witness:
  "re_match ew_candidate_rx ''REP Write-In: John Doe 5 1 2 2''
     = Some [(6, ''2''), (5, ''2''), (4, ''1''), (3, ''5''), (2, ''Write-In: John Doe''), (1, ''REP'')]
   \<and> ew_candidate ''Travis'' (initial\<lparr>current_precinct := Some ''Precinct 1'', current_office := Some ''Sheriff''\<rparr>)
         ''Precinct 1'' ''Sheriff'' ''REP Write-In: John Doe 5 1 2 2''
       = initial\<lparr>current_precinct := Some ''Precinct 1'', current_office := Some ''Sheriff''\<rparr>
   \<and> \<not> statistics_line (strip ''REP Write-In: John Doe 5 1 2 2'')
   \<and> data (ew_step ''Travis'' (initial\<lparr>current_precinct := Some ''Precinct 1'', current_office := Some ''Sheriff''\<rparr>)
         ''REP Write-In: John Doe 5 1 2 2'') = []
   \<and> fb_number_start (words ''REP Write-In: John Doe 5 1 2 2'') = Some 4
   \<and> fb_candidate ''Fort Bend'' (initial\<lparr>current_precinct := Some ''Precinct 1004'', current_office := Some ''Sheriff''\<rparr>)
         ''Precinct 1004'' ''REP Write-In: John Doe 5 1 2 2''
       = initial\<lparr>current_precinct := Some ''Precinct 1004'', current_office := Some ''Sheriff''\<rparr>
   \<and> startswith (strip ''REP Write-In: John Doe 5 1 2 2'') ''REP''
   \<and> data (fb_step ''Fort Bend'' (initial\<lparr>current_precinct := Some ''Precinct 1004'', current_office := Some ''Sheriff''\<rparr>)
         ''REP Write-In: John Doe 5 1 2 2'') = []
   \<and> re_match gb_candidate_rx ''Johnathan Doe (W) 1 1.00% 2 2.00% 3 3.00% 6 2.00%''
       = Some [(6, ''6''), (5, ''3''), (4, ''2''), (3, ''1''), (2, ''(W)''), (1, ''Johnathan Doe'')]
   \<and> gb_candidate ''Hays'' (initial\<lparr>current_precinct := Some ''101'', current_office := Some ''Governor''\<rparr>)
         ''101'' ''Governor''
         [(6, ''6''), (5, ''3''), (4, ''2''), (3, ''1''), (2, ''(W)''), (1, ''Johnathan Doe'')]
       = initial\<lparr>current_precinct := Some ''101'', current_office := Some ''Governor''\<rparr>
   \<and> re_search gb_precinct_rx (strip ''Johnathan Doe (W) 1 1.00% 2 2.00% 3 3.00% 6 2.00%'') = None
   \<and> data (gb_step ''Hays'' (initial\<lparr>current_precinct := Some ''101'', current_office := Some ''Governor''\<rparr>)
         ''Johnathan Doe (W) 1 1.00% 2 2.00% 3 3.00% 6 2.00%'') = []
   \<and> ew_parse_election_data
         ''Precinct 1\<newline>Sheriff\<newline>REP Write-In: John Doe 5 1 2 2\<newline>DEM Jane Roe 7 1 2 4'' ''Travis''
       = [row4 ''Travis'' ''Precinct 1'' ''Sheriff'' '''' ''DEM'' ''Jane Roe'' 7 (Num 1) (Num 2) (Num 4)]
   \<and> \<not> named_write_in
         (row4 ''Travis'' ''Precinct 1'' ''Sheriff'' '''' ''DEM'' ''Jane Roe'' 7 (Num 1) (Num 2) (Num 4))
   \<and> fb_parse_election_data
         ''1004\<newline>Sheriff\<newline>REP Write-In: John Doe 5 1 2 2\<newline>DEM Jane Roe 7 1 2 4'' ''Fort Bend''
       = [row4 ''Fort Bend'' ''Precinct 1004'' ''Sheriff'' '''' ''DEM'' ''Jane Roe'' 7 (Num 2) (Num 4) (Num 1)]
   \<and> \<not> named_write_in
         (row4 ''Fort Bend'' ''Precinct 1004'' ''Sheriff'' '''' ''DEM'' ''Jane Roe'' 7 (Num 2) (Num 4) (Num 1))
   \<and> gb_parse_election_data
         ''101 120 of 300 registered voters\<newline>President and Vice President\<newline>Johnathan Doe (W) 1 1.00% 2 2.00% 3 3.00% 6 2.00%\<newline>Al Jones (W) 1 1.00% 2 2.00% 3 3.00% 6 2.00%''
         ''Hays''
       = [row4 ''Hays'' ''101'' ''Registered Voters'' '''' '''' '''' 300 (Str '''') (Str '''') (Str ''''),
          row4 ''Hays'' ''101'' ''Ballots Cast'' '''' '''' '''' 120 (Str '''') (Str '''') (Str ''''),
          row4 ''Hays'' ''101'' ''President'' '''' ''(W)'' ''Al Jones'' 6 (Num 1) (Num 2) (Num 3)]
   \<and> \<not> long_write_in
         (row4 ''Hays'' ''101'' ''President'' '''' ''(W)'' ''Al Jones'' 6 (Num 1) (Num 2) (Num 3))"
  (is "re_match ew_candidate_rx ?L = Some ?G \<and> ew_candidate ?ce ?S1 ?p1 ?o1 ?L = ?S1 \<and> ?ns
       \<and> ?se \<and> ?fn \<and> fb_candidate ?cf ?S2 ?p2 ?L = ?S2 \<and> ?pre \<and> ?sf
       \<and> re_match gb_candidate_rx ?M = Some ?H \<and> gb_candidate ?cg ?S3 ?p3 ?o3 ?H = ?S3 \<and> ?np \<and> ?sg
       \<and> ew_parse_election_data ?T1 ?ce = [?R1] \<and> ?n1
       \<and> fb_parse_election_data ?T2 ?cf = [?R2] \<and> ?n2
       \<and> gb_parse_election_data ?T3 ?cg = [?Ra, ?Rb, ?R3] \<and> ?n3")
proof -
  note c2 = conjunct2
  have strip_L: "strip ?L = ?L" by code_simp
  have strip_M: "strip ?M = ?M" by code_simp
  have m1: "re_match ew_candidate_rx ?L = Some ?G" by code_simp
  have w1: "startswith (strip (group ?G 2)) ''Write-In:''" by code_simp
  have ns: ?ns by code_simp
  have fn: ?fn by code_simp
  have w2: "startswith (join '' '' (take (4 - 1) (drop 1 (words ?L)))) ''Write-In:''" by code_simp
  have pre: ?pre by code_simp
  have m3: "re_match gb_candidate_rx ?M = Some ?H" by code_simp
  have w3: "contains (strip (group ?H 2)) ''(W)''" by code_simp
  have l3: "length (strip (group ?H 1)) > 10" by code_simp
  have np: ?np by code_simp
  have p1: "ew_parse_election_data ?T1 ?ce = [?R1]" by code_simp
  have p2: "fb_parse_election_data ?T2 ?cf = [?R2]" by code_simp
  have p3: "gb_parse_election_data ?T3 ?cg = [?Ra, ?Rb, ?R3]" by code_simp
  have d1: "data ?S1 = []" by (simp add: initial_def)
  have d2: "data ?S2 = []" by (simp add: initial_def)
  have d3: "data ?S3 = []" by (simp add: initial_def)
  note e = named_write_ins_omitted [where line = ?L and g = ?G and county = ?ce and st = ?S1
      and cp = ?p1 and off = ?o1 and raw = ?L and pdf_text = ?T1]
  note f = named_write_ins_omitted [where line = ?L and n = 4 and county = ?cf and st = ?S2
      and cp = ?p2 and raw = ?L and pdf_text = ?T2]
  note g = named_write_ins_omitted [where h = ?H and county = ?cg and st = ?S3
      and cp = ?p3 and off = ?o3 and raw = ?M and pdf_text = ?T3]
  have b1: "ew_candidate ?ce ?S1 ?p1 ?o1 ?L = ?S1"
    by (rule e [THEN conjunct1, THEN mp, OF conjI [OF m1 w1]])
  have b2: "fb_candidate ?cf ?S2 ?p2 ?L = ?S2"
    by (rule f [THEN c2, THEN conjunct1, THEN mp, OF conjI [OF fn w2]])
  have b3: "gb_candidate ?cg ?S3 ?p3 ?o3 ?H = ?S3"
    by (rule g [THEN c2, THEN c2, THEN conjunct1, THEN mp, OF conjI [OF w3 l3]])
  have "data (ew_step ?ce ?S1 ?L) = data ?S1"
    by (rule e [THEN c2, THEN c2, THEN c2, THEN conjunct1, THEN mp])
      (use m1 w1 ns in \<open>simp only: strip_L simp_thms\<close>)
  with d1 have se: ?se by simp
  have ex: "\<exists>p \<in> set [''REP'', ''DEM'', ''LIB'', ''GRN'', ''IND'']. startswith (strip ?L) p"
    using pre by simp
  have "data (fb_step ?cf ?S2 ?L) = data ?S2"
    by (rule f [THEN c2, THEN c2, THEN c2, THEN c2, THEN conjunct1, THEN mp])
      (use ex fn w2 ns in \<open>simp only: strip_L simp_thms\<close>)
  with d2 have sf: ?sf by simp
  have "data (gb_step ?cg ?S3 ?M) = data ?S3"
    by (rule g [THEN c2, THEN c2, THEN c2, THEN c2, THEN c2, THEN conjunct1, THEN mp])
      (use m3 w3 l3 np in \<open>simp only: strip_M simp_thms\<close>)
  with d3 have sg: ?sg by simp
  have n1: ?n1
    by (rule e [THEN c2, THEN c2, THEN c2, THEN c2, THEN c2, THEN c2, THEN conjunct1, THEN bspec])
      (simp only: p1 list.set_intros)
  have n2: ?n2
    by (rule f [THEN c2, THEN c2, THEN c2, THEN c2, THEN c2, THEN c2, THEN c2, THEN conjunct1, THEN bspec])
      (simp only: p2 list.set_intros)
  have n3: ?n3
    by (rule g [THEN c2, THEN c2, THEN c2, THEN c2, THEN c2, THEN c2, THEN c2, THEN c2, THEN bspec])
      (simp only: p3 list.set_intros)
  from m1 b1 ns se fn b2 pre sf m3 b3 np sg p1 n1 p2 n2 p3 n3 show ?thesis by (intro conjI)
qed

section \<open>Per-precinct statistics\<close>

lemma dropWhile_hd: "xs \<noteq> [] \<Longrightarrow> \<not> P (hd xs) \<Longrightarrow> dropWhile P xs = xs"
  by (cases xs) auto

lemma strip_strip: "strip (strip s) = strip s"
proof -
  let ?t = "dropWhile isspace s"
  let ?u = "rev (dropWhile isspace (rev ?t))"
  have "dropWhile isspace ?u = ?u"
  proof (cases "?u = []")
    case True
    then show ?thesis by (simp only: dropWhile.simps)
  next
    case False
    then have ne: "dropWhile isspace (rev ?t) \<noteq> []" by simp
    then have tne: "?t \<noteq> []" by (metis dropWhile.simps(1) rev_is_Nil_conv)
    then have h: "\<not> isspace (hd ?t)" by (rule hd_dropWhile)
    have "rev ?t = takeWhile isspace (rev ?t) @ dropWhile isspace (rev ?t)" by simp
    then have "?t = ?u @ rev (takeWhile isspace (rev ?t))"
      by (metis rev_append rev_rev_ident)
    with False have "hd ?t = hd ?u" by (metis hd_append2)
    with h have "\<not> isspace (hd ?u)" by simp
    with False show ?thesis by (rule dropWhile_hd)
  qed
  moreover have "dropWhile isspace (rev ?u) = rev ?u"
    by simp
  ultimately show ?thesis by (simp add: strip_def)
qed

lemma office_of_row4: "office_of (row4 c p off d pa ca t a e ed) = off"
  by (simp add: office_of_def row4_def item_def)

lemma precinct_of_row4: "precinct_of (row4 c p off d pa ca t a e ed) = p"
  by (simp add: precinct_of_def row4_def item_def)

lemma stat_count_append:
  "stat_count p office (rows @ [r])
   = stat_count p office rows + (if precinct_of r = p \<and> office_of r = office then 1 else 0)"
  by (simp add: stat_count_def)

lemma ew_canonical:
  "strip line = line \<Longrightarrow>
   ew_normalize_office_name line
     \<in> set [''President'', ''U.S. Senate'', ''U.S. House'', ''State Representative'',
            ''Railroad Commissioner'', ''State Board of Education'', ''District Attorney'',
            ''Sheriff'', line]"
  by (simp add: ew_normalize_office_name_def Let_def)

lemma ew_stat_no_indicator:
  "\<forall>l \<in> set stat_offices. \<forall>ind \<in> set ew_office_indicators. \<not> contains l ind"
  by code_simp

lemma ew_office_not_stat:
  assumes ind: "\<exists>ind \<in> set ew_office_indicators. contains line ind" and s: "strip line = line"
  shows "ew_normalize_office_name line \<notin> set stat_offices"
proof
  assume a: "ew_normalize_office_name line \<in> set stat_offices"
  from ew_canonical [OF s] a have "line \<in> set stat_offices"
    by (auto simp: stat_offices_def)
  with ew_stat_no_indicator ind show False by blast
qed

lemma fb_canonical:
  "strip line = line \<Longrightarrow>
   fb_normalize_office_name line
     \<in> set [''President'', ''U.S. Senate'', ''U.S. House'', ''State Representative'', ''State Senate'',
            ''Railroad Commissioner'', ''State Board of Education'', ''District Attorney'',
            ''Sheriff'', line]"
  by (simp add: fb_normalize_office_name_def Let_def)

lemma fb_stat_no_indicator:
  "\<forall>l \<in> set stat_offices. \<forall>ind \<in> set fb_office_indicators. \<not> contains l ind"
  by code_simp

lemma fb_office_not_stat:
  assumes ind: "\<exists>ind \<in> set fb_office_indicators. contains line ind" and s: "strip line = line"
  shows "fb_normalize_office_name line \<notin> set stat_offices"
proof
  assume a: "fb_normalize_office_name line \<in> set stat_offices"
  from fb_canonical [OF s] a have "line \<in> set stat_offices"
    by (auto simp: stat_offices_def)
  with fb_stat_no_indicator ind show False by blast
qed

lemma empty_office_not_stat:
  "ew_normalize_office_name [] \<notin> set stat_offices" "fb_normalize_office_name [] \<notin> set stat_offices"
  by code_simp+

lemma bounded_append_other:
  assumes nr: "office_of r \<notin> set stat_offices" and b: "bounded c st"
  shows "bounded c (append_row st r)"
  unfolding bounded_def
proof (intro allI ballI)
  fix p office
  assume o: "office \<in> set stat_offices"
  from b o have le: "stat_count p office (data st)
      \<le> c p office + (if p @ stat_flag office \<in> set (precinct_stats_added st) then 1 else 0)"
    by (simp add: bounded_def)
  from o nr have "\<not> (precinct_of r = p \<and> office_of r = office)" by auto
  with le show "stat_count p office (data (append_row st r))
      \<le> c p office + (if p @ stat_flag office \<in> set (precinct_stats_added (append_row st r))
                         then 1 else 0)"
    by (auto simp: append_row_def stat_count_append)
qed

lemma bounded_append_stat:
  assumes f: "cp @ stat_flag office \<notin> set (precinct_stats_added st)"
    and b: "bounded c st" and r: "precinct_of r = cp" "office_of r = office"
  shows "bounded c (add_flag (append_row st r) (cp @ stat_flag office))"
  unfolding bounded_def
proof (intro allI ballI)
  fix p office'
  assume o: "office' \<in> set stat_offices"
  from b o have le: "stat_count p office' (data st)
      \<le> c p office' + (if p @ stat_flag office' \<in> set (precinct_stats_added st) then 1 else 0)"
    by (simp add: bounded_def)
  show "stat_count p office' (data (add_flag (append_row st r) (cp @ stat_flag office)))
      \<le> c p office' + (if p @ stat_flag office' \<in> set (precinct_stats_added
            (add_flag (append_row st r) (cp @ stat_flag office))) then 1 else 0)"
  proof (cases "p = cp \<and> office' = office")
    case True
    with f le r show ?thesis
      by (simp add: add_flag_def append_row_def stat_count_append)
  next
    case False
    with le r show ?thesis
      by (auto simp: add_flag_def append_row_def stat_count_append split: if_splits)
  qed
qed

lemma bounded_context:
  "bounded c (st\<lparr>current_precinct := a\<rparr>) = bounded c st"
  "bounded c (st\<lparr>current_office := b, district := d\<rparr>) = bounded c st"
  by (simp_all add: bounded_def)

lemma stat_flags:
  "stat_flag ''Registered Voters'' = ''_registered''"
  "stat_flag ''Ballots Cast'' = ''_ballots''"
  "stat_flag ''Ballots Cast - Blank'' = ''_blank''"
  by (simp_all add: stat_flag_def)

lemma bounded_stat_row:
  assumes b: "bounded c st"
  shows "cp @ ''_registered'' \<notin> set (precinct_stats_added st) \<Longrightarrow>
      bounded c (add_flag (append_row st (row4 county cp ''Registered Voters'' d pa ca t a e ed))
                   (cp @ ''_registered''))"
    and "cp @ ''_ballots'' \<notin> set (precinct_stats_added st) \<Longrightarrow>
      bounded c (add_flag (append_row st (row4 county cp ''Ballots Cast'' d pa ca t a e ed))
                   (cp @ ''_ballots''))"
    and "cp @ ''_blank'' \<notin> set (precinct_stats_added st) \<Longrightarrow>
      bounded c (add_flag (append_row st (row4 county cp ''Ballots Cast - Blank'' d pa ca t a e ed))
                   (cp @ ''_blank''))"
proof -
  have g: "bounded c (add_flag (append_row st (row4 county cp office d pa ca t a e ed))
                        (cp @ stat_flag office))"
    if "cp @ stat_flag office \<notin> set (precinct_stats_added st)" for office
    using that b by (rule bounded_append_stat) (simp_all add: precinct_of_row4 office_of_row4)
  show "cp @ ''_registered'' \<notin> set (precinct_stats_added st) \<Longrightarrow>
      bounded c (add_flag (append_row st (row4 county cp ''Registered Voters'' d pa ca t a e ed))
                   (cp @ ''_registered''))"
    using g [of "''Registered Voters''"] by (simp add: stat_flags)
  show "cp @ ''_ballots'' \<notin> set (precinct_stats_added st) \<Longrightarrow>
      bounded c (add_flag (append_row st (row4 county cp ''Ballots Cast'' d pa ca t a e ed))
                   (cp @ ''_ballots''))"
    using g [of "''Ballots Cast''"] by (simp add: stat_flags)
  show "cp @ ''_blank'' \<notin> set (precinct_stats_added st) \<Longrightarrow>
      bounded c (add_flag (append_row st (row4 county cp ''Ballots Cast - Blank'' d pa ca t a e ed))
                   (cp @ ''_blank''))"
    using g [of "''Ballots Cast - Blank''"] by (simp add: stat_flags)
qed

lemma bounded_contest_row:
  "office \<notin> set stat_offices \<Longrightarrow> bounded c st
   \<Longrightarrow> bounded c (append_row st (row4 county cp office d pa ca t a e ed))"
  by (rule bounded_append_other) (simp_all add: office_of_row4)

lemma ew_office_ok:
  assumes "strip line = line" and "ew_normalize_office_name (office_text st) \<notin> set stat_offices"
  shows "ew_normalize_office_name (office_text (ew_office st line)) \<notin> set stat_offices"
  using assms ew_office_not_stat [of line]
  by (simp add: ew_office_def office_text_def)

lemma office_text_simps:
  "office_text (append_row st r) = office_text st"
  "office_text (add_flag st f) = office_text st"
  "office_text (st\<lparr>current_precinct := a\<rparr>) = office_text st"
  by (simp_all add: office_text_def append_row_def add_flag_def)

lemma ew_registered_office: "office_text (ew_registered county st cp line) = office_text st"
  by (simp add: ew_registered_def office_text_simps split: option.splits)

lemma ew_ballots_office: "office_text (ew_ballots county st cp line) = office_text st"
  by (simp add: ew_ballots_def office_text_simps split: option.splits prod.splits)

lemma ew_blank_office: "office_text (ew_blank county st cp line) = office_text st"
  by (simp add: ew_blank_def office_text_simps split: option.splits prod.splits)

lemma ew_over_under_office: "office_text (ew_over_under county st cp name label line) = office_text st"
  by (simp add: ew_over_under_def office_text_simps split: option.splits prod.splits)

lemma ew_candidate_office: "office_text (ew_candidate county st cp off line) = office_text st"
  by (simp add: ew_candidate_def Let_def office_text_simps split: option.splits prod.splits)

lemma flags_simps:
  "precinct_stats_added (append_row st r) = precinct_stats_added st"
  "set (precinct_stats_added (add_flag st f)) = insert f (set (precinct_stats_added st))"
  by (simp_all add: append_row_def add_flag_def)

lemma ew_registered_flags:
  "set (precinct_stats_added st) \<subseteq> set (precinct_stats_added (ew_registered county st cp line))"
  by (auto simp: ew_registered_def flags_simps split: option.splits)

lemma ew_ballots_flags:
  "set (precinct_stats_added st) \<subseteq> set (precinct_stats_added (ew_ballots county st cp line))"
  by (auto simp: ew_ballots_def flags_simps split: option.splits prod.splits)

lemma ew_blank_flags:
  "set (precinct_stats_added st) \<subseteq> set (precinct_stats_added (ew_blank county st cp line))"
  by (auto simp: ew_blank_def flags_simps split: option.splits prod.splits)

lemma ew_over_under_flags:
  "precinct_stats_added (ew_over_under county st cp name label line) = precinct_stats_added st"
  by (simp add: ew_over_under_def flags_simps split: option.splits prod.splits)

lemma ew_office_flags: "precinct_stats_added (ew_office st line) = precinct_stats_added st"
  by (simp add: ew_office_def)

lemma ew_candidate_flags:
  "precinct_stats_added (ew_candidate county st cp off line) = precinct_stats_added st"
  by (simp add: ew_candidate_def Let_def flags_simps split: option.splits prod.splits)

lemma ew_step_flags:
  "set (precinct_stats_added st) \<subseteq> set (precinct_stats_added (ew_step county st raw))"
  unfolding ew_step_def Let_def
  by (simp split: option.splits
      add: ew_registered_flags ew_ballots_flags ew_blank_flags ew_over_under_flags ew_office_flags
        ew_candidate_flags)

lemma ew_scan_flags:
  "set (precinct_stats_added st) \<subseteq> set (precinct_stats_added (foldl (ew_step county) st ls))"
proof (induction ls arbitrary: st)
  case Nil
  show ?case by simp
next
  case (Cons l ls)
  from ew_step_flags [of st county l] Cons [of "ew_step county st l"] show ?case by auto
qed

lemma fb_registered_bounded: "bounded c st \<Longrightarrow> bounded c (fb_registered county st cp line)"
  by (simp add: fb_registered_def bounded_stat_row split: option.splits)

lemma fb_ballots_bounded: "bounded c st \<Longrightarrow> bounded c (fb_ballots county st cp line)"
  by (simp add: fb_ballots_def bounded_stat_row split: option.splits prod.splits)

lemma fb_blank_bounded: "bounded c st \<Longrightarrow> bounded c (fb_blank county st cp line)"
  by (simp add: fb_blank_def bounded_stat_row split: option.splits prod.splits)

lemma fb_over_under_bounded:
  "fb_normalize_office_name (office_text st) \<notin> set stat_offices \<Longrightarrow> bounded c st
   \<Longrightarrow> bounded c (fb_over_under county st cp name label line)"
  by (simp add: fb_over_under_def bounded_contest_row split: option.splits prod.splits)

lemma fb_write_in_totals_bounded:
  "fb_normalize_office_name (office_text st) \<notin> set stat_offices \<Longrightarrow> bounded c st
   \<Longrightarrow> bounded c (fb_write_in_totals county st cp line)"
  by (simp add: fb_write_in_totals_def bounded_contest_row split: option.splits)

lemma fb_candidate_bounded:
  "fb_normalize_office_name (office_text st) \<notin> set stat_offices \<Longrightarrow> bounded c st
   \<Longrightarrow> bounded c (fb_candidate county st cp line)"
  by (simp add: fb_candidate_def Let_def bounded_contest_row split: option.splits)

lemma fb_registered_office: "office_text (fb_registered county st cp line) = office_text st"
  by (simp add: fb_registered_def office_text_simps split: option.splits)

lemma fb_ballots_office: "office_text (fb_ballots county st cp line) = office_text st"
  by (simp add: fb_ballots_def office_text_simps split: option.splits prod.splits)

lemma fb_blank_office: "office_text (fb_blank county st cp line) = office_text st"
  by (simp add: fb_blank_def office_text_simps split: option.splits prod.splits)

lemma fb_over_under_office: "office_text (fb_over_under county st cp name label line) = office_text st"
  by (simp add: fb_over_under_def office_text_simps split: option.splits prod.splits)

lemma fb_write_in_totals_office: "office_text (fb_write_in_totals county st cp line) = office_text st"
  by (simp add: fb_write_in_totals_def office_text_simps split: option.splits)

lemma fb_candidate_office: "office_text (fb_candidate county st cp line) = office_text st"
  by (simp add: fb_candidate_def Let_def office_text_simps split: option.splits)

lemma fb_step_inv:
  assumes i: "fb_inv c st" and nh: "\<not> fb_is_precinct_header raw"
  shows "fb_inv c (fb_step county st raw)"
proof -
  have s: "strip (strip raw) = strip raw" by (rule strip_strip)
  from i have b: "bounded c st" and o: "fb_normalize_office_name (office_text st) \<notin> set stat_offices"
    by (simp_all add: fb_inv_def)
  note blocks = fb_registered_bounded [OF b] fb_ballots_bounded [OF b] fb_blank_bounded [OF b]
    fb_over_under_bounded [OF o b] fb_write_in_totals_bounded [OF o b] fb_candidate_bounded [OF o b]
  note offices = fb_registered_office fb_ballots_office fb_blank_office fb_over_under_office
    fb_write_in_totals_office fb_candidate_office
  have blk: "fb_inv c (fb_registered county st cp l)" "fb_inv c (fb_ballots county st cp l)"
    "fb_inv c (fb_blank county st cp l)" "fb_inv c (fb_over_under county st cp nm lb l)"
    "fb_inv c (fb_write_in_totals county st cp l)" "fb_inv c (fb_candidate county st cp l)"
    for cp l nm lb
    using o by (simp_all add: fb_inv_def blocks offices)
  have off: "fb_inv c (st\<lparr>current_office := Some (strip raw), district := d\<rparr>)"
    if "\<exists>indicator \<in> set fb_office_indicators. contains (strip raw) indicator" for d
    using fb_office_not_stat [OF that s] b
    by (simp add: fb_inv_def bounded_context office_text_def)
  from nh have nm: "strip raw \<noteq> [] \<Longrightarrow> re_match fb_precinct_rx (strip raw) = None"
    by (simp add: fb_is_precinct_header_def)
  show ?thesis
    unfolding fb_step_def Let_def
    by (simp split: option.splits add: i blk off nm)
qed

lemma fb_scan_inv:
  "fb_inv c st \<Longrightarrow> \<forall>l \<in> set ls. \<not> fb_is_precinct_header l
   \<Longrightarrow> fb_inv c (foldl (fb_step county) st ls)"
  by (induction ls arbitrary: st) (simp_all add: fb_step_inv)

lemma fb_step_office_ok:
  assumes o: "fb_normalize_office_name (office_text st) \<notin> set stat_offices"
  shows "fb_normalize_office_name (office_text (fb_step county st raw)) \<notin> set stat_offices"
proof -
  have s: "strip (strip raw) = strip raw" by (rule strip_strip)
  have off: "fb_normalize_office_name (strip raw) \<notin> set stat_offices"
    if "\<exists>indicator \<in> set fb_office_indicators. contains (strip raw) indicator"
    using fb_office_not_stat [OF that s] .
  have upd: "office_text (st\<lparr>current_office := Some l, district := d\<rparr>) = l"
    "office_text (st\<lparr>current_precinct := a, precinct_stats_added := fl\<rparr>) = office_text st"
    for l d a fl
    by (simp_all add: office_text_def)
  show ?thesis
    unfolding fb_step_def Let_def
    using o off
    by (simp split: option.splits
        add: fb_registered_office fb_ballots_office fb_blank_office fb_over_under_office
          fb_write_in_totals_office fb_candidate_office upd)
qed

lemma fb_scan_office_ok:
  "fb_normalize_office_name (office_text st) \<notin> set stat_offices
   \<Longrightarrow> fb_normalize_office_name (office_text (foldl (fb_step county) st ls)) \<notin> set stat_offices"
  by (induction ls arbitrary: st) (simp_all add: fb_step_office_ok)

lemma fb_header_step:
  assumes "fb_is_precinct_header raw"
  shows "fb_step county st raw
         = st\<lparr>current_precinct := Some (fb_precinct_name raw), precinct_stats_added := []\<rparr>"
  using assms
  by (auto simp: fb_step_def fb_is_precinct_header_def fb_precinct_name_def Let_def)

lemma fb_inv_initial: "fb_normalize_office_name (office_text initial) \<notin> set stat_offices"
  using empty_office_not_stat(2) by (simp add: initial_def office_text_def)

lemma fb_stat_once_per_run:
  assumes nh: "\<forall>l \<in> set seg. \<not> fb_is_precinct_header l" and o: "office \<in> set stat_offices"
  shows "stat_count p office (data (foldl (fb_step county) initial (pre @ seg)))
         \<le> stat_count p office (data (foldl (fb_step county) initial pre)) + 1"
proof -
  let ?st = "foldl (fb_step county) initial pre"
  let ?c = "\<lambda>p office. stat_count p office (data ?st)"
  let ?fin = "foldl (fb_step county) ?st seg"
  have "fb_normalize_office_name (office_text ?st) \<notin> set stat_offices"
    using fb_inv_initial by (rule fb_scan_office_ok)
  then have "fb_inv ?c ?st" by (simp add: fb_inv_def bounded_def)
  then have "fb_inv ?c ?fin" using nh by (rule fb_scan_inv)
  then have "bounded ?c ?fin" by (simp add: fb_inv_def)
  with o have "stat_count p office (data ?fin)
      \<le> ?c p office + (if p @ stat_flag office \<in> set (precinct_stats_added ?fin) then 1 else 0)"
    unfolding bounded_def by blast
  then show ?thesis by (simp split: if_splits)
qed

lemma stat_flag_inj:
  assumes "p @ stat_flag office = q @ stat_flag office'"
    and "office \<in> set stat_offices" "office' \<in> set stat_offices"
  shows "p = q \<and> office = office'"
proof -
  have l: "last (p @ stat_flag office) = last (q @ stat_flag office')" using assms(1) by simp
  have o: "office = office'"
    using l assms(2,3) by (auto simp: stat_offices_def stat_flag_def)
  with assms(1) show ?thesis by simp
qed

lemma exact_append_other:
  assumes nr: "office_of r \<notin> set stat_offices" and b: "flags_exact st"
  shows "flags_exact (append_row st r)"
  unfolding flags_exact_def
proof (intro allI ballI)
  fix p office
  assume o: "office \<in> set stat_offices"
  from b o have eq: "stat_count p office (data st)
      = (if p @ stat_flag office \<in> set (precinct_stats_added st) then 1 else 0)"
    by (simp add: flags_exact_def)
  from o nr have "\<not> (precinct_of r = p \<and> office_of r = office)" by auto
  with eq show "stat_count p office (data (append_row st r))
      = (if p @ stat_flag office \<in> set (precinct_stats_added (append_row st r)) then 1 else 0)"
    by (auto simp: append_row_def stat_count_append)
qed

lemma exact_append_stat:
  assumes f: "cp @ stat_flag office \<notin> set (precinct_stats_added st)"
    and so: "office \<in> set stat_offices"
    and b: "flags_exact st" and r: "precinct_of r = cp" "office_of r = office"
  shows "flags_exact (add_flag (append_row st r) (cp @ stat_flag office))"
  unfolding flags_exact_def
proof (intro allI ballI)
  fix p office'
  assume o: "office' \<in> set stat_offices"
  from b o have eq: "stat_count p office' (data st)
      = (if p @ stat_flag office' \<in> set (precinct_stats_added st) then 1 else 0)"
    by (simp add: flags_exact_def)
  show "stat_count p office' (data (add_flag (append_row st r) (cp @ stat_flag office)))
      = (if p @ stat_flag office' \<in> set (precinct_stats_added
            (add_flag (append_row st r) (cp @ stat_flag office))) then 1 else 0)"
  proof (cases "p = cp \<and> office' = office")
    case True
    with f eq r show ?thesis
      by (simp add: add_flag_def append_row_def stat_count_append)
  next
    case False
    with stat_flag_inj [OF _ o so, of p cp]
    have ne: "p @ stat_flag office' \<noteq> cp @ stat_flag office" by blast
    from False r have "\<not> (precinct_of r = p \<and> office_of r = office')" by auto
    with eq ne show ?thesis
      by (simp add: add_flag_def append_row_def stat_count_append)
  qed
qed

lemma exact_context:
  "flags_exact (st\<lparr>current_precinct := a\<rparr>) = flags_exact st"
  "flags_exact (st\<lparr>current_office := b, district := d\<rparr>) = flags_exact st"
  by (simp_all add: flags_exact_def)

lemma exact_stat_row:
  assumes b: "flags_exact st"
  shows "cp @ ''_registered'' \<notin> set (precinct_stats_added st) \<Longrightarrow>
      flags_exact (add_flag (append_row st (row4 county cp ''Registered Voters'' d pa ca t a e ed))
                   (cp @ ''_registered''))"
    and "cp @ ''_ballots'' \<notin> set (precinct_stats_added st) \<Longrightarrow>
      flags_exact (add_flag (append_row st (row4 county cp ''Ballots Cast'' d pa ca t a e ed))
                   (cp @ ''_ballots''))"
    and "cp @ ''_blank'' \<notin> set (precinct_stats_added st) \<Longrightarrow>
      flags_exact (add_flag (append_row st (row4 county cp ''Ballots Cast - Blank'' d pa ca t a e ed))
                   (cp @ ''_blank''))"
proof -
  have g: "flags_exact (add_flag (append_row st (row4 county cp office d pa ca t a e ed))
                        (cp @ stat_flag office))"
    if "cp @ stat_flag office \<notin> set (precinct_stats_added st)" "office \<in> set stat_offices" for office
    using that b by (rule exact_append_stat) (simp_all add: precinct_of_row4 office_of_row4)
  show "cp @ ''_registered'' \<notin> set (precinct_stats_added st) \<Longrightarrow>
      flags_exact (add_flag (append_row st (row4 county cp ''Registered Voters'' d pa ca t a e ed))
                   (cp @ ''_registered''))"
    using g [of "''Registered Voters''"] by (simp add: stat_flags stat_offices_def)
  show "cp @ ''_ballots'' \<notin> set (precinct_stats_added st) \<Longrightarrow>
      flags_exact (add_flag (append_row st (row4 county cp ''Ballots Cast'' d pa ca t a e ed))
                   (cp @ ''_ballots''))"
    using g [of "''Ballots Cast''"] by (simp add: stat_flags stat_offices_def)
  show "cp @ ''_blank'' \<notin> set (precinct_stats_added st) \<Longrightarrow>
      flags_exact (add_flag (append_row st (row4 county cp ''Ballots Cast - Blank'' d pa ca t a e ed))
                   (cp @ ''_blank''))"
    using g [of "''Ballots Cast - Blank''"] by (simp add: stat_flags stat_offices_def)
qed

lemma exact_contest_row:
  "office \<notin> set stat_offices \<Longrightarrow> flags_exact st
   \<Longrightarrow> flags_exact (append_row st (row4 county cp office d pa ca t a e ed))"
  by (rule exact_append_other) (simp_all add: office_of_row4)

lemma ew_registered_exact: "flags_exact st \<Longrightarrow> flags_exact (ew_registered county st cp line)"
  by (simp add: ew_registered_def exact_stat_row split: option.splits)

lemma ew_ballots_exact: "flags_exact st \<Longrightarrow> flags_exact (ew_ballots county st cp line)"
  by (simp add: ew_ballots_def exact_stat_row split: option.splits prod.splits)

lemma ew_blank_exact: "flags_exact st \<Longrightarrow> flags_exact (ew_blank county st cp line)"
  by (simp add: ew_blank_def exact_stat_row split: option.splits prod.splits)

lemma ew_over_under_exact:
  "ew_normalize_office_name (office_text st) \<notin> set stat_offices \<Longrightarrow> flags_exact st
   \<Longrightarrow> flags_exact (ew_over_under county st cp name label line)"
  by (simp add: ew_over_under_def exact_contest_row split: option.splits prod.splits)

lemma ew_candidate_exact:
  "ew_normalize_office_name off \<notin> set stat_offices \<Longrightarrow> flags_exact st
   \<Longrightarrow> flags_exact (ew_candidate county st cp off line)"
  by (simp add: ew_candidate_def Let_def exact_contest_row split: option.splits prod.splits)

lemma ew_office_exact: "flags_exact (ew_office st line) = flags_exact st"
  by (simp add: ew_office_def exact_context)

lemma ew_tail_exact:
  assumes s: "strip line = line" and i: "ew_exact_inv st"
  shows "ew_exact_inv (case current_office (ew_office st line) of
                     None \<Rightarrow> ew_office st line
                   | Some off \<Rightarrow>
                       if \<exists>skip_term \<in> set ew_skip_terms. contains line skip_term
                       then ew_office st line
                       else ew_candidate county (ew_office st line) cp off line)"
proof -
  let ?st1 = "ew_office st line"
  from i have b1: "flags_exact ?st1" by (simp add: ew_exact_inv_def ew_office_exact)
  from i have o1: "ew_normalize_office_name (office_text ?st1) \<notin> set stat_offices"
    unfolding ew_exact_inv_def by (intro ew_office_ok [OF s]) simp
  have i1: "ew_exact_inv ?st1" using b1 o1 by (simp add: ew_exact_inv_def)
  show ?thesis
  proof (cases "current_office ?st1")
    case None
    with i1 show ?thesis by simp
  next
    case (Some off)
    then have "office_text ?st1 = off" by (simp add: office_text_def)
    with o1 have "ew_normalize_office_name off \<notin> set stat_offices" by simp
    then have "ew_exact_inv (ew_candidate county ?st1 cp off line)"
      using b1 o1 by (simp add: ew_exact_inv_def ew_candidate_exact ew_candidate_office)
    with i1 Some show ?thesis by simp
  qed
qed

lemma ew_step_exact:
  assumes i: "ew_exact_inv st"
  shows "ew_exact_inv (ew_step county st raw)"
proof -
  have s: "strip (strip raw) = strip raw" by (rule strip_strip)
  from i have b: "flags_exact st" and o: "ew_normalize_office_name (office_text st) \<notin> set stat_offices"
    by (simp_all add: ew_exact_inv_def)
  note blocks = ew_registered_exact [OF b] ew_ballots_exact [OF b] ew_blank_exact [OF b]
    ew_over_under_exact [OF o b]
  note offices = ew_registered_office ew_ballots_office ew_blank_office ew_over_under_office
  have hdr: "ew_exact_inv (st\<lparr>current_precinct := a\<rparr>)" for a
    using b o by (simp add: ew_exact_inv_def exact_context office_text_simps)
  have blk: "ew_exact_inv (ew_registered county st cp l)" "ew_exact_inv (ew_ballots county st cp l)"
    "ew_exact_inv (ew_blank county st cp l)" "ew_exact_inv (ew_over_under county st cp nm lb l)"
    for cp l nm lb
    using o by (simp_all add: ew_exact_inv_def blocks offices)
  show ?thesis
    unfolding ew_step_def Let_def
    by (simp split: option.splits add: i hdr blk ew_tail_exact [OF s i])
qed

lemma ew_scan_exact: "ew_exact_inv st \<Longrightarrow> ew_exact_inv (foldl (ew_step county) st ls)"
  by (induction ls arbitrary: st) (simp_all add: ew_step_exact)

lemma ew_exact_initial: "ew_exact_inv initial"
  using empty_office_not_stat(1)
  by (simp add: ew_exact_inv_def flags_exact_def initial_def stat_count_def office_text_def)

lemma ew_reachable_exact:
  assumes "office \<in> set stat_offices"
  shows "stat_count p office (data (foldl (ew_step county) initial ls))
         = (if p @ stat_flag office \<in> set (precinct_stats_added (foldl (ew_step county) initial ls))
            then 1 else 0)"
proof -
  have "ew_exact_inv (foldl (ew_step county) initial ls)"
    using ew_exact_initial by (rule ew_scan_exact)
  then have "flags_exact (foldl (ew_step county) initial ls)" by (simp add: ew_exact_inv_def)
  with assms show ?thesis unfolding flags_exact_def by blast
qed

lemma ew_output_once:
  assumes "office \<in> set stat_offices"
  shows "stat_count p office (ew_parse_election_data pdf_text county) \<le> 1"
  using ew_reachable_exact [OF assms, of p county "split pdf_text [CHR 0x0A]"]
  by (simp add: ew_parse_election_data_def split: if_splits)

lemma ew_header_step:
  assumes "ew_is_precinct_header raw"
  shows "ew_step county st raw = st\<lparr>current_precinct := Some (ew_precinct_name raw)\<rparr>"
  using assms
  by (auto simp: ew_step_def ew_is_precinct_header_def ew_precinct_name_def Let_def)

lemma ew_not_header:
  "\<not> ew_is_precinct_header raw \<Longrightarrow> strip raw \<noteq> []
   \<Longrightarrow> (if startswith (strip raw) ''Precinct '' then re_match ew_precinct_rx (strip raw) else None) = None"
  by (auto simp: ew_is_precinct_header_def)

lemma ew_step_registered:
  assumes cp: "current_precinct st = Some cp" and nh: "\<not> ew_is_precinct_header raw"
    and nc: "\<not> ew_column_header (strip raw)"
    and m: "contains (strip raw) ''Registered Voters - Total''"
  shows "ew_step county st raw = ew_registered county st cp (strip raw)"
proof -
  from m have ne: "strip raw \<noteq> []" by auto
  from nc have c: "strip raw \<noteq> ''Statistics''"
    "\<not> (contains (strip raw) ''TOTAL'' \<and> contains (strip raw) ''Absentee'' \<and> contains (strip raw) ''Early'')"
    by (auto simp: ew_column_header_def)
  show ?thesis
    unfolding ew_step_def Let_def
    using cp ne c m by (auto simp: ew_not_header [OF nh ne])
qed

lemma ew_step_ballots:
  assumes cp: "current_precinct st = Some cp" and nh: "\<not> ew_is_precinct_header raw"
    and nc: "\<not> ew_column_header (strip raw)"
    and nr: "\<not> contains (strip raw) ''Registered Voters - Total''"
    and m: "contains (strip raw) ''Ballots Cast - Total''"
  shows "ew_step county st raw = ew_ballots county st cp (strip raw)"
proof -
  from m have ne: "strip raw \<noteq> []" by auto
  from nc have c: "strip raw \<noteq> ''Statistics''"
    "\<not> (contains (strip raw) ''TOTAL'' \<and> contains (strip raw) ''Absentee'' \<and> contains (strip raw) ''Early'')"
    by (auto simp: ew_column_header_def)
  show ?thesis
    unfolding ew_step_def Let_def
    using cp ne c m nr by (auto simp: ew_not_header [OF nh ne])
qed

lemma ew_step_blank:
  assumes cp: "current_precinct st = Some cp" and nh: "\<not> ew_is_precinct_header raw"
    and nc: "\<not> ew_column_header (strip raw)"
    and nr: "\<not> contains (strip raw) ''Registered Voters - Total''"
    and nb: "\<not> contains (strip raw) ''Ballots Cast - Total''"
    and m: "contains (strip raw) ''Ballots Cast - Blank''"
  shows "ew_step county st raw = ew_blank county st cp (strip raw)"
proof -
  from m have ne: "strip raw \<noteq> []" by auto
  from nc have c: "strip raw \<noteq> ''Statistics''"
    "\<not> (contains (strip raw) ''TOTAL'' \<and> contains (strip raw) ''Absentee'' \<and> contains (strip raw) ''Early'')"
    by (auto simp: ew_column_header_def)
  show ?thesis
    unfolding ew_step_def Let_def
    using cp ne c m nr nb by (auto simp: ew_not_header [OF nh ne])
qed

lemma fb_not_header:
  "\<not> fb_is_precinct_header raw \<Longrightarrow> strip raw \<noteq> [] \<Longrightarrow> re_match fb_precinct_rx (strip raw) = None"
  by (simp add: fb_is_precinct_header_def)

lemma fb_step_registered:
  assumes cp: "current_precinct st = Some cp" and nh: "\<not> fb_is_precinct_header raw"
    and m: "contains (strip raw) ''Registered Voters - Total''"
  shows "fb_step county st raw = fb_registered county st cp (strip raw)"
proof -
  from m have ne: "strip raw \<noteq> []" by auto
  from m have c: "strip raw \<noteq> ''STATISTICS''" by auto
  show ?thesis
    unfolding fb_step_def Let_def
    using cp ne c m by (simp add: fb_not_header [OF nh ne])
qed

lemma fb_step_ballots:
  assumes cp: "current_precinct st = Some cp" and nh: "\<not> fb_is_precinct_header raw"
    and nr: "\<not> contains (strip raw) ''Registered Voters - Total''"
    and m: "contains (strip raw) ''Ballots Cast - Total''"
  shows "fb_step county st raw = fb_ballots county st cp (strip raw)"
proof -
  from m have ne: "strip raw \<noteq> []" by auto
  from m have c: "strip raw \<noteq> ''STATISTICS''" by auto
  show ?thesis
    unfolding fb_step_def Let_def
    using cp ne c m nr by (simp add: fb_not_header [OF nh ne])
qed

lemma fb_step_blank:
  assumes cp: "current_precinct st = Some cp" and nh: "\<not> fb_is_precinct_header raw"
    and nr: "\<not> contains (strip raw) ''Registered Voters - Total''"
    and nb: "\<not> contains (strip raw) ''Ballots Cast - Total''"
    and m: "contains (strip raw) ''Ballots Cast - Blank''"
  shows "fb_step county st raw = fb_blank county st cp (strip raw)"
proof -
  from m have ne: "strip raw \<noteq> []" by auto
  from m have c: "strip raw \<noteq> ''STATISTICS''" by auto
  show ?thesis
    unfolding fb_step_def Let_def
    using cp ne c m nr nb by (simp add: fb_not_header [OF nh ne])
qed

lemma ew_registered_records:
  assumes "cp @ ''_registered'' \<notin> set (precinct_stats_added st)"
    "re_search registered_rx line = Some g" "int_commas (group g 1) = Some v"
  shows "ew_registered county st cp line
         = add_flag (append_row st (row4 county cp ''Registered Voters'' '''' '''' '''' v
                                      (Str '''') (Str '''') (Str '''')))
             (cp @ ''_registered'')"
  using assms by (simp add: ew_registered_def)

lemma ew_ballots_records:
  assumes "cp @ ''_ballots'' \<notin> set (precinct_stats_added st)"
    "re_search (stat4_rx ''Ballots Cast - Total'') line = Some g" "ints4 g 1 = Some (t, a, e, d)"
  shows "ew_ballots county st cp line
         = add_flag (append_row st (row4 county cp ''Ballots Cast'' '''' '''' '''' t (Num a) (Num e) (Num d)))
             (cp @ ''_ballots'')"
  using assms by (simp add: ew_ballots_def)

lemma ew_blank_records:
  assumes "cp @ ''_blank'' \<notin> set (precinct_stats_added st)"
    "re_search (stat4_rx ''Ballots Cast - Blank'') line = Some g" "ints4 g 1 = Some (t, a, e, d)"
  shows "ew_blank county st cp line
         = add_flag (append_row st (row4 county cp ''Ballots Cast - Blank'' '''' '''' '''' t
                                      (Num a) (Num e) (Num d)))
             (cp @ ''_blank'')"
  using assms by (simp add: ew_blank_def)

lemma fb_registered_records:
  assumes "cp @ ''_registered'' \<notin> set (precinct_stats_added st)"
    "re_search registered_rx line = Some g" "int_commas (group g 1) = Some v"
  shows "fb_registered county st cp line
         = add_flag (append_row st (row4 county cp ''Registered Voters'' '''' '''' '''' v
                                      (Str '''') (Str '''') (Str '''')))
             (cp @ ''_registered'')"
  using assms by (simp add: fb_registered_def)

lemma fb_ballots_records:
  assumes "cp @ ''_ballots'' \<notin> set (precinct_stats_added st)"
    "re_search (stat4_rx ''Ballots Cast - Total'') line = Some g" "ints4 g 1 = Some (t, d, a, e)"
  shows "fb_ballots county st cp line
         = add_flag (append_row st (row4 county cp ''Ballots Cast'' '''' '''' '''' t (Num a) (Num e) (Num d)))
             (cp @ ''_ballots'')"
  using assms by (simp add: fb_ballots_def)

lemma fb_blank_records:
  assumes "cp @ ''_blank'' \<notin> set (precinct_stats_added st)"
    "re_search (stat4_rx ''Ballots Cast - Blank'') line = Some g" "ints4 g 1 = Some (t, d, a, e)"
  shows "fb_blank county st cp line
         = add_flag (append_row st (row4 county cp ''Ballots Cast - Blank'' '''' '''' '''' t
                                      (Num a) (Num e) (Num d)))
             (cp @ ''_blank'')"
  using assms by (simp add: fb_blank_def)

text \<open>
  Claim C8, as amended. \<^verbatim>\<open>electionware.py\<close>: the output has one record at most of each of the three
  statistics (registered voters, ballots cast, blank ballots) for every precinct name; after any
  lines a statistic of a precinct has one record when its flag is set and none when it is not;
  an iteration removes no flag, and a precinct header sets \<^verbatim>\<open>current_precinct\<close> and leaves the
  flags and the records as they were; a line of one of the three statistics whose flag for the
  current precinct is not set is recorded and sets the flag, so the statistics of the next
  precinct are recorded. \<^verbatim>\<open>fort_bend.py\<close>: a precinct header sets \<^verbatim>\<open>current_precinct\<close>, empties the
  flag set and leaves the rest as it was; over lines without a precinct header, after any lines,
  each statistic of a precinct gets one record more at most; and a line of one of the three
  statistics whose flag is not set is recorded and sets the flag.
\<close>

theorem statistics_once_per_precinct:
  "(office \<in> set stat_offices \<longrightarrow> stat_count p office (ew_parse_election_data pdf_text county) \<le> 1)
   \<and> (office \<in> set stat_offices \<longrightarrow>
        stat_count p office (data (foldl (ew_step county) initial ls))
          = (if p @ stat_flag office \<in> set (precinct_stats_added (foldl (ew_step county) initial ls))
             then 1 else 0))
   \<and> set (precinct_stats_added st) \<subseteq> set (precinct_stats_added (ew_step county st raw))
   \<and> (ew_is_precinct_header raw
        \<longrightarrow> ew_step county st raw = st\<lparr>current_precinct := Some (ew_precinct_name raw)\<rparr>)
   \<and> (current_precinct st = Some cp \<and> \<not> ew_is_precinct_header raw \<and> \<not> ew_column_header (strip raw)
        \<and> contains (strip raw) ''Registered Voters - Total''
        \<and> cp @ ''_registered'' \<notin> set (precinct_stats_added st)
        \<and> re_search registered_rx (strip raw) = Some g \<and> int_commas (group g 1) = Some v
        \<longrightarrow> ew_step county st raw
            = add_flag (append_row st (row4 county cp ''Registered Voters'' '''' '''' '''' v
                                         (Str '''') (Str '''') (Str '''')))
                (cp @ ''_registered''))
   \<and> (current_precinct st = Some cp \<and> \<not> ew_is_precinct_header raw \<and> \<not> ew_column_header (strip raw)
        \<and> \<not> contains (strip raw) ''Registered Voters - Total''
        \<and> contains (strip raw) ''Ballots Cast - Total''
        \<and> cp @ ''_ballots'' \<notin> set (precinct_stats_added st)
        \<and> re_search (stat4_rx ''Ballots Cast - Total'') (strip raw) = Some g
        \<and> ints4 g 1 = Some (total_ballots, absentee, early, election_day)
        \<longrightarrow> ew_step county st raw
            = add_flag (append_row st (row4 county cp ''Ballots Cast'' '''' '''' '''' total_ballots
                                         (Num absentee) (Num early) (Num election_day)))
                (cp @ ''_ballots''))
   \<and> (current_precinct st = Some cp \<and> \<not> ew_is_precinct_header raw \<and> \<not> ew_column_header (strip raw)
        \<and> \<not> contains (strip raw) ''Registered Voters - Total''
        \<and> \<not> contains (strip raw) ''Ballots Cast - Total''
        \<and> contains (strip raw) ''Ballots Cast - Blank''
        \<and> cp @ ''_blank'' \<notin> set (precinct_stats_added st)
        \<and> re_search (stat4_rx ''Ballots Cast - Blank'') (strip raw) = Some g
        \<and> ints4 g 1 = Some (total_ballots, absentee, early, election_day)
        \<longrightarrow> ew_step county st raw
            = add_flag (append_row st (row4 county cp ''Ballots Cast - Blank'' '''' '''' '''' total_ballots
                                         (Num absentee) (Num early) (Num election_day)))
                (cp @ ''_blank''))
   \<and> (fb_is_precinct_header raw
        \<longrightarrow> fb_step county st raw
            = st\<lparr>current_precinct := Some (fb_precinct_name raw), precinct_stats_added := []\<rparr>)
   \<and> ((\<forall>l \<in> set seg. \<not> fb_is_precinct_header l) \<and> office \<in> set stat_offices
        \<longrightarrow> stat_count p office (data (foldl (fb_step county) initial (pre @ seg)))
            \<le> stat_count p office (data (foldl (fb_step county) initial pre)) + 1)
   \<and> (current_precinct st = Some cp \<and> \<not> fb_is_precinct_header raw
        \<and> contains (strip raw) ''Registered Voters - Total''
        \<and> cp @ ''_registered'' \<notin> set (precinct_stats_added st)
        \<and> re_search registered_rx (strip raw) = Some g \<and> int_commas (group g 1) = Some v
        \<longrightarrow> fb_step county st raw
            = add_flag (append_row st (row4 county cp ''Registered Voters'' '''' '''' '''' v
                                         (Str '''') (Str '''') (Str '''')))
                (cp @ ''_registered''))
   \<and> (current_precinct st = Some cp \<and> \<not> fb_is_precinct_header raw
        \<and> \<not> contains (strip raw) ''Registered Voters - Total''
        \<and> contains (strip raw) ''Ballots Cast - Total''
        \<and> cp @ ''_ballots'' \<notin> set (precinct_stats_added st)
        \<and> re_search (stat4_rx ''Ballots Cast - Total'') (strip raw) = Some g
        \<and> ints4 g 1 = Some (total_ballots, election_day, absentee, early)
        \<longrightarrow> fb_step county st raw
            = add_flag (append_row st (row4 county cp ''Ballots Cast'' '''' '''' '''' total_ballots
                                         (Num absentee) (Num early) (Num election_day)))
                (cp @ ''_ballots''))
   \<and> (current_precinct st = Some cp \<and> \<not> fb_is_precinct_header raw
        \<and> \<not> contains (strip raw) ''Registered Voters - Total''
        \<and> \<not> contains (strip raw) ''Ballots Cast - Total''
        \<and> contains (strip raw) ''Ballots Cast - Blank''
        \<and> cp @ ''_blank'' \<notin> set (precinct_stats_added st)
        \<and> re_search (stat4_rx ''Ballots Cast - Blank'') (strip raw) = Some g
        \<and> ints4 g 1 = Some (total_ballots, election_day, absentee, early)
        \<longrightarrow> fb_step county st raw
            = add_flag (append_row st (row4 county cp ''Ballots Cast - Blank'' '''' '''' '''' total_ballots
                                         (Num absentee) (Num early) (Num election_day)))
                (cp @ ''_blank''))"
  (is "?e1 \<and> ?e2 \<and> ?e3 \<and> ?e4 \<and> ?e5 \<and> ?e6 \<and> ?e7 \<and> ?f1 \<and> ?f2 \<and> ?f3 \<and> ?f4 \<and> ?f5")
proof -
  have e1: ?e1 using ew_output_once [of office p pdf_text county] by blast
  have e2: ?e2 using ew_reachable_exact [of office p county ls] by blast
  have e3: ?e3 by (rule ew_step_flags)
  have e4: ?e4 using ew_header_step [of raw county st] by blast
  have e5: ?e5
  proof (intro impI, elim conjE, goal_cases)
    case 1
    from ew_step_registered [OF 1(1-4), of county] ew_registered_records [OF 1(5-7), of county]
    show ?case by (rule trans)
  qed
  have e6: ?e6
  proof (intro impI, elim conjE, goal_cases)
    case 1
    from ew_step_ballots [OF 1(1-5), of county] ew_ballots_records [OF 1(6-8), of county]
    show ?case by (rule trans)
  qed
  have e7: ?e7
  proof (intro impI, elim conjE, goal_cases)
    case 1
    from ew_step_blank [OF 1(1-6), of county] ew_blank_records [OF 1(7-9), of county]
    show ?case by (rule trans)
  qed
  have f1: ?f1 using fb_header_step [of raw county st] by blast
  have f2: ?f2 using fb_stat_once_per_run [of seg office p county pre] by blast
  have f3: ?f3
  proof (intro impI, elim conjE, goal_cases)
    case 1
    from fb_step_registered [OF 1(1-3), of county] fb_registered_records [OF 1(4-6), of county]
    show ?case by (rule trans)
  qed
  have f4: ?f4
  proof (intro impI, elim conjE, goal_cases)
    case 1
    from fb_step_ballots [OF 1(1-4), of county] fb_ballots_records [OF 1(5-7), of county]
    show ?case by (rule trans)
  qed
  have f5: ?f5
  proof (intro impI, elim conjE, goal_cases)
    case 1
    from fb_step_blank [OF 1(1-5), of county] fb_blank_records [OF 1(6-8), of county]
    show ?case by (rule trans)
  qed
  from e1 e2 e3 e4 e5 e6 e7 f1 f2 f3 f4 f5 show ?thesis by (intro conjI)
qed

text \<open>
  In \<^verbatim>\<open>electionware.py\<close> a summary line twice in the first precinct and once in the second gives
  one record for each precinct; with the flag of precinct 1 set, the header of precinct 2 keeps
  it, and the three statistics of precinct 2 are recorded. In \<^verbatim>\<open>fort_bend.py\<close> the header
  \<^verbatim>\<open>1005\<close> empties the flags of precinct 1004, the repeated line after the header \<^verbatim>\<open>1004\<close> adds one
  record, and the three statistics of precinct 1005 are recorded.
\<close>

theorem statistics_once_per_precinct_witness:
  "''Registered Voters'' \<in> set stat_offices
   \<and> ew_parse_election_data
         ''Precinct 1\<newline>Registered Voters - Total 10\<newline>Registered Voters - Total 10\<newline>Precinct 2\<newline>Registered Voters - Total 20''
         ''Travis''
       = [row4 ''Travis'' ''Precinct 1'' ''Registered Voters'' '''' '''' '''' 10 (Str '''') (Str '''') (Str ''''),
          row4 ''Travis'' ''Precinct 2'' ''Registered Voters'' '''' '''' '''' 20 (Str '''') (Str '''') (Str '''')]
   \<and> stat_count ''Precinct 1'' ''Registered Voters''
         (ew_parse_election_data
            ''Precinct 1\<newline>Registered Voters - Total 10\<newline>Registered Voters - Total 10\<newline>Precinct 2\<newline>Registered Voters - Total 20''
            ''Travis'') \<le> 1
   \<and> stat_count ''Precinct 2'' ''Registered Voters''
         (data (foldl (ew_step ''Travis'') initial
                  [''Precinct 1'', ''Registered Voters - Total 10'', ''Precinct 2'',
                   ''Registered Voters - Total 20'']))
       = (if ''Precinct 2'' @ stat_flag ''Registered Voters''
               \<in> set (precinct_stats_added
                      (foldl (ew_step ''Travis'') initial
                         [''Precinct 1'', ''Registered Voters - Total 10'', ''Precinct 2'',
                          ''Registered Voters - Total 20'']))
          then 1 else 0)
   \<and> stat_count ''Precinct 2'' ''Registered Voters''
         (data (foldl (ew_step ''Travis'') initial
                  [''Precinct 1'', ''Registered Voters - Total 10'', ''Precinct 2'',
                   ''Registered Voters - Total 20''])) = 1
   \<and> ew_is_precinct_header ''Precinct 2''
   \<and> ew_step ''Travis''
         (initial\<lparr>current_precinct := Some ''Precinct 1'',
                  precinct_stats_added := [''Precinct 1_registered'']\<rparr>) ''Precinct 2''
       = initial\<lparr>current_precinct := Some ''Precinct 1'',
                  precinct_stats_added := [''Precinct 1_registered'']\<rparr>
           \<lparr>current_precinct := Some (ew_precinct_name ''Precinct 2'')\<rparr>
   \<and> ew_precinct_name ''Precinct 2'' = ''Precinct 2''
   \<and> current_precinct (initial\<lparr>current_precinct := Some ''Precinct 2'',
                                precinct_stats_added := [''Precinct 1_registered'']\<rparr>)
       = Some ''Precinct 2''
   \<and> \<not> ew_is_precinct_header ''Registered Voters - Total 20''
   \<and> \<not> ew_is_precinct_header ''Ballots Cast - Total 8 1 3 4''
   \<and> \<not> ew_is_precinct_header ''Ballots Cast - Blank 2 0 1 1''
   \<and> \<not> ew_column_header (strip ''Registered Voters - Total 20'')
   \<and> \<not> ew_column_header (strip ''Ballots Cast - Total 8 1 3 4'')
   \<and> \<not> ew_column_header (strip ''Ballots Cast - Blank 2 0 1 1'')
   \<and> contains (strip ''Registered Voters - Total 20'') ''Registered Voters - Total''
   \<and> \<not> contains (strip ''Ballots Cast - Total 8 1 3 4'') ''Registered Voters - Total''
   \<and> contains (strip ''Ballots Cast - Total 8 1 3 4'') ''Ballots Cast - Total''
   \<and> \<not> contains (strip ''Ballots Cast - Blank 2 0 1 1'') ''Registered Voters - Total''
   \<and> \<not> contains (strip ''Ballots Cast - Blank 2 0 1 1'') ''Ballots Cast - Total''
   \<and> contains (strip ''Ballots Cast - Blank 2 0 1 1'') ''Ballots Cast - Blank''
   \<and> ''Precinct 2'' @ ''_registered''
       \<notin> set (precinct_stats_added (initial\<lparr>current_precinct := Some ''Precinct 2'',
                                              precinct_stats_added := [''Precinct 1_registered'']\<rparr>))
   \<and> ''Precinct 2'' @ ''_ballots''
       \<notin> set (precinct_stats_added (initial\<lparr>current_precinct := Some ''Precinct 2'',
                                              precinct_stats_added := [''Precinct 1_registered'']\<rparr>))
   \<and> ''Precinct 2'' @ ''_blank''
       \<notin> set (precinct_stats_added (initial\<lparr>current_precinct := Some ''Precinct 2'',
                                              precinct_stats_added := [''Precinct 1_registered'']\<rparr>))
   \<and> re_search registered_rx (strip ''Registered Voters - Total 20'') = Some [(1, ''20'')]
   \<and> int_commas (group [(1, ''20'')] 1) = Some 20
   \<and> re_search (stat4_rx ''Ballots Cast - Total'') (strip ''Ballots Cast - Total 8 1 3 4'')
       = Some [(4, ''4''), (3, ''3''), (2, ''1''), (1, ''8'')]
   \<and> ints4 [(4, ''4''), (3, ''3''), (2, ''1''), (1, ''8'')] 1 = Some (8, 1, 3, 4)
   \<and> re_search (stat4_rx ''Ballots Cast - Blank'') (strip ''Ballots Cast - Blank 2 0 1 1'')
       = Some [(4, ''1''), (3, ''1''), (2, ''0''), (1, ''2'')]
   \<and> ints4 [(4, ''1''), (3, ''1''), (2, ''0''), (1, ''2'')] 1 = Some (2, 0, 1, 1)
   \<and> ew_step ''Travis''
         (initial\<lparr>current_precinct := Some ''Precinct 2'',
                  precinct_stats_added := [''Precinct 1_registered'']\<rparr>)
         ''Registered Voters - Total 20''
       = add_flag
           (append_row (initial\<lparr>current_precinct := Some ''Precinct 2'',
                                precinct_stats_added := [''Precinct 1_registered'']\<rparr>)
              (row4 ''Travis'' ''Precinct 2'' ''Registered Voters'' '''' '''' '''' 20
                 (Str '''') (Str '''') (Str '''')))
           (''Precinct 2'' @ ''_registered'')
   \<and> ew_step ''Travis''
         (initial\<lparr>current_precinct := Some ''Precinct 2'',
                  precinct_stats_added := [''Precinct 1_registered'']\<rparr>)
         ''Ballots Cast - Total 8 1 3 4''
       = add_flag
           (append_row (initial\<lparr>current_precinct := Some ''Precinct 2'',
                                precinct_stats_added := [''Precinct 1_registered'']\<rparr>)
              (row4 ''Travis'' ''Precinct 2'' ''Ballots Cast'' '''' '''' '''' 8 (Num 1) (Num 3) (Num 4)))
           (''Precinct 2'' @ ''_ballots'')
   \<and> ew_step ''Travis''
         (initial\<lparr>current_precinct := Some ''Precinct 2'',
                  precinct_stats_added := [''Precinct 1_registered'']\<rparr>)
         ''Ballots Cast - Blank 2 0 1 1''
       = add_flag
           (append_row (initial\<lparr>current_precinct := Some ''Precinct 2'',
                                precinct_stats_added := [''Precinct 1_registered'']\<rparr>)
              (row4 ''Travis'' ''Precinct 2'' ''Ballots Cast - Blank'' '''' '''' '''' 2 (Num 0) (Num 1) (Num 1)))
           (''Precinct 2'' @ ''_blank'')
   \<and> fb_is_precinct_header ''1005''
   \<and> fb_step ''Fort Bend''
         (initial\<lparr>current_precinct := Some ''Precinct 1004'',
                  precinct_stats_added := [''Precinct 1004_registered'']\<rparr>) ''1005''
       = initial\<lparr>current_precinct := Some ''Precinct 1004'',
                  precinct_stats_added := [''Precinct 1004_registered'']\<rparr>
           \<lparr>current_precinct := Some (fb_precinct_name ''1005''), precinct_stats_added := []\<rparr>
   \<and> fb_precinct_name ''1005'' = ''Precinct 1005''
   \<and> \<not> fb_is_precinct_header ''Registered Voters - Total 10''
   \<and> stat_count ''Precinct 1004'' ''Registered Voters''
         (data (foldl (fb_step ''Fort Bend'') initial
                  ([''1004''] @ [''Registered Voters - Total 10'', ''Registered Voters - Total 10''])))
       \<le> stat_count ''Precinct 1004'' ''Registered Voters''
            (data (foldl (fb_step ''Fort Bend'') initial [''1004''])) + 1
   \<and> current_precinct (initial\<lparr>current_precinct := Some ''Precinct 1005''\<rparr>) = Some ''Precinct 1005''
   \<and> \<not> fb_is_precinct_header ''Registered Voters - Total 20''
   \<and> \<not> fb_is_precinct_header ''Ballots Cast - Total 8 1 3 4''
   \<and> \<not> fb_is_precinct_header ''Ballots Cast - Blank 2 0 1 1''
   \<and> ''Precinct 1005'' @ ''_registered''
       \<notin> set (precinct_stats_added (initial\<lparr>current_precinct := Some ''Precinct 1005''\<rparr>))
   \<and> ''Precinct 1005'' @ ''_ballots''
       \<notin> set (precinct_stats_added (initial\<lparr>current_precinct := Some ''Precinct 1005''\<rparr>))
   \<and> ''Precinct 1005'' @ ''_blank''
       \<notin> set (precinct_stats_added (initial\<lparr>current_precinct := Some ''Precinct 1005''\<rparr>))
   \<and> fb_step ''Fort Bend'' (initial\<lparr>current_precinct := Some ''Precinct 1005''\<rparr>)
         ''Registered Voters - Total 20''
       = add_flag
           (append_row (initial\<lparr>current_precinct := Some ''Precinct 1005''\<rparr>)
              (row4 ''Fort Bend'' ''Precinct 1005'' ''Registered Voters'' '''' '''' '''' 20
                 (Str '''') (Str '''') (Str '''')))
           (''Precinct 1005'' @ ''_registered'')
   \<and> fb_step ''Fort Bend'' (initial\<lparr>current_precinct := Some ''Precinct 1005''\<rparr>)
         ''Ballots Cast - Total 8 1 3 4''
       = add_flag
           (append_row (initial\<lparr>current_precinct := Some ''Precinct 1005''\<rparr>)
              (row4 ''Fort Bend'' ''Precinct 1005'' ''Ballots Cast'' '''' '''' '''' 8 (Num 3) (Num 4) (Num 1)))
           (''Precinct 1005'' @ ''_ballots'')
   \<and> fb_step ''Fort Bend'' (initial\<lparr>current_precinct := Some ''Precinct 1005''\<rparr>)
         ''Ballots Cast - Blank 2 0 1 1''
       = add_flag
           (append_row (initial\<lparr>current_precinct := Some ''Precinct 1005''\<rparr>)
              (row4 ''Fort Bend'' ''Precinct 1005'' ''Ballots Cast - Blank'' '''' '''' '''' 2 (Num 1) (Num 1) (Num 0)))
           (''Precinct 1005'' @ ''_blank'')"
proof -
  let ?T = "''Precinct 1\<newline>Registered Voters - Total 10\<newline>Registered Voters - Total 10\<newline>Precinct 2\<newline>Registered Voters - Total 20''"
  let ?ls = "[''Precinct 1'', ''Registered Voters - Total 10'', ''Precinct 2'', ''Registered Voters - Total 20'']"
  let ?EA = "initial\<lparr>current_precinct := Some ''Precinct 1'',
                      precinct_stats_added := [''Precinct 1_registered'']\<rparr>"
  let ?E = "initial\<lparr>current_precinct := Some ''Precinct 2'',
                     precinct_stats_added := [''Precinct 1_registered'']\<rparr>"
  let ?FA = "initial\<lparr>current_precinct := Some ''Precinct 1004'',
                      precinct_stats_added := [''Precinct 1004_registered'']\<rparr>"
  let ?F = "initial\<lparr>current_precinct := Some ''Precinct 1005''\<rparr>"
  let ?R = "''Registered Voters - Total 20''"
  let ?B = "''Ballots Cast - Total 8 1 3 4''"
  let ?K = "''Ballots Cast - Blank 2 0 1 1''"
  let ?GR = "[(1 :: nat, ''20'')]"
  let ?GB = "[(4 :: nat, ''4''), (3, ''3''), (2, ''1''), (1, ''8'')]"
  let ?GK = "[(4 :: nat, ''1''), (3, ''1''), (2, ''0''), (1, ''2'')]"
  let ?seg = "[''Registered Voters - Total 10'', ''Registered Voters - Total 10'']"
  note c2 = conjunct2
  note t0 = statistics_once_per_precinct
  have o: "''Registered Voters'' \<in> set stat_offices" by (simp add: stat_offices_def)
  have parsed: "ew_parse_election_data ?T ''Travis''
       = [row4 ''Travis'' ''Precinct 1'' ''Registered Voters'' '''' '''' '''' 10 (Str '''') (Str '''') (Str ''''),
          row4 ''Travis'' ''Precinct 2'' ''Registered Voters'' '''' '''' '''' 20 (Str '''') (Str '''') (Str '''')]"
    by code_simp
  have once: "stat_count ''Precinct 1'' ''Registered Voters'' (ew_parse_election_data ?T ''Travis'') \<le> 1"
    by (rule t0 [where office = "''Registered Voters''" and p = "''Precinct 1''" and pdf_text = ?T
          and county = "''Travis''", THEN conjunct1, THEN mp, OF o])
  have exact: "stat_count ''Precinct 2'' ''Registered Voters'' (data (foldl (ew_step ''Travis'') initial ?ls))
       = (if ''Precinct 2'' @ stat_flag ''Registered Voters''
               \<in> set (precinct_stats_added (foldl (ew_step ''Travis'') initial ?ls))
          then 1 else 0)"
    by (rule t0 [where office = "''Registered Voters''" and p = "''Precinct 2''" and ls = ?ls
          and county = "''Travis''", THEN c2, THEN conjunct1, THEN mp, OF o])
  have one: "stat_count ''Precinct 2'' ''Registered Voters'' (data (foldl (ew_step ''Travis'') initial ?ls)) = 1"
    by code_simp
  have ehdr: "ew_is_precinct_header ''Precinct 2''" by code_simp
  have estep: "ew_step ''Travis'' ?EA ''Precinct 2''
       = ?EA\<lparr>current_precinct := Some (ew_precinct_name ''Precinct 2'')\<rparr>"
    by (rule t0 [where raw = "''Precinct 2''" and st = ?EA and county = "''Travis''",
          THEN c2, THEN c2, THEN c2, THEN conjunct1, THEN mp, OF ehdr])
  have ename: "ew_precinct_name ''Precinct 2'' = ''Precinct 2''" by code_simp
  have cpE: "current_precinct ?E = Some ''Precinct 2''" by simp
  have nhR: "\<not> ew_is_precinct_header ?R" by code_simp
  have nhB: "\<not> ew_is_precinct_header ?B" by code_simp
  have nhK: "\<not> ew_is_precinct_header ?K" by code_simp
  have ncR: "\<not> ew_column_header (strip ?R)" by code_simp
  have ncB: "\<not> ew_column_header (strip ?B)" by code_simp
  have ncK: "\<not> ew_column_header (strip ?K)" by code_simp
  have mR: "contains (strip ?R) ''Registered Voters - Total''" by code_simp
  have nrB: "\<not> contains (strip ?B) ''Registered Voters - Total''" by code_simp
  have mB: "contains (strip ?B) ''Ballots Cast - Total''" by code_simp
  have nrK: "\<not> contains (strip ?K) ''Registered Voters - Total''" by code_simp
  have nbK: "\<not> contains (strip ?K) ''Ballots Cast - Total''" by code_simp
  have mK: "contains (strip ?K) ''Ballots Cast - Blank''" by code_simp
  have fR: "''Precinct 2'' @ ''_registered'' \<notin> set (precinct_stats_added ?E)" by simp
  have fB: "''Precinct 2'' @ ''_ballots'' \<notin> set (precinct_stats_added ?E)" by simp
  have fK: "''Precinct 2'' @ ''_blank'' \<notin> set (precinct_stats_added ?E)" by simp
  have gR: "re_search registered_rx (strip ?R) = Some ?GR" by code_simp
  have iR: "int_commas (group ?GR 1) = Some 20" by code_simp
  have gB: "re_search (stat4_rx ''Ballots Cast - Total'') (strip ?B) = Some ?GB" by code_simp
  have iB: "ints4 ?GB 1 = Some (8, 1, 3, 4)" by code_simp
  have gK: "re_search (stat4_rx ''Ballots Cast - Blank'') (strip ?K) = Some ?GK" by code_simp
  have iK: "ints4 ?GK 1 = Some (2, 0, 1, 1)" by code_simp
  have cR: "ew_step ''Travis'' ?E ?R
       = add_flag (append_row ?E (row4 ''Travis'' ''Precinct 2'' ''Registered Voters'' '''' '''' '''' 20
                                    (Str '''') (Str '''') (Str '''')))
           (''Precinct 2'' @ ''_registered'')"
    by (rule t0 [where st = ?E and cp = "''Precinct 2''" and raw = ?R and g = ?GR and v = 20
          and county = "''Travis''", THEN c2, THEN c2, THEN c2, THEN c2, THEN conjunct1, THEN mp])
      (intro conjI cpE nhR ncR mR fR gR iR)
  have cB: "ew_step ''Travis'' ?E ?B
       = add_flag (append_row ?E (row4 ''Travis'' ''Precinct 2'' ''Ballots Cast'' '''' '''' '''' 8
                                    (Num 1) (Num 3) (Num 4)))
           (''Precinct 2'' @ ''_ballots'')"
    by (rule t0 [where st = ?E and cp = "''Precinct 2''" and raw = ?B and g = ?GB
          and total_ballots = 8 and absentee = 1 and early = 3 and election_day = 4
          and county = "''Travis''", THEN c2, THEN c2, THEN c2, THEN c2, THEN c2, THEN conjunct1, THEN mp])
      (intro conjI cpE nhB ncB nrB mB fB gB iB)
  have cK: "ew_step ''Travis'' ?E ?K
       = add_flag (append_row ?E (row4 ''Travis'' ''Precinct 2'' ''Ballots Cast - Blank'' '''' '''' '''' 2
                                    (Num 0) (Num 1) (Num 1)))
           (''Precinct 2'' @ ''_blank'')"
    by (rule t0 [where st = ?E and cp = "''Precinct 2''" and raw = ?K and g = ?GK
          and total_ballots = 2 and absentee = 0 and early = 1 and election_day = 1
          and county = "''Travis''", THEN c2, THEN c2, THEN c2, THEN c2, THEN c2, THEN c2,
          THEN conjunct1, THEN mp])
      (intro conjI cpE nhK ncK nrK nbK mK fK gK iK)
  have fhdr: "fb_is_precinct_header ''1005''" by code_simp
  have fclr: "fb_step ''Fort Bend'' ?FA ''1005''
       = ?FA\<lparr>current_precinct := Some (fb_precinct_name ''1005''), precinct_stats_added := []\<rparr>"
    by (rule t0 [where raw = "''1005''" and st = ?FA and county = "''Fort Bend''",
          THEN c2, THEN c2, THEN c2, THEN c2, THEN c2, THEN c2, THEN c2, THEN conjunct1, THEN mp, OF fhdr])
  have fname: "fb_precinct_name ''1005'' = ''Precinct 1005''" by code_simp
  have nh10: "\<not> fb_is_precinct_header ''Registered Voters - Total 10''" by code_simp
  have nhs: "\<forall>l \<in> set ?seg. \<not> fb_is_precinct_header l" using nh10 by simp
  have run: "stat_count ''Precinct 1004'' ''Registered Voters''
         (data (foldl (fb_step ''Fort Bend'') initial ([''1004''] @ ?seg)))
       \<le> stat_count ''Precinct 1004'' ''Registered Voters''
            (data (foldl (fb_step ''Fort Bend'') initial [''1004''])) + 1"
    by (rule t0 [where seg = ?seg and pre = "[''1004'']" and office = "''Registered Voters''"
          and p = "''Precinct 1004''" and county = "''Fort Bend''",
          THEN c2, THEN c2, THEN c2, THEN c2, THEN c2, THEN c2, THEN c2, THEN c2, THEN conjunct1,
          THEN mp, OF conjI [OF nhs o]])
  have cpF: "current_precinct ?F = Some ''Precinct 1005''" by simp
  have nfR: "\<not> fb_is_precinct_header ?R" by code_simp
  have nfB: "\<not> fb_is_precinct_header ?B" by code_simp
  have nfK: "\<not> fb_is_precinct_header ?K" by code_simp
  have ffR: "''Precinct 1005'' @ ''_registered'' \<notin> set (precinct_stats_added ?F)"
    by (simp add: initial_def)
  have ffB: "''Precinct 1005'' @ ''_ballots'' \<notin> set (precinct_stats_added ?F)"
    by (simp add: initial_def)
  have ffK: "''Precinct 1005'' @ ''_blank'' \<notin> set (precinct_stats_added ?F)"
    by (simp add: initial_def)
  have dR: "fb_step ''Fort Bend'' ?F ?R
       = add_flag (append_row ?F (row4 ''Fort Bend'' ''Precinct 1005'' ''Registered Voters'' '''' '''' '''' 20
                                    (Str '''') (Str '''') (Str '''')))
           (''Precinct 1005'' @ ''_registered'')"
    by (rule t0 [where st = ?F and cp = "''Precinct 1005''" and raw = ?R and g = ?GR and v = 20
          and county = "''Fort Bend''", THEN c2, THEN c2, THEN c2, THEN c2, THEN c2, THEN c2, THEN c2,
          THEN c2, THEN c2, THEN conjunct1, THEN mp])
      (intro conjI cpF nfR mR ffR gR iR)
  have dB: "fb_step ''Fort Bend'' ?F ?B
       = add_flag (append_row ?F (row4 ''Fort Bend'' ''Precinct 1005'' ''Ballots Cast'' '''' '''' '''' 8
                                    (Num 3) (Num 4) (Num 1)))
           (''Precinct 1005'' @ ''_ballots'')"
    by (rule t0 [where st = ?F and cp = "''Precinct 1005''" and raw = ?B and g = ?GB
          and total_ballots = 8 and election_day = 1 and absentee = 3 and early = 4
          and county = "''Fort Bend''", THEN c2, THEN c2, THEN c2, THEN c2, THEN c2, THEN c2, THEN c2,
          THEN c2, THEN c2, THEN c2, THEN conjunct1, THEN mp])
      (intro conjI cpF nfB nrB mB ffB gB iB)
  have dK: "fb_step ''Fort Bend'' ?F ?K
       = add_flag (append_row ?F (row4 ''Fort Bend'' ''Precinct 1005'' ''Ballots Cast - Blank'' '''' '''' '''' 2
                                    (Num 1) (Num 1) (Num 0)))
           (''Precinct 1005'' @ ''_blank'')"
    by (rule t0 [where st = ?F and cp = "''Precinct 1005''" and raw = ?K and g = ?GK
          and total_ballots = 2 and election_day = 0 and absentee = 1 and early = 1
          and county = "''Fort Bend''", THEN c2, THEN c2, THEN c2, THEN c2, THEN c2, THEN c2, THEN c2,
          THEN c2, THEN c2, THEN c2, THEN c2, THEN mp])
      (intro conjI cpF nfK nrK nbK mK ffK gK iK)
  from o parsed once exact one ehdr estep ename cpE nhR nhB nhK ncR ncB ncK mR nrB mB
    nrK nbK mK fR fB fK gR iR gB iB gK iK cR cB cK fhdr fclr fname nh10 run cpF nfR nfB nfK
    ffR ffB ffK dR dB dK
  show ?thesis by (intro conjI)
qed

text \<open>
  The two parsers that keep flags differ. In \<^verbatim>\<open>electionware.py\<close> the flag of the first precinct
  is still set after the header of the second. In \<^verbatim>\<open>fort_bend.py\<close>, which empties the set at
  every precinct header, a precinct whose header comes twice gets its statistics twice.
\<close>

theorem statistics_flags_counterexample:
  "precinct_stats_added
     (foldl (ew_step ''Travis'') initial [''Precinct 1'', ''Registered Voters - Total 10'', ''Precinct 2''])
   = [''Precinct 1_registered'']
   \<and> fb_parse_election_data
         ''1004\<newline>Registered Voters - Total 10\<newline>1004\<newline>Registered Voters - Total 10'' ''Fort Bend''
       = [row4 ''Fort Bend'' ''Precinct 1004'' ''Registered Voters'' '''' '''' '''' 10 (Str '''') (Str '''') (Str ''''),
          row4 ''Fort Bend'' ''Precinct 1004'' ''Registered Voters'' '''' '''' '''' 10 (Str '''') (Str '''') (Str '''')]"
  by code_simp

end
